theory Spec2Isabelle
  imports Main "HOL-Library.Word"
begin

section \<open>Formatting done by the C library\<close>

text \<open>
  The controller builds every dynamic string with \<open>asprintf\<close>. Only four conversions
  occur in \<open>server.c\<close>: \<open>%s\<close>, \<open>%08x\<close>, the unsigned decimal conversions
  (\<open>PRIu16\<close>, \<open>PRIu32\<close>) and the signed decimal conversion \<open>PRIi8\<close>.
\<close>

definition digit_char :: "nat \<Rightarrow> char" where
  "digit_char d = ''0123456789abcdef'' ! (d mod 16)"

function fmt_radix :: "nat \<Rightarrow> nat \<Rightarrow> string" where
  "fmt_radix b n =
     (if n < b \<or> b < 2 then [digit_char n]
      else fmt_radix b (n div b) @ [digit_char (n mod b)])"
  by pat_completeness auto
termination
  by (relation "measure (\<lambda>(b, n). n)") auto

declare fmt_radix.simps [simp del]

definition pad0 :: "nat \<Rightarrow> string \<Rightarrow> string" where
  "pad0 w str = replicate (w - length str) (CHR ''0'') @ str"

definition fmt_08x :: "32 word \<Rightarrow> string" where
  "fmt_08x v = pad0 8 (fmt_radix 16 (unat v))"

definition fmt_u32 :: "32 word \<Rightarrow> string" where
  "fmt_u32 v = fmt_radix 10 (unat v)"

definition fmt_u16 :: "16 word \<Rightarrow> string" where
  "fmt_u16 v = fmt_radix 10 (unat v)"

definition fmt_i8 :: "8 word \<Rightarrow> string" where
  "fmt_i8 v =
     (if sint v < 0 then CHR ''-'' # fmt_radix 10 (nat (- sint v))
      else fmt_radix 10 (nat (sint v)))"

text \<open>Reading a hexadecimal string back, used to state what a formatted value denotes.\<close>

definition hex_digit_value :: "char \<Rightarrow> nat" where
  "hex_digit_value c =
     (let n = (of_char c :: nat) in if 48 \<le> n \<and> n \<le> 57 then n - 48 else n - 87)"

definition hex_value :: "string \<Rightarrow> nat" where
  "hex_value str = foldl (\<lambda>acc c. 16 * acc + hex_digit_value c) 0 str"

definition is_lower_hex :: "char \<Rightarrow> bool" where
  "is_lower_hex c = (c \<in> set ''0123456789abcdef'')"

section \<open>Configuration\<close>

text \<open>
  The enumerations and \<open>struct sc_server_params\<close> are declared in headers that are
  not part of \<open>server.c\<close>; they are written here as \<open>server.c\<close> uses them. Nullable
  C strings are \<open>string option\<close>, with \<open>None\<close> for \<open>NULL\<close>.
\<close>

datatype sc_log_level =
  SC_LOG_LEVEL_VERBOSE | SC_LOG_LEVEL_DEBUG | SC_LOG_LEVEL_INFO
| SC_LOG_LEVEL_WARN | SC_LOG_LEVEL_ERROR

datatype sc_codec =
  SC_CODEC_H264 | SC_CODEC_H265 | SC_CODEC_AV1
| SC_CODEC_OPUS | SC_CODEC_AAC | SC_CODEC_RAW

datatype sc_video_source = SC_VIDEO_SOURCE_DISPLAY | SC_VIDEO_SOURCE_CAMERA

datatype sc_audio_source = SC_AUDIO_SOURCE_OUTPUT | SC_AUDIO_SOURCE_MIC

datatype sc_camera_position =
  SC_CAMERA_POSITION_ALL | SC_CAMERA_POSITION_FRONT
| SC_CAMERA_POSITION_BACK | SC_CAMERA_POSITION_EXTERNAL

record sc_server_params =
  scid :: "32 word"
  req_serial :: "string option"
  log_level :: sc_log_level
  video_codec :: sc_codec
  audio_codec :: sc_codec
  video_source :: sc_video_source
  audio_source :: sc_audio_source
  crop :: "string option"
  video_codec_options :: "string option"
  audio_codec_options :: "string option"
  video_encoder :: "string option"
  audio_encoder :: "string option"
  camera_id :: "string option"
  camera_position :: sc_camera_position
  port_range :: "16 word \<times> 16 word"
  tunnel_host :: "32 word"
  tunnel_port :: "16 word"
  max_size :: "16 word"
  video_bit_rate :: "32 word"
  audio_bit_rate :: "32 word"
  max_fps :: "16 word"
  lock_video_orientation :: "8 word"
  control :: bool
  display_id :: "32 word"
  video :: bool
  audio :: bool
  show_touches :: bool
  stay_awake :: bool
  force_adb_forward :: bool
  power_off_on_close :: bool
  clipboard_autosync :: bool
  downsize_on_error :: bool
  tcpip :: bool
  tcpip_dst :: "string option"
  select_usb :: bool
  select_tcpip :: bool
  cleanup :: bool
  power_on :: bool
  list_encoders :: bool
  list_displays :: bool
  list_cameras :: bool
  kill_adb_on_close :: bool

definition SC_SERVER_FILENAME :: string where
  "SC_SERVER_FILENAME = ''scrcpy-server''"

definition SC_DEVICE_SERVER_PATH :: string where
  "SC_DEVICE_SERVER_PATH = ''/data/local/tmp/scrcpy-server.jar''"

definition SC_ADB_PORT_DEFAULT :: "16 word" where
  "SC_ADB_PORT_DEFAULT = 5555"

definition SC_SOCKET_NAME_PREFIX :: string where
  "SC_SOCKET_NAME_PREFIX = ''scrcpy_''"

definition SC_LOCK_VIDEO_ORIENTATION_UNLOCKED :: "8 word" where
  \<comment> \<open>Declared in \<open>options.h\<close>, which is not among the sources; upstream value \<open>-1\<close>.\<close>
  "SC_LOCK_VIDEO_ORIENTATION_UNLOCKED = - 1"

definition IPV4_LOCALHOST :: "32 word" where
  \<comment> \<open>Declared in \<open>util/net.h\<close>, which is not among the sources: 127.0.0.1.\<close>
  "IPV4_LOCALHOST = 0x7F000001"

definition SC_DEVICE_NAME_FIELD_LENGTH :: nat where
  \<comment> \<open>Modelled from the spec: the macro is declared in \<open>server.h\<close>, which is not among the
      sources; the spec's first end-to-end scenario reads a 64-byte name field.\<close>
  "SC_DEVICE_NAME_FIELD_LENGTH = 64"

fun log_level_to_server_string :: "sc_log_level \<Rightarrow> string" where
  "log_level_to_server_string SC_LOG_LEVEL_VERBOSE = ''verbose''"
| "log_level_to_server_string SC_LOG_LEVEL_DEBUG = ''debug''"
| "log_level_to_server_string SC_LOG_LEVEL_INFO = ''info''"
| "log_level_to_server_string SC_LOG_LEVEL_WARN = ''warn''"
| "log_level_to_server_string SC_LOG_LEVEL_ERROR = ''error''"

fun sc_server_get_codec_name :: "sc_codec \<Rightarrow> string" where
  "sc_server_get_codec_name SC_CODEC_H264 = ''h264''"
| "sc_server_get_codec_name SC_CODEC_H265 = ''h265''"
| "sc_server_get_codec_name SC_CODEC_AV1 = ''av1''"
| "sc_server_get_codec_name SC_CODEC_OPUS = ''opus''"
| "sc_server_get_codec_name SC_CODEC_AAC = ''aac''"
| "sc_server_get_codec_name SC_CODEC_RAW = ''raw''"

subsection \<open>The key=value arguments of \<open>execute_server\<close>\<close>

text \<open>
  \<open>execute_server\<close> is a straight sequence of guarded \<open>ADD_PARAM\<close> uses. Each guard
  reads only the parameters and \<open>server->tunnel.forward\<close>, so the strings that the
  macro is asked to format, in order, are a function of those two.
\<close>

definition add_param_if :: "bool \<Rightarrow> string \<Rightarrow> string list" where
  "add_param_if c v = (if c then [v] else [])"

definition add_param_str :: "string option \<Rightarrow> string \<Rightarrow> string list" where
  "add_param_str v k = (case v of None \<Rightarrow> [] | Some x \<Rightarrow> [k @ x])"

fun camera_position_param :: "sc_camera_position \<Rightarrow> string list" where
  "camera_position_param SC_CAMERA_POSITION_FRONT = [''camera_position=front'']"
| "camera_position_param SC_CAMERA_POSITION_BACK = [''camera_position=back'']"
| "camera_position_param SC_CAMERA_POSITION_EXTERNAL = [''camera_position=external'']"
| "camera_position_param SC_CAMERA_POSITION_ALL = []"

definition execute_server_params :: "sc_server_params \<Rightarrow> bool \<Rightarrow> string list" where
  "execute_server_params p tunnel_forward =
     [''scid='' @ fmt_08x (scid p)]
   @ [''log_level='' @ log_level_to_server_string (log_level p)]
   @ add_param_if (\<not> video p) ''video=false''
   @ add_param_if (video_bit_rate p \<noteq> 0) (''video_bit_rate='' @ fmt_u32 (video_bit_rate p))
   @ add_param_if (\<not> audio p) ''audio=false''
   @ add_param_if (audio_bit_rate p \<noteq> 0) (''audio_bit_rate='' @ fmt_u32 (audio_bit_rate p))
   @ add_param_if (video_codec p \<noteq> SC_CODEC_H264)
       (''video_codec='' @ sc_server_get_codec_name (video_codec p))
   @ add_param_if (audio_codec p \<noteq> SC_CODEC_OPUS)
       (''audio_codec='' @ sc_server_get_codec_name (audio_codec p))
   @ add_param_if (video_source p \<noteq> SC_VIDEO_SOURCE_DISPLAY) ''video_source=camera''
   @ add_param_if (audio_source p \<noteq> SC_AUDIO_SOURCE_OUTPUT) ''audio_source=mic''
   @ add_param_if (max_size p \<noteq> 0) (''max_size='' @ fmt_u16 (max_size p))
   @ add_param_if (max_fps p \<noteq> 0) (''max_fps='' @ fmt_u16 (max_fps p))
   @ add_param_if (lock_video_orientation p \<noteq> SC_LOCK_VIDEO_ORIENTATION_UNLOCKED)
       (''lock_video_orientation='' @ fmt_i8 (lock_video_orientation p))
   @ add_param_if tunnel_forward ''tunnel_forward=true''
   @ add_param_str (crop p) ''crop=''
   @ add_param_if (\<not> control p) ''control=false''
   @ add_param_if (video_source p = SC_VIDEO_SOURCE_DISPLAY \<and> display_id p \<noteq> 0)
       (''display_id='' @ fmt_u32 (display_id p))
   @ (if video_source p = SC_VIDEO_SOURCE_CAMERA
      then add_param_str (camera_id p) ''camera_id='' else [])
   @ (if video_source p = SC_VIDEO_SOURCE_CAMERA
          \<and> camera_position p \<noteq> SC_CAMERA_POSITION_ALL
      then camera_position_param (camera_position p) else [])
   @ add_param_if (show_touches p) ''show_touches=true''
   @ add_param_if (stay_awake p) ''stay_awake=true''
   @ add_param_str (video_codec_options p) ''video_codec_options=''
   @ add_param_str (audio_codec_options p) ''audio_codec_options=''
   @ add_param_str (video_encoder p) ''video_encoder=''
   @ add_param_str (audio_encoder p) ''audio_encoder=''
   @ add_param_if (power_off_on_close p) ''power_off_on_close=true''
   @ add_param_if (\<not> clipboard_autosync p) ''clipboard_autosync=false''
   @ add_param_if (\<not> downsize_on_error p) ''downsize_on_error=false''
   @ add_param_if (\<not> cleanup p) ''cleanup=false''
   @ add_param_if (\<not> power_on p) ''power_on=false''
   @ add_param_if (list_encoders p) ''list_encoders=true''
   @ add_param_if (list_displays p) ''list_displays=true''
   @ add_param_if (list_cameras p) ''list_cameras=true''"

text \<open>The key of an argument is what stands before its first \<open>=\<close>.\<close>

definition key_of :: "string \<Rightarrow> string" where
  "key_of a = takeWhile (\<lambda>c. c \<noteq> CHR ''='') a"

definition args_of_key :: "string \<Rightarrow> string list \<Rightarrow> string list" where
  "args_of_key k args = filter (\<lambda>a. key_of a = k) args"

text \<open>
  The server-side defaults that the spec documents (section 4.F): the boolean options
  default to true, the codecs to \<open>h264\<close> and \<open>opus\<close>, the sources to the display and the
  device output, and the numeric options to zero.
\<close>

definition documented_defaults :: "string list" where
  "documented_defaults =
     [''video=true'', ''audio=true'', ''control=true'', ''clipboard_autosync=true'',
      ''downsize_on_error=true'', ''cleanup=true'', ''power_on=true'',
      ''video_codec=h264'', ''audio_codec=opus'',
      ''video_bit_rate=0'', ''audio_bit_rate=0'', ''max_size=0'', ''max_fps=0'',
      ''video_source=display'', ''audio_source=output'', ''display_id=0'']"

section \<open>Controller state and its environment\<close>

text \<open>
  Everything the controller does to the outside world goes through functions that are
  declared elsewhere (the bridge client, sockets, processes, the allocator). Each such
  call appends an event to a trace kept in the state, and takes its answer from an
  environment record, so that every possible answer is a branch of the model.
\<close>

type_synonym sc_socket = "nat option" \<comment> \<open>\<open>None\<close> is \<open>SC_SOCKET_NONE\<close>\<close>

type_synonym sc_pid = "nat option" \<comment> \<open>\<open>None\<close> is \<open>SC_PROCESS_NONE\<close>\<close>

datatype adb_flag = SC_ADB_NO_STDOUT | SC_ADB_NO_STDERR | SC_ADB_NO_LOGERR | SC_ADB_SILENT

datatype sc_adb_device_selector =
  SC_ADB_DEVICE_SELECT_SERIAL string
| SC_ADB_DEVICE_SELECT_USB
| SC_ADB_DEVICE_SELECT_TCPIP
| SC_ADB_DEVICE_SELECT_ALL

datatype callback = ON_CONNECTION_FAILED | ON_CONNECTED | ON_DISCONNECTED

datatype event =
  EvAdbStartServer
| EvAdbSelectDevice sc_adb_device_selector
| EvAdbGetDeviceIp string
| EvAdbGetprop string string "adb_flag list"
| EvAdbTcpip string "16 word" "adb_flag list"
| EvAdbDisconnect string "adb_flag list"
| EvAdbConnect string "adb_flag list"
| EvAdbPush string string string
| EvAdbExecute "string option list"
| EvAdbTunnelOpen string string
| EvAdbTunnelClose
| EvAdbKillServer "adb_flag list"
| EvNetSocket nat
| EvNetAccept nat
| EvNetConnect nat "32 word" "16 word"
| EvNetRecv nat nat
| EvNetRecvAll sc_socket nat
| EvNetClose nat
| EvNetInterrupt nat
| EvSleep nat
| EvCondWait
| EvIntrInterrupt
| EvProcessWait nat
| EvProcessClose nat
| EvProcessTerminate nat
| EvObserverInit nat
| EvObserverTimedwait nat
| EvObserverJoin
| EvObserverDestroy
| EvAlloc nat
| EvFree nat
| EvFreeStatic string
| EvCallback callback

record sc_adb_tunnel =
  enabled :: bool
  forward :: bool
  server_socket :: sc_socket
  local_port :: "16 word"

text \<open>
  \<open>struct sc_server\<close>, followed by the bookkeeping of the model: the trace and one
  counter per kind of repeated external call. The \<open>stopped\<close> flag is written by another
  thread only; what the worker reads from it comes from the environment.
\<close>

record sc_server =
  params :: sc_server_params
  serial :: "string option"
  device_socket_name :: "string option"
  tunnel :: sc_adb_tunnel
  video_socket :: sc_socket
  audio_socket :: sc_socket
  control_socket :: sc_socket
  device_name :: "8 word list"
  trace :: "event list"
  n_alloc :: nat
  n_fd :: nat
  n_sleep :: nat
  n_getprop :: nat
  n_intr :: nat

text \<open>
  When the remote process ends by itself: before the worker has gone through the
  connection phase, later while the worker waits for \<open>stop()\<close>, or not before the worker
  stops it.
\<close>

datatype exit_point = EXIT_EARLY | EXIT_CONNECTED | EXIT_ON_STOP

record env =
  e_adb_executable :: string
  e_scrcpy_version :: string
  e_prefix :: string
  e_portable :: bool
  e_getenv :: "string \<Rightarrow> string option"
  e_local_path :: "string option"
  e_is_regular :: "string \<Rightarrow> bool"
  e_start_server :: bool
  e_select_device :: "sc_adb_device_selector \<Rightarrow> string option"
  e_device_is_tcpip :: "string \<Rightarrow> bool"
  e_get_device_ip :: "string option"
  e_getprop :: "nat \<Rightarrow> string option"
  e_parse_integer :: "string \<Rightarrow> int option"
  e_tcpip :: bool
  e_adb_connect :: bool
  e_push :: bool
  e_tunnel_open :: "(bool \<times> sc_socket \<times> 16 word) option"
  e_execute :: sc_pid
  e_observer_init :: bool
  e_observer_timedwait :: bool
  e_remote_exit :: exit_point
  e_stop_requested :: bool
  e_alloc :: "nat \<Rightarrow> bool"
  e_sleep :: "nat \<Rightarrow> bool"
  e_net_socket :: "nat \<Rightarrow> bool"
  e_net_accept :: "nat \<Rightarrow> bool"
  e_net_connect :: "nat \<Rightarrow> bool"
  e_net_recv :: "nat \<Rightarrow> int"
  e_net_recv_all :: "nat \<Rightarrow> 8 word list option"
  e_interrupted :: "nat \<Rightarrow> bool"

definition emit :: "event \<Rightarrow> sc_server \<Rightarrow> sc_server" where
  "emit e s = s\<lparr>trace := trace s @ [e]\<rparr>"

definition callbacks :: "event list \<Rightarrow> callback list" where
  "callbacks tr = concat (map (\<lambda>e. case e of EvCallback c \<Rightarrow> [c] | _ \<Rightarrow> []) tr)"

subsection \<open>External calls\<close>

text \<open>
  \<open>asprintf\<close> and \<open>strdup\<close>: the \<open>k\<close>-th allocation of a run succeeds when the
  environment says so; a successful one is identified by its index.
\<close>

definition asprintf :: "env \<Rightarrow> string \<Rightarrow> sc_server \<Rightarrow> nat option \<times> sc_server" where
  "asprintf env v s =
     (let k = n_alloc s; s1 = s\<lparr>n_alloc := Suc k\<rparr>
      in if e_alloc env k then (Some k, emit (EvAlloc k) s1) else (None, s1))"

definition strdup :: "env \<Rightarrow> string \<Rightarrow> sc_server \<Rightarrow> string option \<times> sc_server" where
  "strdup env v s =
     (case asprintf env v s of (None, s1) \<Rightarrow> (None, s1) | (Some k, s1) \<Rightarrow> (Some v, s1))"

definition strdup_ptr :: "env \<Rightarrow> string \<Rightarrow> sc_server \<Rightarrow> (nat \<times> string) option \<times> sc_server" where
  \<comment> \<open>\<open>strdup\<close> for a caller that frees the copy: the string comes with its allocation.\<close>
  "strdup_ptr env v s =
     (case asprintf env v s of (None, s1) \<Rightarrow> (None, s1) | (Some k, s1) \<Rightarrow> (Some (k, v), s1))"

definition free_ptr :: "nat \<Rightarrow> sc_server \<Rightarrow> sc_server" where
  \<comment> \<open>\<open>free\<close> of the string of allocation \<open>k\<close>.\<close>
  "free_ptr k s = emit (EvFree k) s"

definition sc_file_get_local_path ::
  "env \<Rightarrow> string \<Rightarrow> sc_server \<Rightarrow> (nat \<times> string) option \<times> sc_server" where
  \<comment> \<open>Modelled from the spec: \<open>util/file.c\<close> is not among the sources. The path of a file
      beside the executable, in a string that the caller frees, or \<open>NULL\<close>.\<close>
  "sc_file_get_local_path env name s =
     (case e_local_path env of
        None \<Rightarrow> (None, s)
      | Some path \<Rightarrow>
          (let k = n_alloc s in (Some (k, path), emit (EvAlloc k) (s\<lparr>n_alloc := Suc k\<rparr>))))"

definition sc_adb_start_server :: "env \<Rightarrow> sc_server \<Rightarrow> bool \<times> sc_server" where
  "sc_adb_start_server env s = (e_start_server env, emit EvAdbStartServer s)"

definition sc_adb_select_device ::
  "env \<Rightarrow> sc_adb_device_selector \<Rightarrow> sc_server \<Rightarrow> string option \<times> sc_server" where
  "sc_adb_select_device env selector s =
     (e_select_device env selector, emit (EvAdbSelectDevice selector) s)"

definition sc_adb_get_device_ip :: "env \<Rightarrow> string \<Rightarrow> sc_server \<Rightarrow> string option \<times> sc_server" where
  "sc_adb_get_device_ip env ser s = (e_get_device_ip env, emit (EvAdbGetDeviceIp ser) s)"

definition sc_adb_getprop ::
  "env \<Rightarrow> string \<Rightarrow> string \<Rightarrow> adb_flag list \<Rightarrow> sc_server \<Rightarrow> string option \<times> sc_server" where
  "sc_adb_getprop env ser prop flags s =
     (let k = n_getprop s
      in (e_getprop env k, emit (EvAdbGetprop ser prop flags) (s\<lparr>n_getprop := Suc k\<rparr>)))"

definition sc_adb_tcpip ::
  "env \<Rightarrow> string \<Rightarrow> 16 word \<Rightarrow> adb_flag list \<Rightarrow> sc_server \<Rightarrow> bool \<times> sc_server" where
  "sc_adb_tcpip env ser port flags s = (e_tcpip env, emit (EvAdbTcpip ser port flags) s)"

definition sc_adb_disconnect :: "env \<Rightarrow> string \<Rightarrow> adb_flag list \<Rightarrow> sc_server \<Rightarrow> sc_server" where
  "sc_adb_disconnect env ip_port flags s = emit (EvAdbDisconnect ip_port flags) s"

definition sc_adb_connect ::
  "env \<Rightarrow> string \<Rightarrow> adb_flag list \<Rightarrow> sc_server \<Rightarrow> bool \<times> sc_server" where
  "sc_adb_connect env ip_port flags s = (e_adb_connect env, emit (EvAdbConnect ip_port flags) s)"

definition sc_adb_push ::
  "env \<Rightarrow> string \<Rightarrow> string \<Rightarrow> string \<Rightarrow> sc_server \<Rightarrow> bool \<times> sc_server" where
  "sc_adb_push env ser local remote s = (e_push env, emit (EvAdbPush ser local remote) s)"

definition sc_adb_execute ::
  "env \<Rightarrow> string option list \<Rightarrow> sc_server \<Rightarrow> sc_pid \<times> sc_server" where
  "sc_adb_execute env argv s = (e_execute env, emit (EvAdbExecute argv) s)"

definition sc_adb_kill_server :: "env \<Rightarrow> adb_flag list \<Rightarrow> sc_server \<Rightarrow> sc_server" where
  "sc_adb_kill_server env flags s = emit (EvAdbKillServer flags) s"

definition sc_adb_tunnel_init :: sc_adb_tunnel where
  \<comment> \<open>Modelled from the spec: \<open>adb_tunnel.c\<close> is not among the sources; a fresh tunnel is
      disabled and has no listener.\<close>
  "sc_adb_tunnel_init =
     \<lparr>enabled = False, forward = False, server_socket = None, local_port = 0\<rparr>"

definition sc_adb_tunnel_open ::
  "env \<Rightarrow> string \<Rightarrow> string \<Rightarrow> 16 word \<times> 16 word \<Rightarrow> bool \<Rightarrow> sc_server \<Rightarrow> bool \<times> sc_server" where
  \<comment> \<open>Modelled from the spec: \<open>adb_tunnel.c\<close> is not among the sources. The tunnel manager
      opens a reverse channel, or a forward one when forced or when reverse fails; it
      records the mode, the chosen local port and, in reverse mode, the host listener.\<close>
  "sc_adb_tunnel_open env ser name ports force_forward s =
     (let s1 = emit (EvAdbTunnelOpen ser name) s
      in case e_tunnel_open env of
           None \<Rightarrow> (False, s1)
         | Some (fwd, listener, port) \<Rightarrow>
             (True, s1\<lparr>tunnel :=
                \<lparr>enabled = True, forward = (fwd \<or> force_forward),
                 server_socket = (if fwd \<or> force_forward then None else listener),
                 local_port = port\<rparr>\<rparr>))"

definition sc_adb_tunnel_close :: "env \<Rightarrow> sc_server \<Rightarrow> sc_server" where
  \<comment> \<open>Modelled from the spec: \<open>adb_tunnel.c\<close> is not among the sources. Closing removes
      the mapping through the bridge, closes the host listener if any, and leaves the
      tunnel disabled.\<close>
  "sc_adb_tunnel_close env s =
     (emit EvAdbTunnelClose s)\<lparr>tunnel := (tunnel s)\<lparr>enabled := False\<rparr>\<rparr>"

text \<open>
  Sockets. A socket is identified by the index of the call that created it
  (\<open>net_socket\<close> or \<open>net_accept_intr\<close>); the environment decides, per socket, whether
  creating and connecting it work and what its peer sends.
\<close>

definition net_socket :: "env \<Rightarrow> sc_server \<Rightarrow> sc_socket \<times> sc_server" where
  "net_socket env s =
     (let k = n_fd s; s1 = s\<lparr>n_fd := Suc k\<rparr>
      in if e_net_socket env k then (Some k, emit (EvNetSocket k) s1) else (None, s1))"

definition net_accept_intr :: "env \<Rightarrow> sc_socket \<Rightarrow> sc_server \<Rightarrow> sc_socket \<times> sc_server" where
  "net_accept_intr env listener s =
     (let k = n_fd s; s1 = s\<lparr>n_fd := Suc k\<rparr>
      in if e_net_accept env k then (Some k, emit (EvNetAccept k) s1) else (None, s1))"

definition net_connect_intr ::
  "env \<Rightarrow> nat \<Rightarrow> 32 word \<Rightarrow> 16 word \<Rightarrow> sc_server \<Rightarrow> bool \<times> sc_server" where
  "net_connect_intr env sock host port s =
     (e_net_connect env sock, emit (EvNetConnect sock host port) s)"

definition net_recv_intr :: "env \<Rightarrow> nat \<Rightarrow> nat \<Rightarrow> sc_server \<Rightarrow> int \<times> sc_server" where
  "net_recv_intr env sock len s = (e_net_recv env sock, emit (EvNetRecv sock len) s)"

definition net_recv_all_intr ::
  "env \<Rightarrow> sc_socket \<Rightarrow> nat \<Rightarrow> sc_server \<Rightarrow> int \<times> 8 word list \<times> sc_server" where
  \<comment> \<open>The peer's bytes up to end of stream are \<open>e_net_recv_all\<close>; the call returns how many
      of the \<open>len\<close> requested bytes it got, or \<open>-1\<close> on an error or an invalid socket.\<close>
  "net_recv_all_intr env sock len s =
     (let s1 = emit (EvNetRecvAll sock len) s
      in case sock of
           None \<Rightarrow> (- 1, [], s1)
         | Some sk \<Rightarrow>
             (case e_net_recv_all env sk of
                None \<Rightarrow> (- 1, [], s1)
              | Some bytes \<Rightarrow> (int (length (take len bytes)), take len bytes, s1)))"

definition net_close :: "nat \<Rightarrow> sc_server \<Rightarrow> sc_server" where
  "net_close sock s = emit (EvNetClose sock) s"

definition net_interrupt :: "nat \<Rightarrow> sc_server \<Rightarrow> sc_server" where
  "net_interrupt sock s = emit (EvNetInterrupt sock) s"

definition sc_intr_is_interrupted :: "env \<Rightarrow> sc_server \<Rightarrow> bool \<times> sc_server" where
  "sc_intr_is_interrupted env s =
     (let k = n_intr s in (e_interrupted env k, s\<lparr>n_intr := Suc k\<rparr>))"

definition sc_intr_interrupt :: "sc_server \<Rightarrow> sc_server" where
  "sc_intr_interrupt s = emit EvIntrInterrupt s"

definition sc_process_wait :: "nat \<Rightarrow> sc_server \<Rightarrow> sc_server" where
  "sc_process_wait pid s = emit (EvProcessWait pid) s"

definition sc_process_close :: "nat \<Rightarrow> sc_server \<Rightarrow> sc_server" where
  "sc_process_close pid s = emit (EvProcessClose pid) s"

definition sc_process_terminate :: "nat \<Rightarrow> sc_server \<Rightarrow> sc_server" where
  "sc_process_terminate pid s = emit (EvProcessTerminate pid) s"

text \<open>
  The process observer. Modelled from the spec: \<open>util/process_observer.c\<close> is not among
  the sources. An observer holds the process and the listener it was given; its thread
  waits for the process to end and then calls the listener, once. The process ends by
  itself at the point the environment names, or when the worker terminates it. The
  worker gives the thread a turn at each of these points, naming the points at which
  the process can have ended since the last turn; the listener's events are put in the
  trace there, so their order with the events of one phase of the worker is not
  modelled, only their order with the phases.
\<close>

record sc_process_observer =
  obs_pid :: nat
  obs_listener :: "sc_server \<Rightarrow> sc_server"

definition sc_process_observer_init ::
  "env \<Rightarrow> nat \<Rightarrow> (sc_server \<Rightarrow> sc_server) \<Rightarrow> sc_server
     \<Rightarrow> sc_process_observer option \<times> sc_server" where
  \<comment> \<open>\<open>Some\<close> is the result \<open>true\<close>, with the observer written through the pointer.\<close>
  "sc_process_observer_init env pid listener s =
     (if e_observer_init env
      then (Some \<lparr>obs_pid = pid, obs_listener = listener\<rparr>, emit (EvObserverInit pid) s)
      else (None, s))"

definition sc_process_observer_thread ::
  "env \<Rightarrow> exit_point list \<Rightarrow> sc_process_observer \<Rightarrow> sc_server \<Rightarrow> sc_server" where
  "sc_process_observer_thread env points observer s =
     (if e_remote_exit env \<in> set points then obs_listener observer s else s)"

definition sc_process_observer_timedwait ::
  "env \<Rightarrow> nat \<Rightarrow> sc_server \<Rightarrow> bool \<times> sc_server" where
  "sc_process_observer_timedwait env delay s =
     (e_observer_timedwait env, emit (EvObserverTimedwait delay) s)"

definition sc_process_observer_join :: "sc_server \<Rightarrow> sc_server" where
  "sc_process_observer_join s = emit EvObserverJoin s"

definition sc_process_observer_destroy :: "sc_server \<Rightarrow> sc_server" where
  "sc_process_observer_destroy s = emit EvObserverDestroy s"

section \<open>The controller (\<open>server.c\<close>)\<close>

definition sc_server_sleep :: "env \<Rightarrow> nat \<Rightarrow> sc_server \<Rightarrow> bool \<times> sc_server" where
  \<comment> \<open>The callers pass \<open>sc_tick_now() + delay\<close>; the model passes the delay, in
      milliseconds. The wait ends on the deadline or on \<open>stop()\<close>, and the result is
      \<open>!stopped\<close>, which the environment decides.\<close>
  "sc_server_sleep env delay s =
     (let k = n_sleep s in (e_sleep env k, emit (EvSleep delay) (s\<lparr>n_sleep := Suc k\<rparr>)))"

subsection \<open>Pushing the payload\<close>

definition get_server_path :: "env \<Rightarrow> sc_server \<Rightarrow> (nat \<times> string) option \<times> sc_server" where
  \<comment> \<open>The result is a string that the caller frees: it comes with its allocation.\<close>
  "get_server_path env s =
     (case e_getenv env ''SCRCPY_SERVER_PATH'' of
        Some server_path_env \<Rightarrow> strdup_ptr env server_path_env s
      | None \<Rightarrow>
          if \<not> e_portable env
          then strdup_ptr env (e_prefix env @ ''/share/scrcpy/'' @ SC_SERVER_FILENAME) s
          else (case sc_file_get_local_path env SC_SERVER_FILENAME s of
                  (None, s1) \<Rightarrow> strdup_ptr env SC_SERVER_FILENAME s1
                | (Some server_path, s1) \<Rightarrow> (Some server_path, s1)))"

definition push_server :: "env \<Rightarrow> string \<Rightarrow> sc_server \<Rightarrow> bool \<times> sc_server" where
  "push_server env ser s =
     (let (server_path, s1) = get_server_path env s
      in case server_path of
           None \<Rightarrow> (False, s1)
         | Some (k, path) \<Rightarrow>
             if \<not> e_is_regular env path then (False, free_ptr k s1)
             else (let (ok, s2) = sc_adb_push env ser path SC_DEVICE_SERVER_PATH s1
                   in (ok, free_ptr k s2)))"

subsection \<open>Launching the remote process\<close>

text \<open>
  An entry of the \<open>cmd\<close> array: a pointer to static storage, a pointer returned by
  \<open>asprintf\<close> (with the allocation it came from), or \<open>NULL\<close>.
\<close>

datatype cmd_arg = Static string | Allocated nat string | NullArg

fun cmd_arg_text :: "cmd_arg \<Rightarrow> string option" where
  "cmd_arg_text (Static v) = Some v"
| "cmd_arg_text (Allocated k v) = Some v"
| "cmd_arg_text NullArg = None"

text \<open>
  The \<open>ADD_PARAM\<close> macro over the strings to format: the first failing \<open>asprintf\<close>
  jumps to \<open>end\<close> with the array as filled so far.
\<close>

fun add_params ::
  "env \<Rightarrow> string list \<Rightarrow> cmd_arg list \<Rightarrow> sc_server \<Rightarrow> bool \<times> cmd_arg list \<times> sc_server" where
  "add_params env [] cmd s = (True, cmd, s)"
| "add_params env (v # vs) cmd s =
     (case asprintf env v s of
        (None, s1) \<Rightarrow> (False, cmd, s1)
      | (Some k, s1) \<Rightarrow> add_params env vs (cmd @ [Allocated k v]) s1)"

fun free_arg :: "cmd_arg \<Rightarrow> sc_server \<Rightarrow> sc_server" where
  "free_arg (Allocated k v) s = emit (EvFree k) s"
| "free_arg NullArg s = s"
| "free_arg (Static v) s = emit (EvFreeStatic v) s"

definition free_args :: "cmd_arg list \<Rightarrow> sc_server \<Rightarrow> sc_server" where
  "free_args args s = foldl (\<lambda>s1 a. free_arg a s1) s args"

definition execute_server_cmd :: "env \<Rightarrow> sc_server \<Rightarrow> cmd_arg list" where
  \<comment> \<open>The static head of the array (\<open>SERVER_DEBUGGER\<close> not defined).\<close>
  "execute_server_cmd env s =
     [Static (e_adb_executable env),
      Static ''-s'',
      (case serial s of None \<Rightarrow> NullArg | Some ser \<Rightarrow> Static ser),
      Static ''shell'',
      Static (''CLASSPATH='' @ SC_DEVICE_SERVER_PATH),
      Static ''app_process'',
      Static ''/'',
      Static ''com.genymobile.scrcpy.Server'',
      Static (e_scrcpy_version env)]"

definition execute_server :: "env \<Rightarrow> sc_server_params \<Rightarrow> sc_server \<Rightarrow> sc_pid \<times> sc_server" where
  "execute_server env p s =
     (let cmd0 = execute_server_cmd env s;
          dyn_idx = length cmd0;
          (ok, cmd1, s1) = add_params env (execute_server_params p (forward (tunnel s))) cmd0 s
      in if ok
         then (let cmd2 = cmd1 @ [NullArg];
                   (pid, s2) = sc_adb_execute env (map cmd_arg_text cmd2) s1
               in (pid, free_args (drop dyn_idx cmd2) s2))
         else (None, free_args (drop dyn_idx cmd1) s1))"

subsection \<open>Establishing the sockets\<close>

definition connect_and_read_byte ::
  "env \<Rightarrow> nat \<Rightarrow> 32 word \<Rightarrow> 16 word \<Rightarrow> sc_server \<Rightarrow> bool \<times> sc_server" where
  "connect_and_read_byte env sock host port s =
     (let (ok, s1) = net_connect_intr env sock host port s
      in if \<not> ok then (False, s1)
         else (let (r, s2) = net_recv_intr env sock 1 s1
               in if r \<noteq> 1 then (False, s2) else (True, s2)))"

definition connect_attempt ::
  "env \<Rightarrow> 32 word \<Rightarrow> 16 word \<Rightarrow> sc_server \<Rightarrow> sc_socket \<times> sc_server" where
  \<comment> \<open>The first half of the loop body of \<open>connect_to_server\<close>: \<open>Some\<close> is its
      \<open>return socket\<close>.\<close>
  "connect_attempt env host port s =
     (let (sock, s1) = net_socket env s
      in case sock of
           None \<Rightarrow> (None, s1)
         | Some sk \<Rightarrow>
             (let (ok, s2) = connect_and_read_byte env sk host port s1
              in if ok then (Some sk, s2) else (None, net_close sk s2)))"

function connect_to_server ::
  "env \<Rightarrow> 32 word \<Rightarrow> nat \<Rightarrow> 32 word \<Rightarrow> 16 word \<Rightarrow> sc_server \<Rightarrow> sc_socket \<times> sc_server" where
  "connect_to_server env attempts delay host port s =
     (let (sock, s1) = connect_attempt env host port s
      in if sock \<noteq> None then (sock, s1)
         else (let (interrupted, s2) = sc_intr_is_interrupted env s1
               in if interrupted then (None, s2)
                  else (let (ok, s3) = (if attempts \<noteq> 0 then sc_server_sleep env delay s2
                                        else (True, s2))
                        in if \<not> ok then (None, s3)
                           else if attempts - 1 \<noteq> 0
                                then connect_to_server env (attempts - 1) delay host port s3
                                else (None, s3))))"
  by pat_completeness auto
termination
proof (relation "measure (\<lambda>(env, attempts, delay, host, port, s). unat (attempts - 1))")
  fix attempts :: "32 word"
  fix env :: env and delay :: nat and host :: "32 word" and port :: "16 word"
  fix s s3 :: sc_server
  assume "attempts - 1 \<noteq> 0"
  then have "unat (attempts - 1 - 1) < unat (attempts - 1)"
    by (rule measure_unat)
  then show "((env, attempts - 1, delay, host, port, s3), (env, attempts, delay, host, port, s))
      \<in> measure (\<lambda>(env, attempts, delay, host, port, s). unat (attempts - 1))"
    by (simp only: in_measure prod.case)
qed simp

declare connect_to_server.simps [simp del]

definition device_read_info :: "env \<Rightarrow> sc_socket \<Rightarrow> sc_server \<Rightarrow> bool \<times> sc_server" where
  "device_read_info env device_socket s =
     (let (r, buf, s1) = net_recv_all_intr env device_socket SC_DEVICE_NAME_FIELD_LENGTH s
      in if r < int SC_DEVICE_NAME_FIELD_LENGTH then (False, s1)
         else (True, s1\<lparr>device_name := buf[SC_DEVICE_NAME_FIELD_LENGTH - 1 := 0]\<rparr>))"

definition accept_sockets ::
  "env \<Rightarrow> sc_server \<Rightarrow> bool \<times> sc_socket \<times> sc_socket \<times> sc_socket \<times> sc_server" where
  \<comment> \<open>The reverse-tunnel branch of \<open>sc_server_connect_to\<close>; \<open>False\<close> is \<open>goto fail\<close>.\<close>
  "accept_sockets env s =
     (let listener = server_socket (tunnel s);
          (vsock, s1) = (if video (params s) then net_accept_intr env listener s else (None, s))
      in if video (params s) \<and> vsock = None then (False, vsock, None, None, s1)
         else (let (asock, s2) = (if audio (params s) then net_accept_intr env listener s1
                                  else (None, s1))
               in if audio (params s) \<and> asock = None then (False, vsock, asock, None, s2)
                  else (let (csock, s3) = (if control (params s)
                                           then net_accept_intr env listener s2 else (None, s2))
                        in if control (params s) \<and> csock = None
                           then (False, vsock, asock, csock, s3)
                           else (True, vsock, asock, csock, s3))))"

definition connect_next ::
  "env \<Rightarrow> 32 word \<Rightarrow> 16 word \<Rightarrow> sc_server \<Rightarrow> bool \<times> sc_socket \<times> sc_server" where
  \<comment> \<open>A stream that does not take the first socket: \<open>net_socket\<close>, then \<open>net_connect_intr\<close>;
      \<open>False\<close> is \<open>goto fail\<close>.\<close>
  "connect_next env host port s =
     (let (sock, s1) = net_socket env s
      in case sock of
           None \<Rightarrow> (False, None, s1)
         | Some sk \<Rightarrow> (let (ok, s2) = net_connect_intr env sk host port s1 in (ok, sock, s2)))"

definition connect_sockets ::
  "env \<Rightarrow> sc_server \<Rightarrow> bool \<times> sc_socket \<times> sc_socket \<times> sc_socket \<times> sc_server" where
  \<comment> \<open>The forward-tunnel branch of \<open>sc_server_connect_to\<close>; \<open>False\<close> is \<open>goto fail\<close>.\<close>
  "connect_sockets env s =
     (let host = (if tunnel_host (params s) = 0 then IPV4_LOCALHOST else tunnel_host (params s));
          port = (if tunnel_port (params s) = 0 then local_port (tunnel s)
                  else tunnel_port (params s));
          (first_socket, s1) = connect_to_server env 100 100 host port s
      in if first_socket = None then (False, None, None, None, s1)
         else (let vsock = (if video (params s) then first_socket else None);
                   (ok_a, asock, s2) =
                     (if audio (params s)
                      then (if \<not> video (params s) then (True, first_socket, s1)
                            else connect_next env host port s1)
                      else (True, None, s1))
               in if \<not> ok_a then (False, vsock, asock, None, s2)
                  else (let (ok_c, csock, s3) =
                              (if control (params s)
                               then (if \<not> video (params s) \<and> \<not> audio (params s)
                                     then (True, first_socket, s2)
                                     else connect_next env host port s2)
                               else (True, None, s2))
                        in (ok_c, vsock, asock, csock, s3))))"

definition close_if_open :: "sc_socket \<Rightarrow> sc_server \<Rightarrow> sc_server" where
  "close_if_open sock s = (case sock of None \<Rightarrow> s | Some sk \<Rightarrow> net_close sk s)"

definition connect_to_fail ::
  "env \<Rightarrow> sc_socket \<Rightarrow> sc_socket \<Rightarrow> sc_socket \<Rightarrow> sc_server \<Rightarrow> bool \<times> sc_server" where
  \<comment> \<open>The \<open>fail\<close> label of \<open>sc_server_connect_to\<close>.\<close>
  "connect_to_fail env vsock asock csock s =
     (let s1 = close_if_open vsock s;
          s2 = close_if_open asock s1;
          s3 = close_if_open csock s2;
          s4 = (if enabled (tunnel s3) then sc_adb_tunnel_close env s3 else s3)
      in (False, s4))"

definition sc_server_connect_to :: "env \<Rightarrow> sc_server \<Rightarrow> bool \<times> sc_server" where
  \<comment> \<open>The source asserts on entry that the tunnel is enabled and the serial set; the
      three assertions before the sockets are stored are lemma \<open>accept_sockets_ok\<close> and
      the last part of \<open>connect_sockets_events\<close>.\<close>
  "sc_server_connect_to env s =
     (let (ok, vsock, asock, csock, s1) =
            (if \<not> forward (tunnel s) then accept_sockets env s else connect_sockets env s)
      in if \<not> ok then connect_to_fail env vsock asock csock s1
         else (let s2 = sc_adb_tunnel_close env s1;
                   first_socket = (if video (params s) then vsock
                                   else if audio (params s) then asock else csock);
                   (ok_info, s3) = device_read_info env first_socket s2
               in if \<not> ok_info then connect_to_fail env vsock asock csock s3
                  else (True, s3\<lparr>video_socket := vsock, audio_socket := asock,
                                   control_socket := csock\<rparr>)))"

definition sc_server_on_terminated :: "sc_server \<Rightarrow> sc_server" where
  \<comment> \<open>The listener given to the process observer; it runs on the observer's thread.\<close>
  "sc_server_on_terminated s = emit (EvCallback ON_DISCONNECTED) (sc_intr_interrupt s)"

subsection \<open>Switching to TCP/IP\<close>

definition get_adb_tcp_port :: "env \<Rightarrow> string \<Rightarrow> sc_server \<Rightarrow> 16 word \<times> sc_server" where
  "get_adb_tcp_port env ser s =
     (let (current_port, s1) = sc_adb_getprop env ser ''service.adb.tcp.port'' [SC_ADB_SILENT] s
      in case current_port of
           None \<Rightarrow> (0, s1)
         | Some text_value \<Rightarrow>
             (case e_parse_integer env text_value of
                None \<Rightarrow> (0, s1)
              | Some v \<Rightarrow> if v < 0 \<or> v > 0xFFFF then (0, s1) else (word_of_int v, s1)))"

function wait_tcpip_mode_loop ::
  "env \<Rightarrow> string \<Rightarrow> 16 word \<Rightarrow> 32 word \<Rightarrow> nat \<Rightarrow> sc_server \<Rightarrow> bool \<times> sc_server" where
  "wait_tcpip_mode_loop env ser expected_port attempts delay s =
     (let (ok, s1) = sc_server_sleep env delay s
      in if \<not> ok then (False, s1)
         else (let (adb_port, s2) = get_adb_tcp_port env ser s1
               in if adb_port = expected_port then (True, s2)
                  else if attempts - 1 \<noteq> 0
                       then wait_tcpip_mode_loop env ser expected_port (attempts - 1) delay s2
                       else (False, s2)))"
  by pat_completeness auto
termination
proof (relation "measure (\<lambda>(env, ser, expected_port, attempts, delay, s). unat (attempts - 1))")
  fix attempts :: "32 word"
  fix env :: env and ser :: string and expected_port :: "16 word" and delay :: nat
  fix s s2 :: sc_server
  assume "attempts - 1 \<noteq> 0"
  then have "unat (attempts - 1 - 1) < unat (attempts - 1)"
    by (rule measure_unat)
  then show "((env, ser, expected_port, attempts - 1, delay, s2),
              (env, ser, expected_port, attempts, delay, s))
      \<in> measure (\<lambda>(env, ser, expected_port, attempts, delay, s). unat (attempts - 1))"
    by (simp only: in_measure prod.case)
qed simp

declare wait_tcpip_mode_loop.simps [simp del]

definition wait_tcpip_mode_enabled ::
  "env \<Rightarrow> string \<Rightarrow> 16 word \<Rightarrow> 32 word \<Rightarrow> nat \<Rightarrow> sc_server \<Rightarrow> bool \<times> sc_server" where
  "wait_tcpip_mode_enabled env ser expected_port attempts delay s =
     (let (adb_port, s1) = get_adb_tcp_port env ser s
      in if adb_port = expected_port then (True, s1)
         else wait_tcpip_mode_loop env ser expected_port attempts delay s1)"

definition append_port :: "env \<Rightarrow> string \<Rightarrow> 16 word \<Rightarrow> sc_server \<Rightarrow> string option \<times> sc_server" where
  "append_port env ip port s = strdup env (ip @ '':'' @ fmt_u16 port) s"

definition sc_server_switch_to_tcpip ::
  "env \<Rightarrow> string \<Rightarrow> sc_server \<Rightarrow> string option \<times> sc_server" where
  "sc_server_switch_to_tcpip env ser s =
     (let (ip, s1) = sc_adb_get_device_ip env ser s
      in case ip of
           None \<Rightarrow> (None, s1)
         | Some ip_addr \<Rightarrow>
             (let (adb_port, s2) = get_adb_tcp_port env ser s1
              in if adb_port \<noteq> 0 then append_port env ip_addr adb_port s2
                 else (let (ok, s3) = sc_adb_tcpip env ser SC_ADB_PORT_DEFAULT [SC_ADB_NO_STDOUT] s2
                       in if \<not> ok then (None, s3)
                          else (let (ok_wait, s4) =
                                      wait_tcpip_mode_enabled env ser SC_ADB_PORT_DEFAULT 40 250 s3
                                in if \<not> ok_wait then (None, s4)
                                   else append_port env ip_addr SC_ADB_PORT_DEFAULT s4))))"

definition sc_server_connect_to_tcpip :: "env \<Rightarrow> string \<Rightarrow> sc_server \<Rightarrow> bool \<times> sc_server" where
  "sc_server_connect_to_tcpip env ip_port s =
     (let s1 = sc_adb_disconnect env ip_port [SC_ADB_SILENT] s
      in sc_adb_connect env ip_port [] s1)"

definition sc_server_configure_tcpip_known_address ::
  "env \<Rightarrow> string \<Rightarrow> sc_server \<Rightarrow> bool \<times> sc_server" where
  "sc_server_configure_tcpip_known_address env addr s =
     (let contains_port = (CHR '':'' \<in> set addr);
          (ip_port, s1) = (if contains_port then strdup env addr s
                           else append_port env addr SC_ADB_PORT_DEFAULT s)
      in case ip_port of
           None \<Rightarrow> (False, s1)
         | Some ipp \<Rightarrow> sc_server_connect_to_tcpip env ipp (s1\<lparr>serial := Some ipp\<rparr>))"

definition sc_server_configure_tcpip_unknown_address ::
  "env \<Rightarrow> string \<Rightarrow> sc_server \<Rightarrow> bool \<times> sc_server" where
  "sc_server_configure_tcpip_unknown_address env ser s =
     (if e_device_is_tcpip env ser
      then (let (copy, s1) = strdup env ser s
            in (copy \<noteq> None, s1\<lparr>serial := copy\<rparr>))
      else (let (ip_port, s1) = sc_server_switch_to_tcpip env ser s
            in case ip_port of
                 None \<Rightarrow> (False, s1)
               | Some ipp \<Rightarrow> sc_server_connect_to_tcpip env ipp (s1\<lparr>serial := Some ipp\<rparr>)))"

subsection \<open>The worker\<close>

definition sc_server_kill_adb_if_requested :: "env \<Rightarrow> sc_server \<Rightarrow> sc_server" where
  "sc_server_kill_adb_if_requested env s =
     (if kill_adb_on_close (params s)
      then sc_adb_kill_server env [SC_ADB_NO_STDOUT, SC_ADB_NO_STDERR, SC_ADB_NO_LOGERR] s
      else s)"

text \<open>
  How a run of the worker ends: it returns a code, it waits for a \<open>stop()\<close> that never
  comes, or it stops at \<open>assert(serial)\<close>.
\<close>

datatype run_result = Returned int | Blocked | AssertFailed

definition error_connection_failed :: "env \<Rightarrow> sc_server \<Rightarrow> run_result \<times> sc_server" where
  \<comment> \<open>The \<open>error_connection_failed\<close> label of \<open>run_server\<close>.\<close>
  "error_connection_failed env s =
     (let s1 = sc_server_kill_adb_if_requested env s
      in (Returned (- 1), emit (EvCallback ON_CONNECTION_FAILED) s1))"

definition select_initial_serial :: "env \<Rightarrow> sc_server \<Rightarrow> bool \<times> sc_server" where
  \<comment> \<open>The \<open>need_initial_serial\<close> branch of \<open>run_server\<close>; \<open>False\<close> is
      \<open>goto error_connection_failed\<close>.\<close>
  "select_initial_serial env s =
     (let p = params s;
          selector =
            (case req_serial p of
               Some requested \<Rightarrow> SC_ADB_DEVICE_SELECT_SERIAL requested
             | None \<Rightarrow>
                 if select_usb p then SC_ADB_DEVICE_SELECT_USB
                 else if select_tcpip p then SC_ADB_DEVICE_SELECT_TCPIP
                 else (case e_getenv env ''ANDROID_SERIAL'' of
                         Some env_serial \<Rightarrow> SC_ADB_DEVICE_SELECT_SERIAL env_serial
                       | None \<Rightarrow> SC_ADB_DEVICE_SELECT_ALL));
          (device, s1) = sc_adb_select_device env selector s
      in case device of
           None \<Rightarrow> (False, s1)
         | Some device_serial \<Rightarrow>
             if tcpip p then sc_server_configure_tcpip_unknown_address env device_serial s1
             else (True, s1\<lparr>serial := Some device_serial\<rparr>))"

definition wait_for_stop ::
  "env \<Rightarrow> nat \<Rightarrow> sc_process_observer \<Rightarrow> sc_server \<Rightarrow> run_result \<times> sc_server" where
  \<comment> \<open>\<open>run_server\<close> from the wait for \<open>sc_server_stop()\<close> to its \<open>return 0\<close>. The wait
      loop reads a flag that only another thread writes: it ends when \<open>stop()\<close> is
      called, and never otherwise. The observer's thread has its turns where the remote
      process can end: during the wait, and between the end of the watchdog delay and
      the return of \<open>sc_process_observer_join\<close>.\<close>
  "wait_for_stop env pid observer s =
     (let s1 = emit EvCondWait s;
          s1a = sc_process_observer_thread env [EXIT_CONNECTED] observer s1
      in if \<not> e_stop_requested env then (Blocked, s1a)
         else (let s2 = (case video_socket s1a of None \<Rightarrow> s1a | Some sk \<Rightarrow> net_interrupt sk s1a);
                   s3 = (case audio_socket s2 of None \<Rightarrow> s2 | Some sk \<Rightarrow> net_interrupt sk s2);
                   s4 = (case control_socket s3 of None \<Rightarrow> s3 | Some sk \<Rightarrow> net_interrupt sk s3);
                   (terminated, s5) = sc_process_observer_timedwait env 1000 s4;
                   s6 = (if \<not> terminated then sc_process_terminate pid s5 else s5);
                   s6a = sc_process_observer_thread env [EXIT_ON_STOP] observer s6;
                   s7 = sc_process_observer_join s6a;
                   s8 = sc_process_observer_destroy s7;
                   s9 = sc_process_close pid s8;
                   s10 = sc_server_kill_adb_if_requested env s9
               in (Returned 0, s10)))"

definition run_server_list :: "env \<Rightarrow> sc_server \<Rightarrow> run_result \<times> sc_server" where
  \<comment> \<open>The \<open>--list-*\<close> branch of \<open>run_server\<close>.\<close>
  "run_server_list env s =
     (let (pid, s1) = execute_server env (params s) s
      in case pid of
           None \<Rightarrow> error_connection_failed env s1
         | Some pd \<Rightarrow>
             (let s2 = sc_process_wait pd s1;
                  s3 = sc_process_close pd s2;
                  s4 = emit (EvCallback ON_CONNECTED) s3
              in (Returned 0, s4)))"

definition run_server_mirror :: "env \<Rightarrow> string \<Rightarrow> sc_server \<Rightarrow> run_result \<times> sc_server" where
  \<comment> \<open>\<open>run_server\<close> from the naming of the device socket on.\<close>
  "run_server_mirror env ser s =
     (let p = params s;
          (name, s1) = strdup env (SC_SOCKET_NAME_PREFIX @ fmt_08x (scid p)) s
      in case name of
           None \<Rightarrow> error_connection_failed env s1
         | Some socket_name \<Rightarrow>
             (let s2 = s1\<lparr>device_socket_name := Some socket_name\<rparr>;
                  (ok, s3) = sc_adb_tunnel_open env ser socket_name (port_range p)
                               (force_adb_forward p) s2
              in if \<not> ok then error_connection_failed env s3
                 else (let (pid, s4) = execute_server env p s3
                       in case pid of
                            None \<Rightarrow> error_connection_failed env (sc_adb_tunnel_close env s4)
                          | Some pd \<Rightarrow>
                              (let (observer, s5) =
                                     sc_process_observer_init env pd sc_server_on_terminated s4
                               in case observer of
                                    None \<Rightarrow>
                                      error_connection_failed env
                                        (sc_adb_tunnel_close env
                                          (sc_process_wait pd (sc_process_terminate pd s5)))
                                  | Some ob \<Rightarrow>
                                      (let s5a = sc_process_observer_thread env [EXIT_EARLY] ob s5;
                                           (ok_conn, s6) = sc_server_connect_to env s5a
                                       in if \<not> ok_conn
                                          then error_connection_failed env
                                                 (sc_process_observer_destroy
                                                   (sc_process_observer_join
                                                     (sc_process_observer_thread env
                                                        [EXIT_CONNECTED, EXIT_ON_STOP] ob
                                                        (sc_process_wait pd
                                                          (sc_process_terminate pd s6)))))
                                          else wait_for_stop env pd ob
                                                 (emit (EvCallback ON_CONNECTED) s6))))))"

definition run_server :: "env \<Rightarrow> sc_server \<Rightarrow> run_result \<times> sc_server" where
  "run_server env s =
     (let p = params s;
          (ok, s1) = sc_adb_start_server env s
      in if \<not> ok then error_connection_failed env s1
         else (let (ok_serial, s2) =
                     (case tcpip_dst p of
                        None \<Rightarrow> select_initial_serial env s1
                      | Some dst \<Rightarrow> sc_server_configure_tcpip_known_address env dst s1)
               in if \<not> ok_serial then error_connection_failed env s2
                  else (case serial s2 of
                          None \<Rightarrow> (AssertFailed, s2)
                        | Some ser \<Rightarrow>
                            (let (ok_push, s3) = push_server env ser s2
                             in if \<not> ok_push then error_connection_failed env s3
                                else if list_encoders p \<or> list_displays p \<or> list_cameras p
                                     then run_server_list env s3
                                     else run_server_mirror env ser s3))))"

definition sc_server_init :: "sc_server_params \<Rightarrow> sc_server" where
  \<comment> \<open>The state \<open>sc_server_init\<close> leaves when it succeeds, with an empty trace.\<close>
  "sc_server_init p =
     \<lparr>params = p, serial = None, device_socket_name = None, tunnel = sc_adb_tunnel_init,
      video_socket = None, audio_socket = None, control_socket = None,
      device_name = [], trace = [], n_alloc = 0, n_fd = 0, n_sleep = 0, n_getprop = 0,
      n_intr = 0\<rparr>"

section \<open>Concrete inputs\<close>

text \<open>
  The configuration of the spec's first end-to-end scenario (all streams, defaults
  elsewhere) and an environment in which every external call succeeds at once.
\<close>

definition params_default :: sc_server_params where
  "params_default =
     \<lparr>scid = 0x0A1B2C3D, req_serial = None, log_level = SC_LOG_LEVEL_INFO,
      video_codec = SC_CODEC_H264, audio_codec = SC_CODEC_OPUS,
      video_source = SC_VIDEO_SOURCE_DISPLAY, audio_source = SC_AUDIO_SOURCE_OUTPUT,
      crop = None, video_codec_options = None, audio_codec_options = None,
      video_encoder = None, audio_encoder = None, camera_id = None,
      camera_position = SC_CAMERA_POSITION_ALL, port_range = (27183, 27199),
      tunnel_host = 0, tunnel_port = 0, max_size = 0, video_bit_rate = 0,
      audio_bit_rate = 0, max_fps = 0,
      lock_video_orientation = SC_LOCK_VIDEO_ORIENTATION_UNLOCKED, control = True,
      display_id = 0, video = True, audio = True, show_touches = False,
      stay_awake = False, force_adb_forward = False, power_off_on_close = False,
      clipboard_autosync = True, downsize_on_error = True, tcpip = False,
      tcpip_dst = None, select_usb = False, select_tcpip = False, cleanup = True,
      power_on = True, list_encoders = False, list_displays = False,
      list_cameras = False, kill_adb_on_close = False\<rparr>"

definition device_name_pixel :: "8 word list" where
  "device_name_pixel = [80, 105, 120, 101, 108] @ replicate 59 0"

definition parse_decimal :: "string \<Rightarrow> int option" where
  \<comment> \<open>A stand-in for \<open>sc_str_parse_integer\<close> (declared in \<open>util/str.h\<close>), used only as a
      concrete environment: it reads a non-empty string of decimal digits.\<close>
  "parse_decimal str =
     (if str \<noteq> [] \<and> list_all (\<lambda>c. 48 \<le> (of_char c :: nat) \<and> (of_char c :: nat) \<le> 57) str
      then Some (foldl (\<lambda>acc c. 10 * acc + (of_char c - 48)) 0 str)
      else None)"

definition env_default :: env where
  "env_default =
     \<lparr>e_adb_executable = ''adb'', e_scrcpy_version = ''2.1'', e_prefix = ''/usr/local'',
      e_portable = False, e_getenv = (\<lambda>name. None), e_local_path = None,
      e_is_regular = (\<lambda>path. True), e_start_server = True,
      e_select_device = (\<lambda>selector. Some ''A1B2C3''),
      e_device_is_tcpip = (\<lambda>ser. False), e_get_device_ip = Some ''192.168.1.7'',
      e_getprop = (\<lambda>k. Some ''''), e_parse_integer = parse_decimal, e_tcpip = True,
      e_adb_connect = True, e_push = True, e_tunnel_open = Some (False, Some 1000, 27183),
      e_execute = Some 4242, e_observer_init = True, e_observer_timedwait = True,
      e_remote_exit = EXIT_ON_STOP,
      e_stop_requested = True, e_alloc = (\<lambda>k. True), e_sleep = (\<lambda>k. True),
      e_net_socket = (\<lambda>k. True), e_net_accept = (\<lambda>k. True), e_net_connect = (\<lambda>k. True),
      e_net_recv = (\<lambda>k. 1), e_net_recv_all = (\<lambda>k. Some device_name_pixel),
      e_interrupted = (\<lambda>k. False)\<rparr>"

definition s_init :: sc_server where
  "s_init = sc_server_init params_default"

definition env_oom :: env where
  \<comment> \<open>The second allocation of the run fails.\<close>
  "env_oom = env_default\<lparr>e_alloc := (\<lambda>k. k \<noteq> 1)\<rparr>"

definition params_custom :: sc_server_params where
  "params_custom =
     params_default\<lparr>video_codec := SC_CODEC_H265, max_size := 1024, audio := False\<rparr>"

definition env_5556 :: env where
  \<comment> \<open>The device already listens for the bridge on TCP port 5556.\<close>
  "env_5556 = env_default\<lparr>e_getprop := (\<lambda>k. Some ''5556'')\<rparr>"


text \<open>
  The state in which the connection phase starts in the first scenario (device selected,
  socket named, reverse tunnel open with its listener), and the same with a forward
  tunnel on port 27183.
\<close>

definition s_reverse :: sc_server where
  "s_reverse =
     s_init\<lparr>serial := Some ''A1B2C3'', device_socket_name := Some ''scrcpy_0a1b2c3d'',
            tunnel := \<lparr>enabled = True, forward = False, server_socket = Some 1000,
                       local_port = 27183\<rparr>\<rparr>"



definition env_truncated :: env where
  \<comment> \<open>The device sends the name field short of one byte.\<close>
  "env_truncated = env_default\<lparr>e_net_recv_all := (\<lambda>k. Some (take 63 device_name_pixel))\<rparr>"

definition params_list :: sc_server_params where
  \<comment> \<open>A discovery query: \<open>--list-encoders\<close>.\<close>
  "params_list = params_default\<lparr>list_encoders := True\<rparr>"

definition env_remote_exits :: env where
  \<comment> \<open>The spec's sixth scenario: the remote process ends right after it was launched, and
      the pending \<open>accept\<close> is cancelled.\<close>
  "env_remote_exits =
     env_default\<lparr>e_remote_exit := EXIT_EARLY, e_net_accept := (\<lambda>k. False)\<rparr>"

definition env_early_exit :: env where
  \<comment> \<open>The connection phase succeeds, but the remote process has ended before the worker
      reports the connection.\<close>
  "env_early_exit = env_default\<lparr>e_remote_exit := EXIT_EARLY\<rparr>"

section \<open>Observations on traces\<close>

text \<open>
  A projection used in the proofs about the worker: the callbacks, the attaching of
  the process observer and the opening of the tunnel. These are the events that only
  \<open>run_server\<close> itself and the observer's listener produce; every function below
  \<open>run_server\<close> leaves them alone. The other events of a run are not in it.
\<close>

fun top_level :: "event \<Rightarrow> bool" where
  "top_level (EvCallback c) = True"
| "top_level (EvObserverInit pid) = True"
| "top_level (EvAdbTunnelOpen ser name) = True"
| "top_level e = False"

definition top_events :: "sc_server \<Rightarrow> event list" where
  "top_events s = filter top_level (trace s)"

text \<open>\<open>struct sc_server\<close> proper: the state without the bookkeeping of the model.\<close>

definition struct_of :: "sc_server \<Rightarrow> sc_server" where
  "struct_of s =
     s\<lparr>trace := [], n_alloc := 0, n_fd := 0, n_sleep := 0, n_getprop := 0, n_intr := 0\<rparr>"

fun is_observer_init :: "event \<Rightarrow> bool" where
  "is_observer_init (EvObserverInit pid) = True"
| "is_observer_init e = False"

fun is_tcpip_request :: "event \<Rightarrow> bool" where
  "is_tcpip_request (EvAdbTcpip ser port flags) = True"
| "is_tcpip_request e = False"

fun is_execute :: "event \<Rightarrow> bool" where
  "is_execute (EvAdbExecute argv) = True"
| "is_execute e = False"

fun is_probe :: "event \<Rightarrow> bool" where
  "is_probe (EvNetRecv sock len) = True"
| "is_probe e = False"

fun is_connect :: "event \<Rightarrow> bool" where
  "is_connect (EvNetConnect sock host port) = True"
| "is_connect e = False"

fun is_sleep :: "event \<Rightarrow> bool" where
  "is_sleep (EvSleep delay) = True"
| "is_sleep e = False"

text \<open>The events a function added to the trace.\<close>

definition new_events :: "sc_server \<Rightarrow> sc_server \<Rightarrow> event list" where
  "new_events s s' = drop (length (trace s)) (trace s')"

text \<open>Sockets opened and closed so far, and those still open.\<close>

definition opened :: "event list \<Rightarrow> nat list" where
  "opened tr =
     concat (map (\<lambda>e. case e of EvNetSocket k \<Rightarrow> [k] | EvNetAccept k \<Rightarrow> [k] | _ \<Rightarrow> []) tr)"

definition closed :: "event list \<Rightarrow> nat list" where
  "closed tr = concat (map (\<lambda>e. case e of EvNetClose k \<Rightarrow> [k] | _ \<Rightarrow> []) tr)"

definition allocated :: "event list \<Rightarrow> nat list" where
  "allocated tr = concat (map (\<lambda>e. case e of EvAlloc k \<Rightarrow> [k] | _ \<Rightarrow> []) tr)"

definition freed :: "event list \<Rightarrow> nat list" where
  "freed tr = concat (map (\<lambda>e. case e of EvFree k \<Rightarrow> [k] | _ \<Rightarrow> []) tr)"

definition bad_frees :: "event list \<Rightarrow> string list" where
  "bad_frees tr = concat (map (\<lambda>e. case e of EvFreeStatic v \<Rightarrow> [v] | _ \<Rightarrow> []) tr)"



text \<open>
  Attempt number \<open>k\<close> of the forward connection works: the socket is created, the
  connection is made and the probe read returns exactly one byte.
\<close>

definition attempt_ok :: "env \<Rightarrow> nat \<Rightarrow> bool" where
  "attempt_ok env k = (e_net_socket env k \<and> e_net_connect env k \<and> e_net_recv env k = 1)"

fun is_tunnel_close :: "event \<Rightarrow> bool" where
  "is_tunnel_close EvAdbTunnelClose = True"
| "is_tunnel_close e = False"

fun is_recv_all :: "event \<Rightarrow> bool" where
  "is_recv_all (EvNetRecvAll sock len) = True"
| "is_recv_all e = False"

fun option_list :: "'a option \<Rightarrow> 'a list" where
  "option_list None = []"
| "option_list (Some x) = [x]"

text \<open>The device sends fewer bytes than the name field has, or the read fails.\<close>

definition short_read :: "env \<Rightarrow> sc_socket \<Rightarrow> bool" where
  "short_read env sock =
     (case sock of
        None \<Rightarrow> True
      | Some sk \<Rightarrow>
          (case e_net_recv_all env sk of
             None \<Rightarrow> True
           | Some bytes \<Rightarrow> length bytes < SC_DEVICE_NAME_FIELD_LENGTH))"
section \<open>Formatting\<close>

lemma digit_char_table:
  "\<forall>d\<in>set [0..<16]. is_lower_hex (digit_char d) \<and> hex_digit_value (digit_char d) = d"
  by (simp add: upt_rec digit_char_def is_lower_hex_def hex_digit_value_def)

lemma digit_char_lower_hex: "is_lower_hex (digit_char d)"
proof -
  have "d mod 16 \<in> set [0..<16]" by simp
  with digit_char_table have "is_lower_hex (digit_char (d mod 16))" by blast
  then show ?thesis by (simp add: digit_char_def)
qed

lemma hex_digit_value_digit_char: "d < 16 \<Longrightarrow> hex_digit_value (digit_char d) = d"
proof -
  assume "d < 16"
  then have "d \<in> set [0..<16]" by simp
  with digit_char_table show ?thesis by blast
qed

lemma fmt_radix_hex_chars: "\<forall>c\<in>set (fmt_radix b n). is_lower_hex c"
proof (induction b n rule: fmt_radix.induct)
  case (1 b n)
  show ?case
  proof (cases "n < b \<or> b < 2")
    case True
    then show ?thesis by (simp add: fmt_radix.simps [of b n] digit_char_lower_hex)
  next
    case False
    with 1 show ?thesis by (simp add: fmt_radix.simps [of b n] digit_char_lower_hex)
  qed
qed

lemma hex_value_snoc: "hex_value (xs @ [c]) = 16 * hex_value xs + hex_digit_value c"
  by (simp add: hex_value_def)

lemma hex_value_fmt_radix: "hex_value (fmt_radix 16 n) = n"
proof (induction "16::nat" n rule: fmt_radix.induct)
  case (1 n)
  show ?case
  proof (cases "n < 16")
    case True
    then show ?thesis
      by (simp add: fmt_radix.simps [of 16 n] hex_value_def hex_digit_value_digit_char)
  next
    case False
    with 1 have "hex_value (fmt_radix 16 (n div 16)) = n div 16" by simp
    with False show ?thesis
      by (simp add: fmt_radix.simps [of 16 n] hex_value_snoc hex_digit_value_digit_char)
  qed
qed

lemma length_fmt_radix_16: "n < 16 ^ k \<Longrightarrow> 0 < k \<Longrightarrow> length (fmt_radix 16 n) \<le> k"
proof (induction "16::nat" n arbitrary: k rule: fmt_radix.induct)
  case (1 n)
  show ?case
  proof (cases "n < 16")
    case True
    with 1(3) show ?thesis by (simp add: fmt_radix.simps [of 16 n])
  next
    case False
    from False 1(2) have k1: "1 < k" by (cases k; cases "k - 1") auto
    then obtain j where j: "k = Suc j" "0 < j" by (cases k) auto
    from 1(2) j have "n div 16 < 16 ^ j" by (simp add: less_mult_imp_div_less mult.commute)
    with 1(1) [of j] False j have "length (fmt_radix 16 (n div 16)) \<le> j" by simp
    with False j show ?thesis by (simp add: fmt_radix.simps [of 16 n])
  qed
qed

lemma hex_value_zeros: "hex_value (replicate k (CHR ''0'') @ xs) = hex_value xs"
  by (induction k) (simp_all add: hex_value_def hex_digit_value_def)

lemma length_fmt_08x: "length (fmt_08x v) = 8"
proof -
  have "unat v < 16 ^ 8" using unsigned_less [of v, where 'a = nat] by simp
  then have "length (fmt_radix 16 (unat v)) \<le> 8" by (rule length_fmt_radix_16) simp
  then show ?thesis by (simp add: fmt_08x_def pad0_def)
qed

lemma hex_value_fmt_08x: "hex_value (fmt_08x v) = unat v"
  by (simp add: fmt_08x_def pad0_def hex_value_zeros hex_value_fmt_radix)

lemma is_lower_hex_zero: "is_lower_hex (CHR ''0'')"
  by (simp add: is_lower_hex_def)

lemma fmt_08x_chars: "\<forall>c\<in>set (fmt_08x v). is_lower_hex c"
  using fmt_radix_hex_chars [of 16 "unat v"]
  by (auto simp: fmt_08x_def pad0_def is_lower_hex_zero)

lemma fmt_08x_scenario: "fmt_08x 0x0A1B2C3D = ''0a1b2c3d''"
  by (simp add: fmt_08x_def pad0_def fmt_radix.simps digit_char_def)

lemma fmt_u16_5555: "fmt_u16 5555 = ''5555''"
  by (simp add: fmt_u16_def fmt_radix.simps digit_char_def)

lemma fmt_u16_5556: "fmt_u16 5556 = ''5556''"
  by (simp add: fmt_u16_def fmt_radix.simps digit_char_def)
section \<open>The arguments of the remote process\<close>

lemma args_of_key_append:
  "args_of_key k (xs @ ys) = args_of_key k xs @ args_of_key k ys"
  by (simp add: args_of_key_def)

lemma args_of_key_Cons:
  "args_of_key k (x # xs) = (if key_of x = k then [x] else []) @ args_of_key k xs"
  by (simp add: args_of_key_def)

lemma args_of_key_Nil: "args_of_key k [] = []"
  by (simp add: args_of_key_def)

lemma args_of_key_add_param_if:
  "args_of_key k (add_param_if c v) = add_param_if (c \<and> key_of v = k) v"
  by (simp add: args_of_key_def add_param_if_def)

lemma add_param_if_False: "add_param_if False v = []"
  by (simp add: add_param_if_def)

lemma key_of_prefixed: "CHR ''='' \<notin> set k \<Longrightarrow> key_of (k @ CHR ''='' # rest) = k"
  by (simp add: key_of_def takeWhile_append takeWhile_eq_all_conv [THEN iffD2])

lemma args_of_key_str:
  "CHR ''='' \<notin> set k' \<Longrightarrow>
   args_of_key k (add_param_str v (k' @ ''='')) =
     (if k' = k then add_param_str v (k' @ ''='') else [])"
  by (cases v) (simp_all add: args_of_key_def add_param_str_def key_of_prefixed)

lemma args_of_key_camera_position:
  "k \<noteq> ''camera_position'' \<Longrightarrow> args_of_key k (camera_position_param c) = []"
  by (cases c) (auto simp: args_of_key_def key_of_def)

lemmas args_of_key_simps =
  args_of_key_append args_of_key_Cons args_of_key_Nil args_of_key_add_param_if
  add_param_if_False key_of_def args_of_key_camera_position
  args_of_key_str [of "''crop''", simplified]
  args_of_key_str [of "''camera_id''", simplified]
  args_of_key_str [of "''video_codec_options''", simplified]
  args_of_key_str [of "''audio_codec_options''", simplified]
  args_of_key_str [of "''video_encoder''", simplified]
  args_of_key_str [of "''audio_encoder''", simplified]

lemma key_scid:
  "args_of_key ''scid'' (execute_server_params p fwd) = [''scid='' @ fmt_08x (scid p)]"
  unfolding execute_server_params_def by (simp add: args_of_key_simps)

lemma key_log_level:
  "args_of_key ''log_level'' (execute_server_params p fwd) =
     [''log_level='' @ log_level_to_server_string (log_level p)]"
  unfolding execute_server_params_def by (simp add: args_of_key_simps)

lemma key_video:
  "args_of_key ''video'' (execute_server_params p fwd) =
     add_param_if (\<not> video p) ''video=false''"
  unfolding execute_server_params_def by (simp add: args_of_key_simps)

lemma key_audio:
  "args_of_key ''audio'' (execute_server_params p fwd) =
     add_param_if (\<not> audio p) ''audio=false''"
  unfolding execute_server_params_def by (simp add: args_of_key_simps)

lemma key_control:
  "args_of_key ''control'' (execute_server_params p fwd) =
     add_param_if (\<not> control p) ''control=false''"
  unfolding execute_server_params_def by (simp add: args_of_key_simps)

lemma key_clipboard_autosync:
  "args_of_key ''clipboard_autosync'' (execute_server_params p fwd) =
     add_param_if (\<not> clipboard_autosync p) ''clipboard_autosync=false''"
  unfolding execute_server_params_def by (simp add: args_of_key_simps)

lemma key_downsize_on_error:
  "args_of_key ''downsize_on_error'' (execute_server_params p fwd) =
     add_param_if (\<not> downsize_on_error p) ''downsize_on_error=false''"
  unfolding execute_server_params_def by (simp add: args_of_key_simps)

lemma key_cleanup:
  "args_of_key ''cleanup'' (execute_server_params p fwd) =
     add_param_if (\<not> cleanup p) ''cleanup=false''"
  unfolding execute_server_params_def by (simp add: args_of_key_simps)

lemma key_power_on:
  "args_of_key ''power_on'' (execute_server_params p fwd) =
     add_param_if (\<not> power_on p) ''power_on=false''"
  unfolding execute_server_params_def by (simp add: args_of_key_simps)

lemma key_video_codec:
  "args_of_key ''video_codec'' (execute_server_params p fwd) =
     add_param_if (video_codec p \<noteq> SC_CODEC_H264) (''video_codec='' @ sc_server_get_codec_name (video_codec p))"
  unfolding execute_server_params_def by (simp add: args_of_key_simps)

lemma key_audio_codec:
  "args_of_key ''audio_codec'' (execute_server_params p fwd) =
     add_param_if (audio_codec p \<noteq> SC_CODEC_OPUS) (''audio_codec='' @ sc_server_get_codec_name (audio_codec p))"
  unfolding execute_server_params_def by (simp add: args_of_key_simps)

lemma key_video_bit_rate:
  "args_of_key ''video_bit_rate'' (execute_server_params p fwd) =
     add_param_if (video_bit_rate p \<noteq> 0) (''video_bit_rate='' @ fmt_u32 (video_bit_rate p))"
  unfolding execute_server_params_def by (simp add: args_of_key_simps)

lemma key_audio_bit_rate:
  "args_of_key ''audio_bit_rate'' (execute_server_params p fwd) =
     add_param_if (audio_bit_rate p \<noteq> 0) (''audio_bit_rate='' @ fmt_u32 (audio_bit_rate p))"
  unfolding execute_server_params_def by (simp add: args_of_key_simps)

lemma key_max_size:
  "args_of_key ''max_size'' (execute_server_params p fwd) =
     add_param_if (max_size p \<noteq> 0) (''max_size='' @ fmt_u16 (max_size p))"
  unfolding execute_server_params_def by (simp add: args_of_key_simps)

lemma key_max_fps:
  "args_of_key ''max_fps'' (execute_server_params p fwd) =
     add_param_if (max_fps p \<noteq> 0) (''max_fps='' @ fmt_u16 (max_fps p))"
  unfolding execute_server_params_def by (simp add: args_of_key_simps)
section \<open>Allocation discipline of \<open>execute_server\<close>\<close>

lemma new_events_append: "trace s' = trace s @ evs \<Longrightarrow> new_events s s' = evs"
  by (simp add: new_events_def)

lemma allocated_append: "allocated (xs @ ys) = allocated xs @ allocated ys"
  by (simp add: allocated_def)

lemma freed_append: "freed (xs @ ys) = freed xs @ freed ys"
  by (simp add: freed_def)

lemma bad_frees_append: "bad_frees (xs @ ys) = bad_frees xs @ bad_frees ys"
  by (simp add: bad_frees_def)

lemma allocated_allocs: "allocated (map EvAlloc ks) = ks"
  by (induction ks) (simp_all add: allocated_def)

lemma allocated_frees: "allocated (map EvFree ks) = []"
  by (induction ks) (simp_all add: allocated_def)

lemma freed_allocs: "freed (map EvAlloc ks) = []"
  by (induction ks) (simp_all add: freed_def)

lemma freed_frees: "freed (map EvFree ks) = ks"
  by (induction ks) (simp_all add: freed_def)

lemma bad_frees_allocs: "bad_frees (map EvAlloc ks) = []"
  by (induction ks) (simp_all add: bad_frees_def)

lemma bad_frees_frees: "bad_frees (map EvFree ks) = []"
  by (induction ks) (simp_all add: bad_frees_def)

lemma filter_execute_allocs: "filter is_execute (map EvAlloc ks) = []"
  by (induction ks) simp_all

lemma filter_execute_frees: "filter is_execute (map EvFree ks) = []"
  by (induction ks) simp_all

text \<open>
  What \<open>ADD_PARAM\<close> leaves behind: the first \<open>n\<close> strings were allocated, at consecutive
  allocation indices, and either all strings were (\<open>ok\<close>) or allocation \<open>n\<close> failed.
\<close>

lemma add_params_result:
  "add_params env vs cmd s = (ok, cmd', s') \<Longrightarrow>
   \<exists>n. n \<le> length vs
     \<and> cmd' = cmd @ map (\<lambda>(k, v). Allocated k v) (zip [n_alloc s ..< n_alloc s + n] vs)
     \<and> trace s' = trace s @ map EvAlloc [n_alloc s ..< n_alloc s + n]
     \<and> (\<forall>k. n_alloc s \<le> k \<and> k < n_alloc s + n \<longrightarrow> e_alloc env k)
     \<and> (if ok then n = length vs \<and> n_alloc s' = n_alloc s + n
         else n < length vs \<and> \<not> e_alloc env (n_alloc s + n) \<and> n_alloc s' = Suc (n_alloc s + n))"
proof (induction vs arbitrary: cmd s)
  case Nil
  then show ?case by auto
next
  case (Cons v vs)
  show ?case
  proof (cases "e_alloc env (n_alloc s)")
    case False
    with Cons.prems have "ok = False" "cmd' = cmd" "s' = s\<lparr>n_alloc := Suc (n_alloc s)\<rparr>"
      by (simp_all add: asprintf_def Let_def)
    with False show ?thesis by (intro exI [of _ 0]) auto
  next
    case True
    define s1 where "s1 = emit (EvAlloc (n_alloc s)) (s\<lparr>n_alloc := Suc (n_alloc s)\<rparr>)"
    from True Cons.prems
    have "add_params env vs (cmd @ [Allocated (n_alloc s) v]) s1 = (ok, cmd', s')"
      by (simp add: asprintf_def Let_def s1_def)
    from Cons.IH [OF this] obtain n where n:
      "n \<le> length vs"
      "cmd' = (cmd @ [Allocated (n_alloc s) v])
                @ map (\<lambda>(k, v). Allocated k v) (zip [n_alloc s1 ..< n_alloc s1 + n] vs)"
      "trace s' = trace s1 @ map EvAlloc [n_alloc s1 ..< n_alloc s1 + n]"
      "\<forall>k. n_alloc s1 \<le> k \<and> k < n_alloc s1 + n \<longrightarrow> e_alloc env k"
      "if ok then n = length vs \<and> n_alloc s' = n_alloc s1 + n
       else n < length vs \<and> \<not> e_alloc env (n_alloc s1 + n) \<and> n_alloc s' = Suc (n_alloc s1 + n)"
      by blast
    have s1: "n_alloc s1 = Suc (n_alloc s)" "trace s1 = trace s @ [EvAlloc (n_alloc s)]"
      by (simp_all add: s1_def emit_def)
    have upt: "[n_alloc s ..< n_alloc s + Suc n] = n_alloc s # [Suc (n_alloc s) ..< Suc (n_alloc s) + n]"
      by (simp add: upt_rec)
    have all: "\<forall>k. n_alloc s \<le> k \<and> k < n_alloc s + Suc n \<longrightarrow> e_alloc env k"
    proof (intro allI impI)
      fix k assume k: "n_alloc s \<le> k \<and> k < n_alloc s + Suc n"
      show "e_alloc env k"
      proof (cases "k = n_alloc s")
        case True
        with \<open>e_alloc env (n_alloc s)\<close> show ?thesis by simp
      next
        case False
        with k n(4) s1(1) show ?thesis by simp
      qed
    qed
    show ?thesis
    proof (intro exI [of _ "Suc n"] conjI)
      show "Suc n \<le> length (v # vs)" using n(1) by simp
      show "cmd' = cmd @ map (\<lambda>(k, v). Allocated k v)
                         (zip [n_alloc s ..< n_alloc s + Suc n] (v # vs))"
        using n(2) s1(1) by (simp only: upt) simp
      show "trace s' = trace s @ map EvAlloc [n_alloc s ..< n_alloc s + Suc n]"
        using n(3) s1 by (simp only: upt) simp
      show "\<forall>k. n_alloc s \<le> k \<and> k < n_alloc s + Suc n \<longrightarrow> e_alloc env k" by (rule all)
      show "if ok then Suc n = length (v # vs) \<and> n_alloc s' = n_alloc s + Suc n
            else Suc n < length (v # vs) \<and> \<not> e_alloc env (n_alloc s + Suc n)
                 \<and> n_alloc s' = Suc (n_alloc s + Suc n)"
        using n(5) s1(1) by (cases ok) simp_all
    qed
  qed
qed

lemma add_params_all_ok:
  "\<forall>k. e_alloc env k \<Longrightarrow> add_params env vs cmd s = (ok, cmd', s') \<Longrightarrow> ok"
  by (induction vs arbitrary: cmd s) (auto simp: asprintf_def Let_def)

lemma free_args_append: "free_args (xs @ ys) s = free_args ys (free_args xs s)"
  by (simp add: free_args_def)

lemma free_args_allocated:
  "length ks \<le> length vs \<Longrightarrow>
   trace (free_args (map (\<lambda>(k, v). Allocated k v) (zip ks vs)) s) = trace s @ map EvFree ks"
proof (induction ks arbitrary: vs s)
  case Nil
  then show ?case by (simp add: free_args_def)
next
  case (Cons k ks)
  then obtain v vs' where "vs = v # vs'" by (cases vs) auto
  with Cons show ?case by (simp add: free_args_def emit_def)
qed

lemma free_args_null: "free_args [NullArg] s = s"
  by (simp add: free_args_def)

lemma length_execute_server_cmd: "length (execute_server_cmd env s) = 9"
  by (simp add: execute_server_cmd_def)

text \<open>
  The shape of every run of \<open>execute_server\<close>: some allocations, at most one spawn,
  and the release of exactly those allocations.
\<close>

lemma execute_server_cases:
  assumes "execute_server env p s = (pid, s')"
  obtains (spawned) n where
      "n = length (execute_server_params p (forward (tunnel s)))"
      "\<forall>k. n_alloc s \<le> k \<and> k < n_alloc s + n \<longrightarrow> e_alloc env k"
      "n_alloc s' = n_alloc s + n"
      "pid = e_execute env"
      "trace s' = trace s @ map EvAlloc [n_alloc s ..< n_alloc s + n]
         @ [EvAdbExecute (map cmd_arg_text (execute_server_cmd env s)
              @ map Some (execute_server_params p (forward (tunnel s))) @ [None])]
         @ map EvFree [n_alloc s ..< n_alloc s + n]"
    | (oom) n where
      "n < length (execute_server_params p (forward (tunnel s)))"
      "\<forall>k. n_alloc s \<le> k \<and> k < n_alloc s + n \<longrightarrow> e_alloc env k"
      "\<not> e_alloc env (n_alloc s + n)"
      "n_alloc s' = Suc (n_alloc s + n)"
      "pid = None"
      "trace s' = trace s @ map EvAlloc [n_alloc s ..< n_alloc s + n]
         @ map EvFree [n_alloc s ..< n_alloc s + n]"
proof -
  define vs where "vs = execute_server_params p (forward (tunnel s))"
  define cmd0 where "cmd0 = execute_server_cmd env s"
  obtain ok cmd1 s1 where ap: "add_params env vs cmd0 s = (ok, cmd1, s1)"
    by (cases "add_params env vs cmd0 s") auto
  from add_params_result [OF ap] obtain n where n:
    "n \<le> length vs"
    "cmd1 = cmd0 @ map (\<lambda>(k, v). Allocated k v) (zip [n_alloc s ..< n_alloc s + n] vs)"
    "trace s1 = trace s @ map EvAlloc [n_alloc s ..< n_alloc s + n]"
    "\<forall>k. n_alloc s \<le> k \<and> k < n_alloc s + n \<longrightarrow> e_alloc env k"
    "if ok then n = length vs \<and> n_alloc s' = n_alloc s' \<and> n_alloc s1 = n_alloc s + n
     else n < length vs \<and> \<not> e_alloc env (n_alloc s + n) \<and> n_alloc s1 = Suc (n_alloc s + n)"
    by (cases ok) auto
  define ks where "ks = [n_alloc s ..< n_alloc s + n]"
  have len: "length ks \<le> length vs" using n(1) by (simp add: ks_def)
  have drop1: "drop (length cmd0) cmd1 = map (\<lambda>(k, v). Allocated k v) (zip ks vs)"
    using n(2) by (simp add: ks_def)
  have n_alloc_free: "\<And>xs t. n_alloc (free_args xs t) = n_alloc t"
  proof -
    fix xs :: "cmd_arg list" and t
    have one: "\<And>a u. n_alloc (free_arg a u) = n_alloc u"
      subgoal for a u by (cases a) (simp_all add: emit_def) done
    show "n_alloc (free_args xs t) = n_alloc t"
      unfolding free_args_def
      by (induction xs arbitrary: t) (simp_all add: one)
  qed
  show ?thesis
  proof (cases ok)
    case True
    with n(5) have nl: "n = length vs" "n_alloc s1 = n_alloc s + n" by simp_all
    have texts: "map cmd_arg_text (cmd1 @ [NullArg])
                   = map cmd_arg_text cmd0 @ map Some vs @ [None]"
    proof -
      have "map cmd_arg_text (map (\<lambda>(k, v). Allocated k v) (zip ks vs)) = map Some (map snd (zip ks vs))"
        by (simp add: case_prod_beta)
      also have "map snd (zip ks vs) = vs"
        using nl(1) by (simp add: ks_def)
      finally show ?thesis using n(2) by (simp add: ks_def)
    qed
    from assms True ap have
      s': "s' = free_args (drop (length cmd0) (cmd1 @ [NullArg]))
                  (emit (EvAdbExecute (map cmd_arg_text (cmd1 @ [NullArg]))) s1)"
      and pid: "pid = e_execute env"
      by (simp_all add: execute_server_def Let_def vs_def [symmetric] cmd0_def [symmetric]
            sc_adb_execute_def)
    have dr: "drop (length cmd0) (cmd1 @ [NullArg])
                = map (\<lambda>(k, v). Allocated k v) (zip ks vs) @ [NullArg]"
      using n(2) by (simp add: ks_def)
    have tr1: "trace s1 = trace s @ map EvAlloc ks"
      using n(3) by (simp add: ks_def)
    have "trace s' = trace (emit (EvAdbExecute (map cmd_arg_text (cmd1 @ [NullArg]))) s1)
                       @ map EvFree ks"
      unfolding s' dr free_args_append free_args_null
      by (rule free_args_allocated [OF len])
    then have tr: "trace s' = trace s @ map EvAlloc ks
                @ [EvAdbExecute (map cmd_arg_text cmd0 @ map Some vs @ [None])] @ map EvFree ks"
      by (simp only: texts tr1) (simp add: emit_def tr1)
    have na: "n_alloc s' = n_alloc s + n"
      unfolding s' by (simp add: n_alloc_free emit_def nl)
    show ?thesis
      by (rule spawned [of n])
         (use n(4) nl na pid tr in \<open>simp_all add: ks_def vs_def cmd0_def\<close>)
  next
    case False
    with n(5) have nl: "n < length vs" "\<not> e_alloc env (n_alloc s + n)"
      "n_alloc s1 = Suc (n_alloc s + n)" by simp_all
    from assms False ap have
      s': "s' = free_args (drop (length cmd0) cmd1) s1" and pid: "pid = None"
      by (simp_all add: execute_server_def Let_def vs_def [symmetric] cmd0_def [symmetric])
    have tr1: "trace s1 = trace s @ map EvAlloc ks"
      using n(3) by (simp add: ks_def)
    have "trace s' = trace s1 @ map EvFree ks"
      unfolding s' drop1 by (rule free_args_allocated [OF len])
    then have tr: "trace s' = trace s @ map EvAlloc ks @ map EvFree ks"
      by (simp add: tr1)
    have na: "n_alloc s' = Suc (n_alloc s + n)"
      unfolding s' by (simp add: n_alloc_free nl)
    show ?thesis
      by (rule oom [of n])
         (use n(4) nl na pid tr in \<open>simp_all add: ks_def vs_def cmd0_def\<close>)
  qed
qed
section \<open>What the lower layers leave untouched\<close>

text \<open>
  Each function below \<open>run_server\<close> is followed through two observations: the
  \<open>struct sc_server\<close> it leaves, and the top-level events of its trace.
\<close>

lemma top_events_emit:
  "top_events (emit e s) = top_events s @ (if top_level e then [e] else [])"
  by (simp add: top_events_def emit_def)

lemma struct_of_emit: "struct_of (emit e s) = struct_of s"
  by (simp add: struct_of_def emit_def)

lemma struct_of_fields:
  "params s = params (struct_of s)"
  "serial s = serial (struct_of s)"
  "device_socket_name s = device_socket_name (struct_of s)"
  "tunnel s = tunnel (struct_of s)"
  "video_socket s = video_socket (struct_of s)"
  "audio_socket s = audio_socket (struct_of s)"
  "control_socket s = control_socket (struct_of s)"
  "device_name s = device_name (struct_of s)"
  by (simp_all add: struct_of_def)

lemma struct_of_eqD:
  assumes "struct_of s' = struct_of s"
  shows "params s' = params s" and "serial s' = serial s"
    and "device_socket_name s' = device_socket_name s" and "tunnel s' = tunnel s"
    and "video_socket s' = video_socket s" and "audio_socket s' = audio_socket s"
    and "control_socket s' = control_socket s" and "device_name s' = device_name s"
  using assms struct_of_fields by metis+

lemma struct_of_updates:
  "struct_of (s\<lparr>serial := x\<rparr>) = (struct_of s)\<lparr>serial := x\<rparr>"
  "struct_of (s\<lparr>device_socket_name := y\<rparr>) = (struct_of s)\<lparr>device_socket_name := y\<rparr>"
  "struct_of (s\<lparr>tunnel := t\<rparr>) = (struct_of s)\<lparr>tunnel := t\<rparr>"
  "struct_of (s\<lparr>device_name := d\<rparr>) = (struct_of s)\<lparr>device_name := d\<rparr>"
  "struct_of (s\<lparr>video_socket := a\<rparr>) = (struct_of s)\<lparr>video_socket := a\<rparr>"
  "struct_of (s\<lparr>audio_socket := b\<rparr>) = (struct_of s)\<lparr>audio_socket := b\<rparr>"
  "struct_of (s\<lparr>control_socket := c\<rparr>) = (struct_of s)\<lparr>control_socket := c\<rparr>"
  by (simp_all add: struct_of_def)

lemma top_events_updates:
  "top_events (s\<lparr>serial := x\<rparr>) = top_events s"
  "top_events (s\<lparr>device_socket_name := y\<rparr>) = top_events s"
  "top_events (s\<lparr>tunnel := t\<rparr>) = top_events s"
  "top_events (s\<lparr>device_name := d\<rparr>) = top_events s"
  "top_events (s\<lparr>video_socket := a\<rparr>) = top_events s"
  "top_events (s\<lparr>audio_socket := b\<rparr>) = top_events s"
  "top_events (s\<lparr>control_socket := c\<rparr>) = top_events s"
  by (simp_all add: top_events_def)

lemma struct_of_asprintf: "struct_of (snd (asprintf env v s)) = struct_of s"
  by (simp add: asprintf_def struct_of_def emit_def Let_def split: option.split prod.split)

lemma top_events_asprintf: "top_events (snd (asprintf env v s)) = top_events s"
  by (simp add: asprintf_def top_events_def emit_def Let_def split: option.split prod.split)

lemma struct_of_strdup: "struct_of (snd (strdup env v s)) = struct_of s"
  by (simp add: strdup_def asprintf_def struct_of_def emit_def Let_def split: option.split prod.split)

lemma top_events_strdup: "top_events (snd (strdup env v s)) = top_events s"
  by (simp add: strdup_def asprintf_def top_events_def emit_def Let_def split: option.split prod.split)

lemma struct_of_sc_adb_start_server: "struct_of (snd (sc_adb_start_server env s)) = struct_of s"
  by (simp add: sc_adb_start_server_def struct_of_def emit_def Let_def split: option.split prod.split)

lemma top_events_sc_adb_start_server: "top_events (snd (sc_adb_start_server env s)) = top_events s"
  by (simp add: sc_adb_start_server_def top_events_def emit_def Let_def split: option.split prod.split)

lemma struct_of_sc_adb_select_device: "struct_of (snd (sc_adb_select_device env selector s)) = struct_of s"
  by (simp add: sc_adb_select_device_def struct_of_def emit_def Let_def split: option.split prod.split)

lemma top_events_sc_adb_select_device: "top_events (snd (sc_adb_select_device env selector s)) = top_events s"
  by (simp add: sc_adb_select_device_def top_events_def emit_def Let_def split: option.split prod.split)

lemma struct_of_sc_adb_get_device_ip: "struct_of (snd (sc_adb_get_device_ip env ser s)) = struct_of s"
  by (simp add: sc_adb_get_device_ip_def struct_of_def emit_def Let_def split: option.split prod.split)

lemma top_events_sc_adb_get_device_ip: "top_events (snd (sc_adb_get_device_ip env ser s)) = top_events s"
  by (simp add: sc_adb_get_device_ip_def top_events_def emit_def Let_def split: option.split prod.split)

lemma struct_of_sc_adb_getprop: "struct_of (snd (sc_adb_getprop env ser prop flags s)) = struct_of s"
  by (simp add: sc_adb_getprop_def struct_of_def emit_def Let_def split: option.split prod.split)

lemma top_events_sc_adb_getprop: "top_events (snd (sc_adb_getprop env ser prop flags s)) = top_events s"
  by (simp add: sc_adb_getprop_def top_events_def emit_def Let_def split: option.split prod.split)

lemma struct_of_sc_adb_tcpip: "struct_of (snd (sc_adb_tcpip env ser port flags s)) = struct_of s"
  by (simp add: sc_adb_tcpip_def struct_of_def emit_def Let_def split: option.split prod.split)

lemma top_events_sc_adb_tcpip: "top_events (snd (sc_adb_tcpip env ser port flags s)) = top_events s"
  by (simp add: sc_adb_tcpip_def top_events_def emit_def Let_def split: option.split prod.split)

lemma struct_of_sc_adb_disconnect: "struct_of (sc_adb_disconnect env ip_port flags s) = struct_of s"
  by (simp add: sc_adb_disconnect_def struct_of_def emit_def Let_def split: option.split prod.split)

lemma top_events_sc_adb_disconnect: "top_events (sc_adb_disconnect env ip_port flags s) = top_events s"
  by (simp add: sc_adb_disconnect_def top_events_def emit_def Let_def split: option.split prod.split)

lemma struct_of_sc_adb_connect: "struct_of (snd (sc_adb_connect env ip_port flags s)) = struct_of s"
  by (simp add: sc_adb_connect_def struct_of_def emit_def Let_def split: option.split prod.split)

lemma top_events_sc_adb_connect: "top_events (snd (sc_adb_connect env ip_port flags s)) = top_events s"
  by (simp add: sc_adb_connect_def top_events_def emit_def Let_def split: option.split prod.split)

lemma struct_of_sc_adb_push: "struct_of (snd (sc_adb_push env ser a b s)) = struct_of s"
  by (simp add: sc_adb_push_def struct_of_def emit_def Let_def split: option.split prod.split)

lemma top_events_sc_adb_push: "top_events (snd (sc_adb_push env ser a b s)) = top_events s"
  by (simp add: sc_adb_push_def top_events_def emit_def Let_def split: option.split prod.split)

lemma struct_of_sc_adb_execute: "struct_of (snd (sc_adb_execute env argv s)) = struct_of s"
  by (simp add: sc_adb_execute_def struct_of_def emit_def Let_def split: option.split prod.split)

lemma top_events_sc_adb_execute: "top_events (snd (sc_adb_execute env argv s)) = top_events s"
  by (simp add: sc_adb_execute_def top_events_def emit_def Let_def split: option.split prod.split)

lemma struct_of_sc_adb_kill_server: "struct_of (sc_adb_kill_server env flags s) = struct_of s"
  by (simp add: sc_adb_kill_server_def struct_of_def emit_def Let_def split: option.split prod.split)

lemma top_events_sc_adb_kill_server: "top_events (sc_adb_kill_server env flags s) = top_events s"
  by (simp add: sc_adb_kill_server_def top_events_def emit_def Let_def split: option.split prod.split)

lemma struct_of_net_socket: "struct_of (snd (net_socket env s)) = struct_of s"
  by (simp add: net_socket_def struct_of_def emit_def Let_def split: option.split prod.split)

lemma top_events_net_socket: "top_events (snd (net_socket env s)) = top_events s"
  by (simp add: net_socket_def top_events_def emit_def Let_def split: option.split prod.split)

lemma struct_of_net_accept_intr: "struct_of (snd (net_accept_intr env listener s)) = struct_of s"
  by (simp add: net_accept_intr_def struct_of_def emit_def Let_def split: option.split prod.split)

lemma top_events_net_accept_intr: "top_events (snd (net_accept_intr env listener s)) = top_events s"
  by (simp add: net_accept_intr_def top_events_def emit_def Let_def split: option.split prod.split)

lemma struct_of_net_connect_intr: "struct_of (snd (net_connect_intr env sock host port s)) = struct_of s"
  by (simp add: net_connect_intr_def struct_of_def emit_def Let_def split: option.split prod.split)

lemma top_events_net_connect_intr: "top_events (snd (net_connect_intr env sock host port s)) = top_events s"
  by (simp add: net_connect_intr_def top_events_def emit_def Let_def split: option.split prod.split)

lemma struct_of_net_recv_intr: "struct_of (snd (net_recv_intr env sock len s)) = struct_of s"
  by (simp add: net_recv_intr_def struct_of_def emit_def Let_def split: option.split prod.split)

lemma top_events_net_recv_intr: "top_events (snd (net_recv_intr env sock len s)) = top_events s"
  by (simp add: net_recv_intr_def top_events_def emit_def Let_def split: option.split prod.split)

lemma struct_of_net_recv_all_intr: "struct_of (snd (snd (net_recv_all_intr env sock len s))) = struct_of s"
  by (simp add: net_recv_all_intr_def struct_of_def emit_def Let_def split: option.split prod.split)

lemma top_events_net_recv_all_intr: "top_events (snd (snd (net_recv_all_intr env sock len s))) = top_events s"
  by (simp add: net_recv_all_intr_def top_events_def emit_def Let_def split: option.split prod.split)

lemma struct_of_net_close: "struct_of (net_close sock s) = struct_of s"
  by (simp add: net_close_def struct_of_def emit_def Let_def split: option.split prod.split)

lemma top_events_net_close: "top_events (net_close sock s) = top_events s"
  by (simp add: net_close_def top_events_def emit_def Let_def split: option.split prod.split)

lemma struct_of_net_interrupt: "struct_of (net_interrupt sock s) = struct_of s"
  by (simp add: net_interrupt_def struct_of_def emit_def Let_def split: option.split prod.split)

lemma top_events_net_interrupt: "top_events (net_interrupt sock s) = top_events s"
  by (simp add: net_interrupt_def top_events_def emit_def Let_def split: option.split prod.split)

lemma struct_of_sc_intr_is_interrupted: "struct_of (snd (sc_intr_is_interrupted env s)) = struct_of s"
  by (simp add: sc_intr_is_interrupted_def struct_of_def emit_def Let_def split: option.split prod.split)

lemma top_events_sc_intr_is_interrupted: "top_events (snd (sc_intr_is_interrupted env s)) = top_events s"
  by (simp add: sc_intr_is_interrupted_def top_events_def emit_def Let_def split: option.split prod.split)

lemma struct_of_sc_intr_interrupt: "struct_of (sc_intr_interrupt s) = struct_of s"
  by (simp add: sc_intr_interrupt_def struct_of_def emit_def Let_def split: option.split prod.split)

lemma top_events_sc_intr_interrupt: "top_events (sc_intr_interrupt s) = top_events s"
  by (simp add: sc_intr_interrupt_def top_events_def emit_def Let_def split: option.split prod.split)

lemma struct_of_sc_process_wait: "struct_of (sc_process_wait pid s) = struct_of s"
  by (simp add: sc_process_wait_def struct_of_def emit_def Let_def split: option.split prod.split)

lemma top_events_sc_process_wait: "top_events (sc_process_wait pid s) = top_events s"
  by (simp add: sc_process_wait_def top_events_def emit_def Let_def split: option.split prod.split)

lemma struct_of_sc_process_close: "struct_of (sc_process_close pid s) = struct_of s"
  by (simp add: sc_process_close_def struct_of_def emit_def Let_def split: option.split prod.split)

lemma top_events_sc_process_close: "top_events (sc_process_close pid s) = top_events s"
  by (simp add: sc_process_close_def top_events_def emit_def Let_def split: option.split prod.split)

lemma struct_of_sc_process_terminate: "struct_of (sc_process_terminate pid s) = struct_of s"
  by (simp add: sc_process_terminate_def struct_of_def emit_def Let_def split: option.split prod.split)

lemma top_events_sc_process_terminate: "top_events (sc_process_terminate pid s) = top_events s"
  by (simp add: sc_process_terminate_def top_events_def emit_def Let_def split: option.split prod.split)

lemma struct_of_sc_process_observer_timedwait: "struct_of (snd (sc_process_observer_timedwait env delay s)) = struct_of s"
  by (simp add: sc_process_observer_timedwait_def struct_of_def emit_def Let_def split: option.split prod.split)

lemma top_events_sc_process_observer_timedwait: "top_events (snd (sc_process_observer_timedwait env delay s)) = top_events s"
  by (simp add: sc_process_observer_timedwait_def top_events_def emit_def Let_def split: option.split prod.split)

lemma struct_of_sc_process_observer_join: "struct_of (sc_process_observer_join s) = struct_of s"
  by (simp add: sc_process_observer_join_def struct_of_def emit_def Let_def split: option.split prod.split)

lemma top_events_sc_process_observer_join: "top_events (sc_process_observer_join s) = top_events s"
  by (simp add: sc_process_observer_join_def top_events_def emit_def Let_def split: option.split prod.split)

lemma struct_of_sc_process_observer_destroy: "struct_of (sc_process_observer_destroy s) = struct_of s"
  by (simp add: sc_process_observer_destroy_def struct_of_def emit_def Let_def split: option.split prod.split)

lemma top_events_sc_process_observer_destroy: "top_events (sc_process_observer_destroy s) = top_events s"
  by (simp add: sc_process_observer_destroy_def top_events_def emit_def Let_def split: option.split prod.split)

lemma struct_of_sc_server_sleep: "struct_of (snd (sc_server_sleep env delay s)) = struct_of s"
  by (simp add: sc_server_sleep_def struct_of_def emit_def Let_def split: option.split prod.split)

lemma top_events_sc_server_sleep: "top_events (snd (sc_server_sleep env delay s)) = top_events s"
  by (simp add: sc_server_sleep_def top_events_def emit_def Let_def split: option.split prod.split)

lemma struct_of_strdup_ptr: "struct_of (snd (strdup_ptr env v s)) = struct_of s"
  by (simp add: strdup_ptr_def asprintf_def struct_of_def emit_def Let_def)

lemma top_events_strdup_ptr: "top_events (snd (strdup_ptr env v s)) = top_events s"
  by (simp add: strdup_ptr_def asprintf_def top_events_def emit_def Let_def)

lemma struct_of_free_ptr: "struct_of (free_ptr k s) = struct_of s"
  by (simp add: free_ptr_def struct_of_def emit_def)

lemma top_events_free_ptr: "top_events (free_ptr k s) = top_events s"
  by (simp add: free_ptr_def top_events_def emit_def)

lemma struct_of_sc_file_get_local_path:
  "struct_of (snd (sc_file_get_local_path env name s)) = struct_of s"
  by (simp add: sc_file_get_local_path_def struct_of_def emit_def Let_def split: option.split)

lemma top_events_sc_file_get_local_path:
  "top_events (snd (sc_file_get_local_path env name s)) = top_events s"
  by (simp add: sc_file_get_local_path_def top_events_def emit_def Let_def split: option.split)

lemmas struct_of_prims =
  struct_of_asprintf struct_of_strdup struct_of_strdup_ptr struct_of_free_ptr
  struct_of_sc_file_get_local_path struct_of_sc_adb_start_server
  struct_of_sc_adb_select_device struct_of_sc_adb_get_device_ip struct_of_sc_adb_getprop
  struct_of_sc_adb_tcpip struct_of_sc_adb_disconnect struct_of_sc_adb_connect
  struct_of_sc_adb_push struct_of_sc_adb_execute struct_of_sc_adb_kill_server
  struct_of_net_socket struct_of_net_accept_intr struct_of_net_connect_intr
  struct_of_net_recv_intr struct_of_net_recv_all_intr struct_of_net_close
  struct_of_net_interrupt struct_of_sc_intr_is_interrupted struct_of_sc_intr_interrupt
  struct_of_sc_process_wait struct_of_sc_process_close struct_of_sc_process_terminate
  struct_of_sc_process_observer_timedwait struct_of_sc_process_observer_join
  struct_of_sc_process_observer_destroy struct_of_sc_server_sleep

lemmas top_events_prims =
  top_events_asprintf top_events_strdup top_events_strdup_ptr top_events_free_ptr
  top_events_sc_file_get_local_path top_events_sc_adb_start_server
  top_events_sc_adb_select_device top_events_sc_adb_get_device_ip
  top_events_sc_adb_getprop top_events_sc_adb_tcpip top_events_sc_adb_disconnect
  top_events_sc_adb_connect top_events_sc_adb_push top_events_sc_adb_execute
  top_events_sc_adb_kill_server top_events_net_socket top_events_net_accept_intr
  top_events_net_connect_intr top_events_net_recv_intr top_events_net_recv_all_intr
  top_events_net_close top_events_net_interrupt top_events_sc_intr_is_interrupted
  top_events_sc_intr_interrupt top_events_sc_process_wait top_events_sc_process_close
  top_events_sc_process_terminate top_events_sc_process_observer_timedwait
  top_events_sc_process_observer_join top_events_sc_process_observer_destroy
  top_events_sc_server_sleep
section \<open>The two retry loops\<close>

text \<open>
  One turn of each loop, with its intermediate results named, and the induction that
  follows the loop.
\<close>

lemma connect_to_server_unfold:
  "connect_to_server env attempts delay host port s =
     (let a = connect_attempt env host port s
      in if fst a \<noteq> None then a
         else (let b = sc_intr_is_interrupted env (snd a)
               in if fst b then (None, snd b)
                  else (let c = (if attempts \<noteq> 0 then sc_server_sleep env delay (snd b)
                                 else (True, snd b))
                        in if \<not> fst c then (None, snd c)
                           else if attempts - 1 \<noteq> 0
                                then connect_to_server env (attempts - 1) delay host port (snd c)
                                else (None, snd c))))"
  by (subst connect_to_server.simps) (simp add: Let_def case_prod_beta)

lemma connect_to_server_induct [case_names step]:
  fixes P :: "env \<Rightarrow> 32 word \<Rightarrow> nat \<Rightarrow> 32 word \<Rightarrow> 16 word \<Rightarrow> sc_server \<Rightarrow> bool"
  assumes "\<And>env attempts delay host port s a b c.
     \<lbrakk>a = connect_attempt env host port s;
      b = sc_intr_is_interrupted env (snd a);
      c = (if attempts \<noteq> 0 then sc_server_sleep env delay (snd b) else (True, snd b));
      connect_to_server env attempts delay host port s =
        (if fst a \<noteq> None then a
         else if fst b then (None, snd b)
         else if \<not> fst c then (None, snd c)
         else if attempts - 1 \<noteq> 0
              then connect_to_server env (attempts - 1) delay host port (snd c)
              else (None, snd c));
      \<lbrakk>fst a = None; \<not> fst b; fst c; attempts - 1 \<noteq> 0\<rbrakk>
        \<Longrightarrow> P env (attempts - 1) delay host port (snd c)\<rbrakk>
     \<Longrightarrow> P env attempts delay host port s"
  shows "P env attempts delay host port s"
proof (induction env attempts delay host port s rule: connect_to_server.induct)
  case (1 env attempts delay host port s)
  define a where "a = connect_attempt env host port s"
  define b where "b = sc_intr_is_interrupted env (snd a)"
  define c where
    "c = (if attempts \<noteq> 0 then sc_server_sleep env delay (snd b) else (True, snd b))"
  show ?case
  proof (rule assms [OF a_def b_def c_def])
    show "connect_to_server env attempts delay host port s =
        (if fst a \<noteq> None then a
         else if fst b then (None, snd b)
         else if \<not> fst c then (None, snd c)
         else if attempts - 1 \<noteq> 0
              then connect_to_server env (attempts - 1) delay host port (snd c)
              else (None, snd c))"
      by (subst connect_to_server_unfold) (simp only: Let_def a_def b_def c_def)
  next
    assume h: "fst a = None" "\<not> fst b" "fst c" "attempts - 1 \<noteq> 0"
    have "\<not> fst a \<noteq> None" "\<not> \<not> fst c" using h by simp_all
    from 1 [OF a_def prod.collapse this(1) b_def prod.collapse h(2) c_def prod.collapse
            this(2) h(4)]
    show "P env (attempts - 1) delay host port (snd c)" .
  qed
qed

lemma wait_tcpip_mode_loop_unfold:
  "wait_tcpip_mode_loop env ser expected_port attempts delay s =
     (let a = sc_server_sleep env delay s
      in if \<not> fst a then (False, snd a)
         else (let b = get_adb_tcp_port env ser (snd a)
               in if fst b = expected_port then (True, snd b)
                  else if attempts - 1 \<noteq> 0
                       then wait_tcpip_mode_loop env ser expected_port (attempts - 1) delay (snd b)
                       else (False, snd b)))"
  by (subst wait_tcpip_mode_loop.simps) (simp add: Let_def case_prod_beta)

lemma wait_tcpip_mode_loop_induct [case_names step]:
  fixes P :: "env \<Rightarrow> string \<Rightarrow> 16 word \<Rightarrow> 32 word \<Rightarrow> nat \<Rightarrow> sc_server \<Rightarrow> bool"
  assumes "\<And>env ser expected_port attempts delay s a b.
     \<lbrakk>a = sc_server_sleep env delay s;
      b = get_adb_tcp_port env ser (snd a);
      wait_tcpip_mode_loop env ser expected_port attempts delay s =
        (if \<not> fst a then (False, snd a)
         else if fst b = expected_port then (True, snd b)
         else if attempts - 1 \<noteq> 0
              then wait_tcpip_mode_loop env ser expected_port (attempts - 1) delay (snd b)
              else (False, snd b));
      \<lbrakk>fst a; fst b \<noteq> expected_port; attempts - 1 \<noteq> 0\<rbrakk>
        \<Longrightarrow> P env ser expected_port (attempts - 1) delay (snd b)\<rbrakk>
     \<Longrightarrow> P env ser expected_port attempts delay s"
  shows "P env ser expected_port attempts delay s"
proof (induction env ser expected_port attempts delay s rule: wait_tcpip_mode_loop.induct)
  case (1 env ser expected_port attempts delay s)
  define a where "a = sc_server_sleep env delay s"
  define b where "b = get_adb_tcp_port env ser (snd a)"
  show ?case
  proof (rule assms [OF a_def b_def])
    show "wait_tcpip_mode_loop env ser expected_port attempts delay s =
        (if \<not> fst a then (False, snd a)
         else if fst b = expected_port then (True, snd b)
         else if attempts - 1 \<noteq> 0
              then wait_tcpip_mode_loop env ser expected_port (attempts - 1) delay (snd b)
              else (False, snd b))"
      by (subst wait_tcpip_mode_loop_unfold) (simp only: Let_def a_def b_def)
  next
    assume h: "fst a" "fst b \<noteq> expected_port" "attempts - 1 \<noteq> 0"
    have "\<not> \<not> fst a" using h by simp
    from 1 [OF a_def prod.collapse this b_def prod.collapse h(2) h(3)]
    show "P env ser expected_port (attempts - 1) delay (snd b)" .
  qed
qed
section \<open>Frames of the composite functions\<close>

lemma struct_of_get_server_path: "struct_of (snd (get_server_path env s)) = struct_of s"
  by (simp add: get_server_path_def case_prod_beta struct_of_prims split: option.split)

lemma top_events_get_server_path: "top_events (snd (get_server_path env s)) = top_events s"
  by (simp add: get_server_path_def case_prod_beta top_events_prims split: option.split)

lemma struct_of_push_server: "struct_of (snd (push_server env ser s)) = struct_of s"
  by (simp add: push_server_def Let_def case_prod_beta struct_of_prims
        struct_of_get_server_path split: option.split)

lemma top_events_push_server: "top_events (snd (push_server env ser s)) = top_events s"
  by (simp add: push_server_def Let_def case_prod_beta top_events_prims
        top_events_get_server_path split: option.split)

lemma struct_of_add_params: "struct_of (snd (snd (add_params env vs cmd s))) = struct_of s"
  by (induction vs arbitrary: cmd s)
     (simp_all add: case_prod_beta struct_of_prims split: option.split)

lemma top_events_add_params: "top_events (snd (snd (add_params env vs cmd s))) = top_events s"
  by (induction vs arbitrary: cmd s)
     (simp_all add: case_prod_beta top_events_prims split: option.split)

lemma struct_of_free_arg: "struct_of (free_arg a s) = struct_of s"
  by (cases a) (simp_all add: struct_of_emit)

lemma top_events_free_arg: "top_events (free_arg a s) = top_events s"
  by (cases a) (simp_all add: top_events_emit)

lemma struct_of_free_args: "struct_of (free_args xs s) = struct_of s"
  unfolding free_args_def
  by (induction xs arbitrary: s) (simp_all add: struct_of_free_arg)

lemma top_events_free_args: "top_events (free_args xs s) = top_events s"
  unfolding free_args_def
  by (induction xs arbitrary: s) (simp_all add: top_events_free_arg)

lemma struct_of_execute_server: "struct_of (snd (execute_server env p s)) = struct_of s"
  by (simp add: execute_server_def Let_def case_prod_beta struct_of_free_args
        struct_of_add_params struct_of_prims)

lemma top_events_execute_server: "top_events (snd (execute_server env p s)) = top_events s"
  by (simp add: execute_server_def Let_def case_prod_beta top_events_free_args
        top_events_add_params top_events_prims)

lemma struct_of_connect_and_read_byte:
  "struct_of (snd (connect_and_read_byte env sock host port s)) = struct_of s"
  by (simp add: connect_and_read_byte_def Let_def case_prod_beta struct_of_prims)

lemma top_events_connect_and_read_byte:
  "top_events (snd (connect_and_read_byte env sock host port s)) = top_events s"
  by (simp add: connect_and_read_byte_def Let_def case_prod_beta top_events_prims)

lemma struct_of_connect_attempt:
  "struct_of (snd (connect_attempt env host port s)) = struct_of s"
  by (simp add: connect_attempt_def Let_def case_prod_beta struct_of_prims
        struct_of_connect_and_read_byte split: option.split)

lemma top_events_connect_attempt:
  "top_events (snd (connect_attempt env host port s)) = top_events s"
  by (simp add: connect_attempt_def Let_def case_prod_beta top_events_prims
        top_events_connect_and_read_byte split: option.split)

lemma struct_of_connect_to_server:
  "struct_of (snd (connect_to_server env attempts delay host port s)) = struct_of s"
proof (induction env attempts delay host port s rule: connect_to_server_induct)
  case (step env attempts delay host port s a b c)
  have "struct_of (snd a) = struct_of s" "struct_of (snd b) = struct_of (snd a)"
    "struct_of (snd c) = struct_of (snd b)"
    unfolding step(1-3) by (simp_all add: struct_of_prims struct_of_connect_attempt)
  with step(5) show ?case unfolding step(4) by auto
qed

lemma top_events_connect_to_server:
  "top_events (snd (connect_to_server env attempts delay host port s)) = top_events s"
proof (induction env attempts delay host port s rule: connect_to_server_induct)
  case (step env attempts delay host port s a b c)
  have "top_events (snd a) = top_events s" "top_events (snd b) = top_events (snd a)"
    "top_events (snd c) = top_events (snd b)"
    unfolding step(1-3) by (simp_all add: top_events_prims top_events_connect_attempt)
  with step(5) show ?case unfolding step(4) by auto
qed

lemma struct_of_get_adb_tcp_port: "struct_of (snd (get_adb_tcp_port env ser s)) = struct_of s"
  by (simp add: get_adb_tcp_port_def Let_def case_prod_beta struct_of_prims split: option.split)

lemma top_events_get_adb_tcp_port: "top_events (snd (get_adb_tcp_port env ser s)) = top_events s"
  by (simp add: get_adb_tcp_port_def Let_def case_prod_beta top_events_prims split: option.split)

lemma struct_of_wait_tcpip_mode_loop:
  "struct_of (snd (wait_tcpip_mode_loop env ser expected_port attempts delay s)) = struct_of s"
proof (induction env ser expected_port attempts delay s rule: wait_tcpip_mode_loop_induct)
  case (step env ser expected_port attempts delay s a b)
  have "struct_of (snd a) = struct_of s" "struct_of (snd b) = struct_of (snd a)"
    unfolding step(1-2) by (simp_all add: struct_of_prims struct_of_get_adb_tcp_port)
  with step(4) show ?case unfolding step(3) by auto
qed

lemma top_events_wait_tcpip_mode_loop:
  "top_events (snd (wait_tcpip_mode_loop env ser expected_port attempts delay s)) = top_events s"
proof (induction env ser expected_port attempts delay s rule: wait_tcpip_mode_loop_induct)
  case (step env ser expected_port attempts delay s a b)
  have "top_events (snd a) = top_events s" "top_events (snd b) = top_events (snd a)"
    unfolding step(1-2) by (simp_all add: top_events_prims top_events_get_adb_tcp_port)
  with step(4) show ?case unfolding step(3) by auto
qed

lemma struct_of_wait_tcpip_mode_enabled:
  "struct_of (snd (wait_tcpip_mode_enabled env ser expected_port attempts delay s)) = struct_of s"
  by (simp add: wait_tcpip_mode_enabled_def Let_def case_prod_beta
        struct_of_wait_tcpip_mode_loop struct_of_get_adb_tcp_port)

lemma top_events_wait_tcpip_mode_enabled:
  "top_events (snd (wait_tcpip_mode_enabled env ser expected_port attempts delay s)) = top_events s"
  by (simp add: wait_tcpip_mode_enabled_def Let_def case_prod_beta
        top_events_wait_tcpip_mode_loop top_events_get_adb_tcp_port)

lemma struct_of_append_port: "struct_of (snd (append_port env ip port s)) = struct_of s"
  by (simp add: append_port_def struct_of_prims)

lemma top_events_append_port: "top_events (snd (append_port env ip port s)) = top_events s"
  by (simp add: append_port_def top_events_prims)

lemma struct_of_sc_server_switch_to_tcpip:
  "struct_of (snd (sc_server_switch_to_tcpip env ser s)) = struct_of s"
  by (simp add: sc_server_switch_to_tcpip_def Let_def case_prod_beta struct_of_prims
        struct_of_get_adb_tcp_port struct_of_wait_tcpip_mode_enabled struct_of_append_port
        split: option.split)

lemma top_events_sc_server_switch_to_tcpip:
  "top_events (snd (sc_server_switch_to_tcpip env ser s)) = top_events s"
  by (simp add: sc_server_switch_to_tcpip_def Let_def case_prod_beta top_events_prims
        top_events_get_adb_tcp_port top_events_wait_tcpip_mode_enabled top_events_append_port
        split: option.split)

lemma struct_of_sc_server_connect_to_tcpip:
  "struct_of (snd (sc_server_connect_to_tcpip env ip_port s)) = struct_of s"
  by (simp add: sc_server_connect_to_tcpip_def Let_def struct_of_prims)

lemma top_events_sc_server_connect_to_tcpip:
  "top_events (snd (sc_server_connect_to_tcpip env ip_port s)) = top_events s"
  by (simp add: sc_server_connect_to_tcpip_def Let_def top_events_prims)

lemma struct_of_sc_server_kill_adb_if_requested:
  "struct_of (sc_server_kill_adb_if_requested env s) = struct_of s"
  by (simp add: sc_server_kill_adb_if_requested_def struct_of_prims)

lemma top_events_sc_server_kill_adb_if_requested:
  "top_events (sc_server_kill_adb_if_requested env s) = top_events s"
  by (simp add: sc_server_kill_adb_if_requested_def top_events_prims)

text \<open>The configuration functions change \<open>serial\<close> and nothing else of the struct.\<close>

lemma top_events_known_address:
  "top_events (snd (sc_server_configure_tcpip_known_address env addr s)) = top_events s"
  by (simp add: sc_server_configure_tcpip_known_address_def Let_def case_prod_beta
        top_events_prims top_events_append_port top_events_sc_server_connect_to_tcpip
        top_events_updates split: option.split)

lemma top_events_unknown_address:
  "top_events (snd (sc_server_configure_tcpip_unknown_address env ser s)) = top_events s"
  by (simp add: sc_server_configure_tcpip_unknown_address_def Let_def case_prod_beta
        top_events_prims top_events_sc_server_switch_to_tcpip
        top_events_sc_server_connect_to_tcpip top_events_updates split: option.split)

lemma select_initial_serial_unfold:
  "\<exists>selector. select_initial_serial env s =
     (let d = sc_adb_select_device env selector s
      in case fst d of
           None \<Rightarrow> (False, snd d)
         | Some device_serial \<Rightarrow>
             if tcpip (params s)
             then sc_server_configure_tcpip_unknown_address env device_serial (snd d)
             else (True, (snd d)\<lparr>serial := Some device_serial\<rparr>))"
  unfolding select_initial_serial_def Let_def case_prod_beta
  by (intro exI) (rule refl)

lemma top_events_select_initial_serial:
  "top_events (snd (select_initial_serial env s)) = top_events s"
proof -
  from select_initial_serial_unfold [of env s] obtain selector where
    "select_initial_serial env s =
     (let d = sc_adb_select_device env selector s
      in case fst d of
           None \<Rightarrow> (False, snd d)
         | Some device_serial \<Rightarrow>
             if tcpip (params s)
             then sc_server_configure_tcpip_unknown_address env device_serial (snd d)
             else (True, (snd d)\<lparr>serial := Some device_serial\<rparr>))" ..
  then show ?thesis
    by (simp add: Let_def top_events_prims top_events_unknown_address top_events_updates
          split: option.split)
qed

lemma device_socket_name_struct:
  "struct_of s' = struct_of s \<Longrightarrow> device_socket_name s' = device_socket_name s"
  by (rule struct_of_eqD)

lemma params_struct: "struct_of s' = struct_of s \<Longrightarrow> params s' = params s"
  by (rule struct_of_eqD)

lemma serial_struct: "struct_of s' = struct_of s \<Longrightarrow> serial s' = serial s"
  by (rule struct_of_eqD)

lemma tunnel_struct: "struct_of s' = struct_of s \<Longrightarrow> tunnel s' = tunnel s"
  by (rule struct_of_eqD)

lemma known_address_keeps:
  "device_socket_name (snd (sc_server_configure_tcpip_known_address env addr s))
     = device_socket_name s"
  "params (snd (sc_server_configure_tcpip_known_address env addr s)) = params s"
  by (simp_all add: sc_server_configure_tcpip_known_address_def Let_def case_prod_beta
        device_socket_name_struct [OF struct_of_sc_server_connect_to_tcpip]
        device_socket_name_struct [OF struct_of_strdup]
        device_socket_name_struct [OF struct_of_append_port]
        params_struct [OF struct_of_sc_server_connect_to_tcpip]
        params_struct [OF struct_of_strdup]
        params_struct [OF struct_of_append_port]
        split: option.split)

lemma unknown_address_keeps:
  "device_socket_name (snd (sc_server_configure_tcpip_unknown_address env ser s))
     = device_socket_name s"
  "params (snd (sc_server_configure_tcpip_unknown_address env ser s)) = params s"
  by (simp_all add: sc_server_configure_tcpip_unknown_address_def Let_def case_prod_beta
        device_socket_name_struct [OF struct_of_sc_server_connect_to_tcpip]
        device_socket_name_struct [OF struct_of_strdup]
        device_socket_name_struct [OF struct_of_sc_server_switch_to_tcpip]
        params_struct [OF struct_of_sc_server_connect_to_tcpip]
        params_struct [OF struct_of_strdup]
        params_struct [OF struct_of_sc_server_switch_to_tcpip]
        split: option.split)

lemma select_initial_serial_keeps:
  "device_socket_name (snd (select_initial_serial env s)) = device_socket_name s"
  "params (snd (select_initial_serial env s)) = params s"
proof -
  from select_initial_serial_unfold [of env s] obtain selector where
    "select_initial_serial env s =
     (let d = sc_adb_select_device env selector s
      in case fst d of
           None \<Rightarrow> (False, snd d)
         | Some device_serial \<Rightarrow>
             if tcpip (params s)
             then sc_server_configure_tcpip_unknown_address env device_serial (snd d)
             else (True, (snd d)\<lparr>serial := Some device_serial\<rparr>))" ..
  then show "device_socket_name (snd (select_initial_serial env s)) = device_socket_name s"
    and "params (snd (select_initial_serial env s)) = params s"
    by (simp_all add: Let_def unknown_address_keeps
          device_socket_name_struct [OF struct_of_sc_adb_select_device]
          params_struct [OF struct_of_sc_adb_select_device]
          split: option.split)
qed

text \<open>A successful configuration leaves a serial, so \<open>assert(serial)\<close> holds.\<close>

lemma known_address_serial:
  "fst (sc_server_configure_tcpip_known_address env addr s) \<Longrightarrow>
   serial (snd (sc_server_configure_tcpip_known_address env addr s)) \<noteq> None"
  by (cases "CHR '':'' \<in> set addr")
     (simp_all add: sc_server_configure_tcpip_known_address_def Let_def case_prod_beta
        serial_struct [OF struct_of_sc_server_connect_to_tcpip] split: option.splits)

lemma unknown_address_serial:
  "fst (sc_server_configure_tcpip_unknown_address env ser s) \<Longrightarrow>
   serial (snd (sc_server_configure_tcpip_unknown_address env ser s)) \<noteq> None"
  by (simp add: sc_server_configure_tcpip_unknown_address_def Let_def case_prod_beta
        serial_struct [OF struct_of_sc_server_connect_to_tcpip]
        split: option.splits if_splits)

lemma select_initial_serial_serial:
  "fst (select_initial_serial env s) \<Longrightarrow> serial (snd (select_initial_serial env s)) \<noteq> None"
proof -
  assume ok: "fst (select_initial_serial env s)"
  from select_initial_serial_unfold [of env s] obtain selector where
    "select_initial_serial env s =
     (let d = sc_adb_select_device env selector s
      in case fst d of
           None \<Rightarrow> (False, snd d)
         | Some device_serial \<Rightarrow>
             if tcpip (params s)
             then sc_server_configure_tcpip_unknown_address env device_serial (snd d)
             else (True, (snd d)\<lparr>serial := Some device_serial\<rparr>))" ..
  with ok show ?thesis
    by (simp add: Let_def unknown_address_serial del: not_None_eq
          split: option.splits if_splits)
qed
lemma key_video_source:
  "args_of_key ''video_source'' (execute_server_params p fwd) =
     add_param_if (video_source p \<noteq> SC_VIDEO_SOURCE_DISPLAY) ''video_source=camera''"
  unfolding execute_server_params_def by (simp add: args_of_key_simps)

lemma key_audio_source:
  "args_of_key ''audio_source'' (execute_server_params p fwd) =
     add_param_if (audio_source p \<noteq> SC_AUDIO_SOURCE_OUTPUT) ''audio_source=mic''"
  unfolding execute_server_params_def by (simp add: args_of_key_simps)

lemma key_display_id:
  "args_of_key ''display_id'' (execute_server_params p fwd) =
     add_param_if (video_source p = SC_VIDEO_SOURCE_DISPLAY \<and> display_id p \<noteq> 0)
       (''display_id='' @ fmt_u32 (display_id p))"
  unfolding execute_server_params_def by (simp add: args_of_key_simps)

lemma mem_args_of_key: "a \<in> set args \<Longrightarrow> a \<in> set (args_of_key (key_of a) args)"
  by (simp add: args_of_key_def)

lemma fmt_radix_nonempty: "fmt_radix b n \<noteq> []"
  by (subst fmt_radix.simps) simp

lemma fmt_radix_10_zero: "fmt_radix 10 n = ''0'' \<Longrightarrow> n = 0"
proof (cases "n < 10")
  case True
  assume eq: "fmt_radix 10 n = ''0''"
  from True have "n \<in> set [0..<10]" by simp
  moreover have "\<forall>d\<in>set [0..<10]. digit_char d = CHR ''0'' \<longrightarrow> d = 0"
    by (simp add: upt_rec digit_char_def)
  moreover from eq True have "digit_char n = CHR ''0''"
    by (simp add: fmt_radix.simps [of 10 n])
  ultimately show ?thesis by blast
next
  case False
  assume eq: "fmt_radix 10 n = ''0''"
  from False have "fmt_radix 10 n = fmt_radix 10 (n div 10) @ [digit_char (n mod 10)]"
    by (simp add: fmt_radix.simps [of 10 n])
  with eq have "fmt_radix 10 (n div 10) = []" by simp
  with fmt_radix_nonempty show ?thesis by blast
qed

lemma fmt_u32_zero: "fmt_u32 v = ''0'' \<Longrightarrow> v = 0"
  unfolding fmt_u32_def by (drule fmt_radix_10_zero) (simp add: unat_eq_0)

lemma fmt_u16_zero: "fmt_u16 v = ''0'' \<Longrightarrow> v = 0"
  unfolding fmt_u16_def by (drule fmt_radix_10_zero) (simp add: unat_eq_0)

lemma codec_name_h264: "sc_server_get_codec_name c = ''h264'' \<Longrightarrow> c = SC_CODEC_H264"
  by (cases c) simp_all

lemma codec_name_opus: "sc_server_get_codec_name c = ''opus'' \<Longrightarrow> c = SC_CODEC_OPUS"
  by (cases c) simp_all

lemma no_default_video: "''video=true'' \<notin> set (execute_server_params p fwd)"
  using mem_args_of_key [of "''video=true''" "execute_server_params p fwd"]
  by (auto simp: key_of_def key_video add_param_if_def split: if_splits)

lemma no_default_audio: "''audio=true'' \<notin> set (execute_server_params p fwd)"
  using mem_args_of_key [of "''audio=true''" "execute_server_params p fwd"]
  by (auto simp: key_of_def key_audio add_param_if_def split: if_splits)

lemma no_default_control: "''control=true'' \<notin> set (execute_server_params p fwd)"
  using mem_args_of_key [of "''control=true''" "execute_server_params p fwd"]
  by (auto simp: key_of_def key_control add_param_if_def split: if_splits)

lemma no_default_clipboard_autosync: "''clipboard_autosync=true'' \<notin> set (execute_server_params p fwd)"
  using mem_args_of_key [of "''clipboard_autosync=true''" "execute_server_params p fwd"]
  by (auto simp: key_of_def key_clipboard_autosync add_param_if_def split: if_splits)

lemma no_default_downsize_on_error: "''downsize_on_error=true'' \<notin> set (execute_server_params p fwd)"
  using mem_args_of_key [of "''downsize_on_error=true''" "execute_server_params p fwd"]
  by (auto simp: key_of_def key_downsize_on_error add_param_if_def split: if_splits)

lemma no_default_cleanup: "''cleanup=true'' \<notin> set (execute_server_params p fwd)"
  using mem_args_of_key [of "''cleanup=true''" "execute_server_params p fwd"]
  by (auto simp: key_of_def key_cleanup add_param_if_def split: if_splits)

lemma no_default_power_on: "''power_on=true'' \<notin> set (execute_server_params p fwd)"
  using mem_args_of_key [of "''power_on=true''" "execute_server_params p fwd"]
  by (auto simp: key_of_def key_power_on add_param_if_def split: if_splits)

lemma no_default_video_codec: "''video_codec=h264'' \<notin> set (execute_server_params p fwd)"
  using mem_args_of_key [of "''video_codec=h264''" "execute_server_params p fwd"]
  by (auto simp: key_of_def key_video_codec add_param_if_def split: if_splits dest: codec_name_h264 [OF sym])

lemma no_default_audio_codec: "''audio_codec=opus'' \<notin> set (execute_server_params p fwd)"
  using mem_args_of_key [of "''audio_codec=opus''" "execute_server_params p fwd"]
  by (auto simp: key_of_def key_audio_codec add_param_if_def split: if_splits dest: codec_name_opus [OF sym])

lemma no_default_video_bit_rate: "''video_bit_rate=0'' \<notin> set (execute_server_params p fwd)"
  using mem_args_of_key [of "''video_bit_rate=0''" "execute_server_params p fwd"]
  by (auto simp: key_of_def key_video_bit_rate add_param_if_def split: if_splits dest: fmt_u32_zero [OF sym])

lemma no_default_audio_bit_rate: "''audio_bit_rate=0'' \<notin> set (execute_server_params p fwd)"
  using mem_args_of_key [of "''audio_bit_rate=0''" "execute_server_params p fwd"]
  by (auto simp: key_of_def key_audio_bit_rate add_param_if_def split: if_splits dest: fmt_u32_zero [OF sym])

lemma no_default_max_size: "''max_size=0'' \<notin> set (execute_server_params p fwd)"
  using mem_args_of_key [of "''max_size=0''" "execute_server_params p fwd"]
  by (auto simp: key_of_def key_max_size add_param_if_def split: if_splits dest: fmt_u16_zero [OF sym])

lemma no_default_max_fps: "''max_fps=0'' \<notin> set (execute_server_params p fwd)"
  using mem_args_of_key [of "''max_fps=0''" "execute_server_params p fwd"]
  by (auto simp: key_of_def key_max_fps add_param_if_def split: if_splits dest: fmt_u16_zero [OF sym])

lemma no_default_video_source: "''video_source=display'' \<notin> set (execute_server_params p fwd)"
  using mem_args_of_key [of "''video_source=display''" "execute_server_params p fwd"]
  by (auto simp: key_of_def key_video_source add_param_if_def split: if_splits)

lemma no_default_audio_source: "''audio_source=output'' \<notin> set (execute_server_params p fwd)"
  using mem_args_of_key [of "''audio_source=output''" "execute_server_params p fwd"]
  by (auto simp: key_of_def key_audio_source add_param_if_def split: if_splits)

lemma no_default_display_id: "''display_id=0'' \<notin> set (execute_server_params p fwd)"
  using mem_args_of_key [of "''display_id=0''" "execute_server_params p fwd"]
  by (auto simp: key_of_def key_display_id add_param_if_def split: if_splits dest: fmt_u32_zero [OF sym])

lemmas no_default_rules =
  no_default_video no_default_audio no_default_control no_default_clipboard_autosync no_default_downsize_on_error no_default_cleanup
  no_default_power_on no_default_video_codec no_default_audio_codec no_default_video_bit_rate no_default_audio_bit_rate
  no_default_max_size no_default_max_fps no_default_video_source no_default_audio_source no_default_display_id

lemma no_documented_default:
  "a \<in> set documented_defaults \<Longrightarrow> a \<notin> set (execute_server_params p fwd)"
  unfolding documented_defaults_def
  apply (simp only: list.set insert_iff empty_iff)
  apply (elim disjE FalseE)
  apply (simp_all only: no_default_rules not_False_eq_True)
  done
section \<open>Switching to TCP/IP\<close>

lemma get_adb_tcp_port_fst:
  "fst (get_adb_tcp_port env ser s) =
     (case e_getprop env (n_getprop s) of
        None \<Rightarrow> 0
      | Some t \<Rightarrow>
          (case e_parse_integer env t of
             None \<Rightarrow> 0
           | Some v \<Rightarrow> if v < 0 \<or> v > 0xFFFF then 0 else word_of_int v))"
  by (simp add: get_adb_tcp_port_def sc_adb_getprop_def Let_def split: option.split)

lemma get_adb_tcp_port_snd:
  "snd (get_adb_tcp_port env ser s) =
     emit (EvAdbGetprop ser ''service.adb.tcp.port'' [SC_ADB_SILENT])
       (s\<lparr>n_getprop := Suc (n_getprop s)\<rparr>)"
  by (simp add: get_adb_tcp_port_def sc_adb_getprop_def Let_def split: option.split)


lemma port_word_zero:
  fixes v :: int
  assumes "0 \<le> v" "v \<le> 0xFFFF"
  shows "((word_of_int v :: 16 word) = 0) = (v = 0)"
proof -
  have "(word_of_int v :: 16 word) = word_of_int 0 \<longleftrightarrow> take_bit 16 v = take_bit 16 (0::int)"
    by (simp only: word_of_int_eq_iff) simp
  moreover have "take_bit 16 v = v" using assms by (simp add: take_bit_int_eq_self)
  ultimately show ?thesis by simp
qed






lemma unat_40: "unat (40 :: 32 word) = 40"
  by simp


text \<open>Requests to enable TCP/IP mode come from \<open>sc_server_switch_to_tcpip\<close> alone.\<close>

lemma requests_emit:
  "filter is_tcpip_request (trace (emit e s))
     = filter is_tcpip_request (trace s) @ (if is_tcpip_request e then [e] else [])"
  by (simp add: emit_def)

lemma requests_get_adb_tcp_port:
  "filter is_tcpip_request (trace (snd (get_adb_tcp_port env ser s)))
     = filter is_tcpip_request (trace s)"
  by (simp add: get_adb_tcp_port_snd emit_def)

lemma requests_sc_server_sleep:
  "filter is_tcpip_request (trace (snd (sc_server_sleep env delay s)))
     = filter is_tcpip_request (trace s)"
  by (simp add: sc_server_sleep_def emit_def Let_def)

lemma requests_wait_tcpip_mode_loop:
  "filter is_tcpip_request
     (trace (snd (wait_tcpip_mode_loop env ser expected_port attempts delay s)))
     = filter is_tcpip_request (trace s)"
proof (induction env ser expected_port attempts delay s rule: wait_tcpip_mode_loop_induct)
  case (step env ser expected_port attempts delay s a b)
  have "filter is_tcpip_request (trace (snd a)) = filter is_tcpip_request (trace s)"
    "filter is_tcpip_request (trace (snd b)) = filter is_tcpip_request (trace (snd a))"
    unfolding step(1-2) by (simp_all add: requests_get_adb_tcp_port requests_sc_server_sleep)
  with step(4) show ?case unfolding step(3) by auto
qed

lemma requests_wait_tcpip_mode_enabled:
  "filter is_tcpip_request
     (trace (snd (wait_tcpip_mode_enabled env ser expected_port attempts delay s)))
     = filter is_tcpip_request (trace s)"
  by (simp add: wait_tcpip_mode_enabled_def Let_def case_prod_beta
        requests_wait_tcpip_mode_loop requests_get_adb_tcp_port)

lemma requests_append_port:
  "filter is_tcpip_request (trace (snd (append_port env ip port s)))
     = filter is_tcpip_request (trace s)"
  by (simp add: append_port_def strdup_def asprintf_def emit_def Let_def)

lemma append_port_fst:
  "fst (append_port env ip port s)
     = (if e_alloc env (n_alloc s) then Some (ip @ '':'' @ fmt_u16 port) else None)"
  by (simp add: append_port_def strdup_def asprintf_def Let_def)

lemma append_port_all_ok:
  "\<forall>k. e_alloc env k \<Longrightarrow> fst (append_port env ip port s) = Some (ip @ '':'' @ fmt_u16 port)"
  by (simp add: append_port_fst)

text \<open>What \<open>sc_server_switch_to_tcpip\<close> does once the device IP is known.\<close>

lemma switch_to_tcpip_requests:
  assumes "e_get_device_ip env = Some ip"
  shows "filter is_tcpip_request (trace (snd (sc_server_switch_to_tcpip env ser s)))
     = filter is_tcpip_request (trace s)
       @ (if fst (get_adb_tcp_port env ser s) = 0
          then [EvAdbTcpip ser SC_ADB_PORT_DEFAULT [SC_ADB_NO_STDOUT]] else [])"
proof -
  define s1 where "s1 = emit (EvAdbGetDeviceIp ser) s"
  have p: "fst (get_adb_tcp_port env ser s1) = fst (get_adb_tcp_port env ser s)"
    by (simp add: get_adb_tcp_port_fst s1_def emit_def)
  have r1: "filter is_tcpip_request (trace s1) = filter is_tcpip_request (trace s)"
    by (simp add: s1_def emit_def)
  show ?thesis
    using assms p r1
    by (simp add: sc_server_switch_to_tcpip_def sc_adb_get_device_ip_def Let_def
          case_prod_beta s1_def [symmetric] requests_append_port requests_get_adb_tcp_port
          requests_wait_tcpip_mode_enabled sc_adb_tcpip_def requests_emit)
qed

lemma switch_to_tcpip_result:
  assumes "e_get_device_ip env = Some ip"
    and "fst (sc_server_switch_to_tcpip env ser s) = Some x"
  shows "x = ip @ '':'' @ fmt_u16 (if fst (get_adb_tcp_port env ser s) = 0
                                   then SC_ADB_PORT_DEFAULT
                                   else fst (get_adb_tcp_port env ser s))"
proof -
  define s1 where "s1 = emit (EvAdbGetDeviceIp ser) s"
  have p: "fst (get_adb_tcp_port env ser s1) = fst (get_adb_tcp_port env ser s)"
    by (simp add: get_adb_tcp_port_fst s1_def emit_def)
  show ?thesis
    using assms p
    by (simp add: sc_server_switch_to_tcpip_def sc_adb_get_device_ip_def Let_def
          case_prod_beta s1_def [symmetric] append_port_fst split: if_splits)
qed

section \<open>Establishing the sockets\<close>

lemma opened_append: "opened (xs @ ys) = opened xs @ opened ys"
  by (simp add: opened_def)

lemma closed_append: "closed (xs @ ys) = closed xs @ closed ys"
  by (simp add: closed_def)

lemma opened_Cons:
  "opened (e # es) =
     (case e of EvNetSocket k \<Rightarrow> [k] | EvNetAccept k \<Rightarrow> [k] | _ \<Rightarrow> []) @ opened es"
  by (simp add: opened_def)

lemma closed_Cons:
  "closed (e # es) = (case e of EvNetClose k \<Rightarrow> [k] | _ \<Rightarrow> []) @ closed es"
  by (simp add: closed_def)

lemma opened_Nil: "opened [] = []"
  by (simp add: opened_def)

lemma closed_Nil: "closed [] = []"
  by (simp add: closed_def)

lemmas socket_lists =
  opened_append closed_append opened_Cons closed_Cons opened_Nil closed_Nil

text \<open>One attempt of the forward connection, event by event.\<close>

lemma connect_attempt_fst:
  "fst (connect_attempt env host port s)
     = (if attempt_ok env (n_fd s) then Some (n_fd s) else None)"
  by (simp add: connect_attempt_def connect_and_read_byte_def net_socket_def
        net_connect_intr_def net_recv_intr_def attempt_ok_def Let_def)

lemma connect_attempt_trace:
  "trace (snd (connect_attempt env host port s)) =
     trace s
     @ (if \<not> e_net_socket env (n_fd s) then []
        else EvNetSocket (n_fd s) # EvNetConnect (n_fd s) host port
             # (if \<not> e_net_connect env (n_fd s) then [EvNetClose (n_fd s)]
                else EvNetRecv (n_fd s) 1
                     # (if e_net_recv env (n_fd s) = 1 then [] else [EvNetClose (n_fd s)])))"
  by (simp add: connect_attempt_def connect_and_read_byte_def net_socket_def
        net_connect_intr_def net_recv_intr_def net_close_def emit_def Let_def)

lemma connect_attempt_counters:
  "n_fd (snd (connect_attempt env host port s)) = Suc (n_fd s)"
  "n_intr (snd (connect_attempt env host port s)) = n_intr s"
  "n_sleep (snd (connect_attempt env host port s)) = n_sleep s"
  by (simp_all add: connect_attempt_def connect_and_read_byte_def net_socket_def
        net_connect_intr_def net_recv_intr_def net_close_def emit_def Let_def)

lemma sc_intr_is_interrupted_simps:
  "fst (sc_intr_is_interrupted env s) = e_interrupted env (n_intr s)"
  "trace (snd (sc_intr_is_interrupted env s)) = trace s"
  "n_fd (snd (sc_intr_is_interrupted env s)) = n_fd s"
  "n_intr (snd (sc_intr_is_interrupted env s)) = Suc (n_intr s)"
  "n_sleep (snd (sc_intr_is_interrupted env s)) = n_sleep s"
  by (simp_all add: sc_intr_is_interrupted_def Let_def)

lemma sc_server_sleep_simps:
  "fst (sc_server_sleep env delay s) = e_sleep env (n_sleep s)"
  "trace (snd (sc_server_sleep env delay s)) = trace s @ [EvSleep delay]"
  "n_fd (snd (sc_server_sleep env delay s)) = n_fd s"
  "n_intr (snd (sc_server_sleep env delay s)) = n_intr s"
  "n_sleep (snd (sc_server_sleep env delay s)) = Suc (n_sleep s)"
  by (simp_all add: sc_server_sleep_def emit_def Let_def)

text \<open>
  The events of the retry loop: every socket it opened and did not return is closed,
  every wait has the given delay, every probe asks for one byte, and it makes at most
  one connection per socket it asked for.
\<close>

lemma connect_to_server_events:
  "\<exists>evs. trace (snd (connect_to_server env attempts delay host port s)) = trace s @ evs
      \<and> opened evs = closed evs @ option_list (fst (connect_to_server env attempts delay host port s))
      \<and> (\<forall>e\<in>set evs. is_sleep e \<longrightarrow> e = EvSleep delay)
      \<and> (\<forall>e\<in>set evs. is_probe e \<longrightarrow> (\<exists>k. e = EvNetRecv k 1))
      \<and> length (filter is_connect evs)
           \<le> n_fd (snd (connect_to_server env attempts delay host port s)) - n_fd s
      \<and> n_fd s \<le> n_fd (snd (connect_to_server env attempts delay host port s))
      \<and> filter is_tunnel_close evs = [] \<and> filter is_recv_all evs = []"
proof (induction env attempts delay host port s rule: connect_to_server_induct)
  case (step env attempts delay host port s a b c)
  define ea where "ea =
     (if \<not> e_net_socket env (n_fd s) then []
      else EvNetSocket (n_fd s) # EvNetConnect (n_fd s) host port
           # (if \<not> e_net_connect env (n_fd s) then [EvNetClose (n_fd s)]
              else EvNetRecv (n_fd s) 1
                   # (if e_net_recv env (n_fd s) = 1 then [] else [EvNetClose (n_fd s)])))"
  define ec where "ec = (if attempts \<noteq> 0 then [EvSleep delay] else [])"
  have ta: "trace (snd a) = trace s @ ea" and na: "n_fd (snd a) = Suc (n_fd s)"
    and fa: "fst a = (if attempt_ok env (n_fd s) then Some (n_fd s) else None)"
    unfolding step(1) ea_def
    by (simp_all add: connect_attempt_trace connect_attempt_counters connect_attempt_fst)
  have tb: "trace (snd b) = trace s @ ea" and nb: "n_fd (snd b) = Suc (n_fd s)"
    unfolding step(2) by (simp_all add: sc_intr_is_interrupted_simps ta na)
  have tc: "trace (snd c) = trace s @ ea @ ec" and nc: "n_fd (snd c) = Suc (n_fd s)"
    unfolding step(3) ec_def by (simp_all add: sc_server_sleep_simps tb nb)
  have oa: "opened ea = closed ea @ option_list (fst a)"
    unfolding fa ea_def by (simp add: socket_lists attempt_ok_def)
  have oa_fail: "fst a = None \<Longrightarrow> opened ea = closed ea"
    using oa by simp
  have pa: "\<forall>e\<in>set ea. is_sleep e \<longrightarrow> e = EvSleep delay"
    "\<forall>e\<in>set ea. is_probe e \<longrightarrow> (\<exists>k. e = EvNetRecv k 1)"
    "length (filter is_connect ea) \<le> 1"
    "filter is_tunnel_close ea = []" "filter is_recv_all ea = []"
    unfolding ea_def by simp_all
  have pc: "\<forall>e\<in>set ec. is_sleep e \<longrightarrow> e = EvSleep delay"
    "\<forall>e\<in>set ec. is_probe e \<longrightarrow> (\<exists>k. e = EvNetRecv k 1)"
    "filter is_connect ec = []" "opened ec = []" "closed ec = []"
    "filter is_tunnel_close ec = []" "filter is_recv_all ec = []"
    unfolding ec_def by (simp_all add: socket_lists)
  let ?r = "connect_to_server env attempts delay host port s"
  consider (found) "fst a \<noteq> None"
    | (interrupted) "fst a = None" "fst b"
    | (stopped) "fst a = None" "\<not> fst b" "\<not> fst c"
    | (last) "fst a = None" "\<not> fst b" "fst c" "\<not> attempts - 1 \<noteq> 0"
    | (again) "fst a = None" "\<not> fst b" "fst c" "attempts - 1 \<noteq> 0"
    by blast
  then show ?case
  proof cases
    case found
    then have r: "?r = a" unfolding step(4) by simp
    show ?thesis unfolding r
      by (rule exI [of _ ea]) (use ta na oa pa in simp)
  next
    case interrupted
    then have r: "?r = (None, snd b)" unfolding step(4) by simp
    show ?thesis unfolding r
      by (rule exI [of _ ea]) (use tb nb oa_fail [OF interrupted(1)] pa in simp)
  next
    case stopped
    then have r: "?r = (None, snd c)" unfolding step(4) by simp
    show ?thesis unfolding r
      by (rule exI [of _ "ea @ ec"])
         (use tc nc oa_fail [OF stopped(1)] pa pc in \<open>auto simp: socket_lists\<close>)
  next
    case last
    then have r: "?r = (None, snd c)" unfolding step(4) by simp
    show ?thesis unfolding r
      by (rule exI [of _ "ea @ ec"])
         (use tc nc oa_fail [OF last(1)] pa pc in \<open>auto simp: socket_lists\<close>)
  next
    case again
    then have r: "?r = connect_to_server env (attempts - 1) delay host port (snd c)"
      unfolding step(4) by simp
    from step(5) [OF again] obtain evs where evs:
      "trace (snd (connect_to_server env (attempts - 1) delay host port (snd c)))
         = trace (snd c) @ evs"
      "opened evs = closed evs
         @ option_list (fst (connect_to_server env (attempts - 1) delay host port (snd c)))"
      "\<forall>e\<in>set evs. is_sleep e \<longrightarrow> e = EvSleep delay"
      "\<forall>e\<in>set evs. is_probe e \<longrightarrow> (\<exists>k. e = EvNetRecv k 1)"
      "length (filter is_connect evs)
         \<le> n_fd (snd (connect_to_server env (attempts - 1) delay host port (snd c)))
            - n_fd (snd c)"
      "n_fd (snd c) \<le> n_fd (snd (connect_to_server env (attempts - 1) delay host port (snd c)))"
      "filter is_tunnel_close evs = []" "filter is_recv_all evs = []"
      by blast
    show ?thesis unfolding r
    proof (intro exI [of _ "ea @ ec @ evs"] conjI)
      show "trace (snd (connect_to_server env (attempts - 1) delay host port (snd c)))
              = trace s @ ea @ ec @ evs"
        using evs(1) tc by simp
      show "opened (ea @ ec @ evs) = closed (ea @ ec @ evs)
              @ option_list (fst (connect_to_server env (attempts - 1) delay host port (snd c)))"
        using evs(2) oa_fail [OF again(1)] pc by (simp add: socket_lists)
      show "\<forall>e\<in>set (ea @ ec @ evs). is_sleep e \<longrightarrow> e = EvSleep delay"
        using evs(3) pa(1) pc(1) by auto
      show "\<forall>e\<in>set (ea @ ec @ evs). is_probe e \<longrightarrow> (\<exists>k. e = EvNetRecv k 1)"
        using evs(4) pa(2) pc(2) by auto
      show "length (filter is_connect (ea @ ec @ evs))
              \<le> n_fd (snd (connect_to_server env (attempts - 1) delay host port (snd c))) - n_fd s"
        using evs(5) evs(6) pa(3) pc(3) nc by simp
      show "n_fd s \<le> n_fd (snd (connect_to_server env (attempts - 1) delay host port (snd c)))"
        using evs(6) nc by simp
      show "filter is_tunnel_close (ea @ ec @ evs) = []"
        using evs(7) pa(4) pc(6) by simp
      show "filter is_recv_all (ea @ ec @ evs) = []"
        using evs(8) pa(5) pc(7) by simp
    qed
  qed
qed




text \<open>The two ways of establishing the stream sockets.\<close>

lemma net_accept_intr_simps:
  "fst (net_accept_intr env listener s) = (if e_net_accept env (n_fd s) then Some (n_fd s) else None)"
  "trace (snd (net_accept_intr env listener s))
     = trace s @ map EvNetAccept (option_list (fst (net_accept_intr env listener s)))"
  "struct_of (snd (net_accept_intr env listener s)) = struct_of s"
  by (simp_all add: net_accept_intr_def Let_def emit_def struct_of_def)

lemma opened_accepts: "opened (map EvNetAccept ks) = ks"
  by (induction ks) (simp_all add: socket_lists)

lemma closed_accepts: "closed (map EvNetAccept ks) = []"
  by (induction ks) (simp_all add: socket_lists)

lemma opened_closes: "opened (map EvNetClose ks) = []"
  by (induction ks) (simp_all add: socket_lists)

lemma closed_closes: "closed (map EvNetClose ks) = ks"
  by (induction ks) (simp_all add: socket_lists)

lemma filter_accepts:
  "filter is_tunnel_close (map EvNetAccept ks) = []"
  "filter is_recv_all (map EvNetAccept ks) = []"
  "filter is_probe (map EvNetAccept ks) = []"
  by (induction ks) simp_all

lemma filter_closes:
  "filter is_tunnel_close (map EvNetClose ks) = []"
  "filter is_recv_all (map EvNetClose ks) = []"
  "filter is_probe (map EvNetClose ks) = []"
  by (induction ks) simp_all

lemma accept_sockets_events:
  assumes "accept_sockets env s = (ok, v, a, c, s1)"
  shows "trace s1 = trace s @ map EvNetAccept (option_list v @ option_list a @ option_list c)"
    and "struct_of s1 = struct_of s"
proof -
  define r1 where "r1 = (if video (params s) then net_accept_intr env (server_socket (tunnel s)) s
                         else (None, s))"
  define r2 where "r2 = (if audio (params s)
                         then net_accept_intr env (server_socket (tunnel s)) (snd r1)
                         else (None, snd r1))"
  define r3 where "r3 = (if control (params s)
                         then net_accept_intr env (server_socket (tunnel s)) (snd r2)
                         else (None, snd r2))"
  have t1: "trace (snd r1) = trace s @ map EvNetAccept (option_list (fst r1))"
    and s1: "struct_of (snd r1) = struct_of s"
    unfolding r1_def by (simp_all add: net_accept_intr_simps)
  have t2: "trace (snd r2) = trace (snd r1) @ map EvNetAccept (option_list (fst r2))"
    and s2: "struct_of (snd r2) = struct_of (snd r1)"
    unfolding r2_def by (simp_all add: net_accept_intr_simps)
  have t3: "trace (snd r3) = trace (snd r2) @ map EvNetAccept (option_list (fst r3))"
    and s3: "struct_of (snd r3) = struct_of (snd r2)"
    unfolding r3_def by (simp_all add: net_accept_intr_simps)
  have unfold: "accept_sockets env s =
     (if video (params s) \<and> fst r1 = None then (False, fst r1, None, None, snd r1)
      else if audio (params s) \<and> fst r2 = None then (False, fst r1, fst r2, None, snd r2)
      else if control (params s) \<and> fst r3 = None then (False, fst r1, fst r2, fst r3, snd r3)
      else (True, fst r1, fst r2, fst r3, snd r3))"
    by (cases "audio (params s)"; cases "video (params s)"; cases "control (params s)")
       (simp_all add: accept_sockets_def Let_def case_prod_beta r1_def r2_def r3_def)
  show "trace s1 = trace s @ map EvNetAccept (option_list v @ option_list a @ option_list c)"
    and "struct_of s1 = struct_of s"
  proof -
    have "trace s1 = trace s @ map EvNetAccept (option_list v @ option_list a @ option_list c)
          \<and> struct_of s1 = struct_of s"
    proof (cases "video (params s) \<and> fst r1 = None")
      case True
      then have "accept_sockets env s = (False, fst r1, None, None, snd r1)"
        by (auto simp: unfold)
      with assms have "v = fst r1" "a = None" "c = None" "s1 = snd r1" by simp_all
      then show ?thesis using True by (simp add: t1 s1)
    next
      case c1: False
      show ?thesis
      proof (cases "audio (params s) \<and> fst r2 = None")
        case True
        with c1 have "accept_sockets env s = (False, fst r1, fst r2, None, snd r2)"
          by (auto simp: unfold)
        with assms have "v = fst r1" "a = fst r2" "c = None" "s1 = snd r2" by simp_all
        then show ?thesis by (simp add: t1 t2 s1 s2)
      next
        case c2: False
        with c1 have "accept_sockets env s =
            (\<not> (control (params s) \<and> fst r3 = None), fst r1, fst r2, fst r3, snd r3)"
          by (auto simp: unfold prod_eq_iff)
        with assms have "v = fst r1" "a = fst r2" "c = fst r3" "s1 = snd r3" by simp_all
        then show ?thesis by (simp add: t1 t2 t3 s1 s2 s3)
      qed
    qed
    then show "trace s1 = trace s @ map EvNetAccept (option_list v @ option_list a @ option_list c)"
      and "struct_of s1 = struct_of s" by simp_all
  qed
qed

lemma connect_next_events:
  "trace (snd (snd (connect_next env host port s)))
     = trace s @ (case fst (snd (connect_next env host port s)) of
                    None \<Rightarrow> []
                  | Some k \<Rightarrow> [EvNetSocket k, EvNetConnect k host port])"
  "struct_of (snd (snd (connect_next env host port s))) = struct_of s"
  by (simp_all add: connect_next_def net_socket_def net_connect_intr_def Let_def emit_def
        struct_of_def)

lemma socket_pair:
  "opened (case x of None \<Rightarrow> [] | Some k \<Rightarrow> [EvNetSocket k, EvNetConnect k host port])
     = option_list x"
  "closed (case x of None \<Rightarrow> [] | Some k \<Rightarrow> [EvNetSocket k, EvNetConnect k host port]) = []"
  "filter is_tunnel_close
     (case x of None \<Rightarrow> [] | Some k \<Rightarrow> [EvNetSocket k, EvNetConnect k host port]) = []"
  "filter is_recv_all
     (case x of None \<Rightarrow> [] | Some k \<Rightarrow> [EvNetSocket k, EvNetConnect k host port]) = []"
  "filter is_probe
     (case x of None \<Rightarrow> [] | Some k \<Rightarrow> [EvNetSocket k, EvNetConnect k host port]) = []"
  "filter top_level
     (case x of None \<Rightarrow> [] | Some k \<Rightarrow> [EvNetSocket k, EvNetConnect k host port]) = []"
  "filter is_connect
     (case x of None \<Rightarrow> [] | Some k \<Rightarrow> [EvNetSocket k, EvNetConnect k host port])
     = map (\<lambda>k. EvNetConnect k host port) (option_list x)"
  by (cases x; simp add: socket_lists)+

lemmas socket_if =
  if_distrib [of opened] if_distrib [of closed] if_distrib [of "filter is_tunnel_close"]
  if_distrib [of "filter is_recv_all"] if_distrib [of "filter is_probe"]
  if_distrib [of "filter top_level"] if_distrib [of "filter is_connect"]

text \<open>
  The forward branch: after the retry loop, each further stream adds one socket and one
  plain connection, and nothing else.
\<close>

lemma connect_sockets_events:
  assumes "connect_sockets env s = (ok, v, a, c, s1)"
  defines "host \<equiv> (if tunnel_host (params s) = 0 then IPV4_LOCALHOST
                     else tunnel_host (params s))"
    and "port \<equiv> (if tunnel_port (params s) = 0 then local_port (tunnel s)
                    else tunnel_port (params s))"
  defines "r0 \<equiv> connect_to_server env 100 100 host port s"
  shows "\<exists>rest. trace s1 = trace (snd r0) @ rest
           \<and> closed rest = []
           \<and> filter is_connect rest = map (\<lambda>k. EvNetConnect k host port) (opened rest)
           \<and> filter is_probe rest = [] \<and> filter is_tunnel_close rest = []
           \<and> filter is_recv_all rest = [] \<and> filter top_level rest = []
           \<and> option_list v @ option_list a @ option_list c
                = (if video (params s) \<or> audio (params s) \<or> control (params s)
                   then option_list (fst r0) else []) @ opened rest"
    and "struct_of s1 = struct_of s"
    and "ok \<Longrightarrow> fst r0 \<noteq> None"
    and "ok \<Longrightarrow> (video (params s) \<longrightarrow> v \<noteq> None) \<and> (audio (params s) \<longrightarrow> a \<noteq> None)
                 \<and> (control (params s) \<longrightarrow> c \<noteq> None)"
proof -
  define ra where "ra = (if audio (params s)
                         then (if \<not> video (params s) then (True, fst r0, snd r0)
                               else connect_next env host port (snd r0))
                         else (True, None, snd r0))"
  define rc where "rc = (if control (params s)
                         then (if \<not> video (params s) \<and> \<not> audio (params s)
                               then (True, fst r0, snd (snd ra))
                               else connect_next env host port (snd (snd ra)))
                         else (True, None, snd (snd ra)))"
  have unfold: "connect_sockets env s =
     (if fst r0 = None then (False, None, None, None, snd r0)
      else if \<not> fst ra
           then (False, (if video (params s) then fst r0 else None), fst (snd ra), None,
                 snd (snd ra))
           else (fst rc, (if video (params s) then fst r0 else None), fst (snd ra),
                 fst (snd rc), snd (snd rc)))"
    by (cases "audio (params s)"; cases "video (params s)"; cases "control (params s)")
       (simp_all add: connect_sockets_def Let_def case_prod_beta host_def port_def r0_def
          ra_def rc_def)
  have st0: "struct_of (snd r0) = struct_of s"
    unfolding r0_def by (rule struct_of_connect_to_server)
  define ea where "ea = (if audio (params s) \<and> video (params s)
                         then (case fst (snd ra) of None \<Rightarrow> []
                               | Some k \<Rightarrow> [EvNetSocket k, EvNetConnect k host port])
                         else [])"
  have ta: "trace (snd (snd ra)) = trace (snd r0) @ ea"
    and sta: "struct_of (snd (snd ra)) = struct_of (snd r0)"
    unfolding ra_def ea_def by (simp_all add: connect_next_events)
  define ec where "ec = (if control (params s) \<and> (video (params s) \<or> audio (params s))
                         then (case fst (snd rc) of None \<Rightarrow> []
                               | Some k \<Rightarrow> [EvNetSocket k, EvNetConnect k host port])
                         else [])"
  have tc: "trace (snd (snd rc)) = trace (snd (snd ra)) @ ec"
    and stc: "struct_of (snd (snd rc)) = struct_of (snd (snd ra))"
    unfolding rc_def ec_def by (auto simp: connect_next_events)
  have oa: "opened ea = (if audio (params s) \<and> video (params s)
                         then option_list (fst (snd ra)) else [])" "closed ea = []"
    "filter is_tunnel_close ea = []" "filter is_recv_all ea = []"
    "filter is_probe ea = []" "filter top_level ea = []"
    "filter is_connect ea = map (\<lambda>k. EvNetConnect k host port) (opened ea)"
    by (simp_all add: ea_def socket_if socket_pair socket_lists)
  have oc: "opened ec = (if control (params s) \<and> (video (params s) \<or> audio (params s))
                         then option_list (fst (snd rc)) else [])" "closed ec = []"
    "filter is_tunnel_close ec = []" "filter is_recv_all ec = []"
    "filter is_probe ec = []" "filter top_level ec = []"
    "filter is_connect ec = map (\<lambda>k. EvNetConnect k host port) (opened ec)"
    by (auto simp: ec_def socket_if socket_pair socket_lists)
  have fa: "\<not> (audio (params s) \<and> video (params s)) \<Longrightarrow>
              fst (snd ra) = (if audio (params s) then fst r0 else None)"
    unfolding ra_def by auto
  have fc: "\<not> (control (params s) \<and> (video (params s) \<or> audio (params s))) \<Longrightarrow>
              fst (snd rc) = (if control (params s) then fst r0 else None)"
    unfolding rc_def by auto
  have ka: "fst ra \<Longrightarrow> audio (params s) \<Longrightarrow> fst r0 \<noteq> None \<Longrightarrow> fst (snd ra) \<noteq> None"
    unfolding ra_def
    by (auto simp: connect_next_def net_socket_def net_connect_intr_def Let_def
          split: if_splits)
  have kc: "fst rc \<Longrightarrow> control (params s) \<Longrightarrow> fst r0 \<noteq> None \<Longrightarrow> fst (snd rc) \<noteq> None"
    unfolding rc_def
    by (auto simp: connect_next_def net_socket_def net_connect_intr_def Let_def
          split: if_splits)
  consider (none) "fst r0 = None"
    | (audio_failed) "fst r0 \<noteq> None" "\<not> fst ra"
    | (all) "fst r0 \<noteq> None" "fst ra"
    by blast
  then show "\<exists>rest. trace s1 = trace (snd r0) @ rest
           \<and> closed rest = []
           \<and> filter is_connect rest = map (\<lambda>k. EvNetConnect k host port) (opened rest)
           \<and> filter is_probe rest = [] \<and> filter is_tunnel_close rest = []
           \<and> filter is_recv_all rest = [] \<and> filter top_level rest = []
           \<and> option_list v @ option_list a @ option_list c
                = (if video (params s) \<or> audio (params s) \<or> control (params s)
                   then option_list (fst r0) else []) @ opened rest"
  proof cases
    case none
    with assms(1) have "v = None" "a = None" "c = None" "s1 = snd r0"
      unfolding unfold by simp_all
    with none show ?thesis by (intro exI [of _ "[]"]) (simp add: socket_lists)
  next
    case audio_failed
    with assms(1) have eq: "v = (if video (params s) then fst r0 else None)"
      "a = fst (snd ra)" "c = None" "s1 = snd (snd ra)"
      unfolding unfold by simp_all
    from audio_failed(2) have av: "audio (params s) \<and> video (params s)"
      unfolding ra_def by (auto split: if_splits)
    show ?thesis
      by (intro exI [of _ ea]) (use eq ta oa av in \<open>simp add: socket_lists\<close>)
  next
    case all
    with assms(1) have eq: "v = (if video (params s) then fst r0 else None)"
      "a = fst (snd ra)" "c = fst (snd rc)" "s1 = snd (snd rc)"
      unfolding unfold by simp_all
    show ?thesis
    proof (intro exI [of _ "ea @ ec"] conjI)
      show "trace s1 = trace (snd r0) @ ea @ ec" using eq ta tc by simp
      show "closed (ea @ ec) = []" using oa oc by (simp add: socket_lists)
      show "filter is_connect (ea @ ec)
              = map (\<lambda>k. EvNetConnect k host port) (opened (ea @ ec))"
        using oa(7) oc(7) by (simp add: socket_lists)
      show "filter is_probe (ea @ ec) = []" using oa oc by simp
      show "filter is_tunnel_close (ea @ ec) = []" using oa oc by simp
      show "filter is_recv_all (ea @ ec) = []" using oa oc by simp
      show "filter top_level (ea @ ec) = []" using oa oc by simp
      show "option_list v @ option_list a @ option_list c
              = (if video (params s) \<or> audio (params s) \<or> control (params s)
                 then option_list (fst r0) else []) @ opened (ea @ ec)"
        using eq oa(1) oc(1) fa fc
        by (cases "video (params s)"; cases "audio (params s)"; cases "control (params s)")
           (simp_all add: socket_lists)
    qed
  qed
  from assms(1) show "struct_of s1 = struct_of s"
    unfolding unfold using st0 sta stc by (auto split: if_splits)
  show "fst r0 \<noteq> None" if ok
    using that assms(1) unfolding unfold by (auto split: if_splits)
  show "(video (params s) \<longrightarrow> v \<noteq> None) \<and> (audio (params s) \<longrightarrow> a \<noteq> None)
          \<and> (control (params s) \<longrightarrow> c \<noteq> None)" if ok
    using that assms(1) ka kc unfolding unfold by (auto split: if_splits)
qed
lemma accept_sockets_ok:
  assumes "accept_sockets env s = (True, v, a, c, s1)"
  shows "(video (params s) \<longrightarrow> v \<noteq> None) \<and> (audio (params s) \<longrightarrow> a \<noteq> None)
           \<and> (control (params s) \<longrightarrow> c \<noteq> None)"
  using assms
  by (cases "audio (params s)"; cases "video (params s)"; cases "control (params s)")
     (auto simp: accept_sockets_def Let_def case_prod_beta simp del: not_None_eq
        split: if_splits)

lemma filter_top_level_sockets:
  "filter top_level (map EvNetAccept ks) = []"
  "filter top_level (map EvNetClose ks) = []"
  by (induction ks) simp_all

text \<open>The \<open>fail\<close> label: the three sockets are closed if set, then the tunnel if enabled.\<close>

lemma close_if_open_simps:
  "trace (close_if_open sock s) = trace s @ map EvNetClose (option_list sock)"
  "struct_of (close_if_open sock s) = struct_of s"
  by (cases sock; simp add: close_if_open_def net_close_def emit_def struct_of_def)+

lemma sc_adb_tunnel_close_simps:
  "trace (sc_adb_tunnel_close env s) = trace s @ [EvAdbTunnelClose]"
  "enabled (tunnel (sc_adb_tunnel_close env s)) = False"
  "params (sc_adb_tunnel_close env s) = params s"
  "serial (sc_adb_tunnel_close env s) = serial s"
  "device_socket_name (sc_adb_tunnel_close env s) = device_socket_name s"
  "device_name (sc_adb_tunnel_close env s) = device_name s"
  by (simp_all add: sc_adb_tunnel_close_def emit_def)

lemma connect_to_fail_simps:
  "fst (connect_to_fail env v a c s) = False"
  "trace (snd (connect_to_fail env v a c s))
     = trace s @ map EvNetClose (option_list v @ option_list a @ option_list c)
         @ (if enabled (tunnel s) then [EvAdbTunnelClose] else [])"
  "enabled (tunnel (snd (connect_to_fail env v a c s))) = False"
  "params (snd (connect_to_fail env v a c s)) = params s"
  "serial (snd (connect_to_fail env v a c s)) = serial s"
  "device_socket_name (snd (connect_to_fail env v a c s)) = device_socket_name s"
proof -
  define s3 where "s3 = close_if_open c (close_if_open a (close_if_open v s))"
  have t3: "trace s3 = trace s @ map EvNetClose (option_list v @ option_list a @ option_list c)"
    and st3: "struct_of s3 = struct_of s"
    unfolding s3_def by (simp_all add: close_if_open_simps)
  have f3: "tunnel s3 = tunnel s" "params s3 = params s" "serial s3 = serial s"
    "device_socket_name s3 = device_socket_name s"
    using st3 by (rule struct_of_eqD)+
  have r: "connect_to_fail env v a c s
             = (False, if enabled (tunnel s3) then sc_adb_tunnel_close env s3 else s3)"
    by (simp add: connect_to_fail_def Let_def s3_def)
  show "fst (connect_to_fail env v a c s) = False" by (simp add: r)
  show "trace (snd (connect_to_fail env v a c s))
     = trace s @ map EvNetClose (option_list v @ option_list a @ option_list c)
         @ (if enabled (tunnel s) then [EvAdbTunnelClose] else [])"
    by (simp add: r t3 f3 sc_adb_tunnel_close_simps)
  show "enabled (tunnel (snd (connect_to_fail env v a c s))) = False"
    by (simp add: r f3 sc_adb_tunnel_close_simps)
  show "params (snd (connect_to_fail env v a c s)) = params s"
    by (simp add: r f3 sc_adb_tunnel_close_simps)
  show "serial (snd (connect_to_fail env v a c s)) = serial s"
    by (simp add: r f3 sc_adb_tunnel_close_simps)
  show "device_socket_name (snd (connect_to_fail env v a c s)) = device_socket_name s"
    by (simp add: r f3 sc_adb_tunnel_close_simps)
qed

text \<open>Reading the device name.\<close>

lemma device_read_info_simps:
  "fst (device_read_info env sock s) = (\<not> short_read env sock)"
  "trace (snd (device_read_info env sock s))
     = trace s @ [EvNetRecvAll sock SC_DEVICE_NAME_FIELD_LENGTH]"
  "tunnel (snd (device_read_info env sock s)) = tunnel s"
  "params (snd (device_read_info env sock s)) = params s"
  "serial (snd (device_read_info env sock s)) = serial s"
  "device_socket_name (snd (device_read_info env sock s)) = device_socket_name s"
proof -
  show "fst (device_read_info env sock s) = (\<not> short_read env sock)"
  proof (cases sock)
    case None
    then show ?thesis
      by (simp add: device_read_info_def net_recv_all_intr_def short_read_def Let_def
            SC_DEVICE_NAME_FIELD_LENGTH_def)
  next
    case (Some sk)
    then show ?thesis
      by (cases "e_net_recv_all env sk")
         (auto simp: device_read_info_def net_recv_all_intr_def short_read_def Let_def
            SC_DEVICE_NAME_FIELD_LENGTH_def)
  qed
  have tr: "trace (snd (snd (net_recv_all_intr env sock n s))) = trace s @ [EvNetRecvAll sock n]"
    and fr: "tunnel (snd (snd (net_recv_all_intr env sock n s))) = tunnel s"
      "params (snd (snd (net_recv_all_intr env sock n s))) = params s"
      "serial (snd (snd (net_recv_all_intr env sock n s))) = serial s"
      "device_socket_name (snd (snd (net_recv_all_intr env sock n s))) = device_socket_name s"
    for n
  proof -
    have "snd (snd (net_recv_all_intr env sock n s)) = emit (EvNetRecvAll sock n) s"
    proof (cases sock)
      case None
      then show ?thesis by (simp add: net_recv_all_intr_def Let_def)
    next
      case (Some sk)
      then show ?thesis
        by (cases "e_net_recv_all env sk") (simp_all add: net_recv_all_intr_def Let_def)
    qed
    then show "trace (snd (snd (net_recv_all_intr env sock n s))) = trace s @ [EvNetRecvAll sock n]"
      "tunnel (snd (snd (net_recv_all_intr env sock n s))) = tunnel s"
      "params (snd (snd (net_recv_all_intr env sock n s))) = params s"
      "serial (snd (snd (net_recv_all_intr env sock n s))) = serial s"
      "device_socket_name (snd (snd (net_recv_all_intr env sock n s))) = device_socket_name s"
      by (simp_all add: emit_def)
  qed
  show "trace (snd (device_read_info env sock s))
     = trace s @ [EvNetRecvAll sock SC_DEVICE_NAME_FIELD_LENGTH]"
    by (simp add: device_read_info_def Let_def case_prod_beta tr)
  show "tunnel (snd (device_read_info env sock s)) = tunnel s"
    by (simp add: device_read_info_def Let_def case_prod_beta fr)
  show "params (snd (device_read_info env sock s)) = params s"
    by (simp add: device_read_info_def Let_def case_prod_beta fr)
  show "serial (snd (device_read_info env sock s)) = serial s"
    by (simp add: device_read_info_def Let_def case_prod_beta fr)
  show "device_socket_name (snd (device_read_info env sock s)) = device_socket_name s"
    by (simp add: device_read_info_def Let_def case_prod_beta fr)
qed

lemma device_read_info_name:
  assumes "fst (device_read_info env sock s)"
  shows "\<exists>sk bytes. sock = Some sk \<and> e_net_recv_all env sk = Some bytes
           \<and> device_name (snd (device_read_info env sock s))
                = (take SC_DEVICE_NAME_FIELD_LENGTH bytes)[SC_DEVICE_NAME_FIELD_LENGTH - 1 := 0]
           \<and> SC_DEVICE_NAME_FIELD_LENGTH \<le> length bytes"
proof (cases sock)
  case None
  with assms show ?thesis
    by (simp add: device_read_info_def net_recv_all_intr_def Let_def
          SC_DEVICE_NAME_FIELD_LENGTH_def)
next
  case (Some sk)
  show ?thesis
  proof (cases "e_net_recv_all env sk")
    case None
    with assms Some show ?thesis
      by (simp add: device_read_info_def net_recv_all_intr_def Let_def
            SC_DEVICE_NAME_FIELD_LENGTH_def)
  next
    case (Some bytes)
    with assms \<open>sock = Some sk\<close> show ?thesis
      by (auto simp: device_read_info_def net_recv_all_intr_def Let_def
            SC_DEVICE_NAME_FIELD_LENGTH_def split: if_splits)
  qed
qed
text \<open>
  \<open>sc_server_connect_to\<close>, by the three ways it can end: the sockets could not all be
  established, the device name could not be read, or the connection is complete.
\<close>

lemma sc_server_connect_to_unfold:
  assumes "(if \<not> forward (tunnel s) then accept_sockets env s else connect_sockets env s)
             = (ok, v, a, c, s1)"
  shows "sc_server_connect_to env s =
     (if \<not> ok then connect_to_fail env v a c s1
      else if short_read env (if video (params s) then v else if audio (params s) then a else c)
           then connect_to_fail env v a c
                  (snd (device_read_info env
                     (if video (params s) then v else if audio (params s) then a else c)
                     (sc_adb_tunnel_close env s1)))
           else (True, (snd (device_read_info env
                     (if video (params s) then v else if audio (params s) then a else c)
                     (sc_adb_tunnel_close env s1)))
                   \<lparr>video_socket := v, audio_socket := a, control_socket := c\<rparr>))"
  unfolding sc_server_connect_to_def assms
  by (simp add: Let_def case_prod_beta device_read_info_simps)

lemma establish_struct:
  assumes "(if \<not> forward (tunnel s) then accept_sockets env s else connect_sockets env s)
             = (ok, v, a, c, s1)"
  shows "struct_of s1 = struct_of s"
proof (cases "forward (tunnel s)")
  case True
  with assms have "connect_sockets env s = (ok, v, a, c, s1)" by simp
  then show ?thesis by (rule connect_sockets_events(2))
next
  case False
  with assms have "accept_sockets env s = (ok, v, a, c, s1)" by simp
  then show ?thesis by (rule accept_sockets_events(2))
qed

lemma sc_server_connect_to_setup_failed:
  assumes "(if \<not> forward (tunnel s) then accept_sockets env s else connect_sockets env s)
             = (False, v, a, c, s1)"
  shows "fst (sc_server_connect_to env s) = False"
    and "trace (snd (sc_server_connect_to env s))
           = trace s1 @ map EvNetClose (option_list v @ option_list a @ option_list c)
               @ (if enabled (tunnel s) then [EvAdbTunnelClose] else [])"
proof -
  have "tunnel s1 = tunnel s"
    using establish_struct [OF assms] by (rule struct_of_eqD)
  then show "fst (sc_server_connect_to env s) = False"
    and "trace (snd (sc_server_connect_to env s))
           = trace s1 @ map EvNetClose (option_list v @ option_list a @ option_list c)
               @ (if enabled (tunnel s) then [EvAdbTunnelClose] else [])"
    by (simp_all add: sc_server_connect_to_unfold [OF assms] connect_to_fail_simps)
qed

lemma sc_server_connect_to_read_failed:
  assumes "(if \<not> forward (tunnel s) then accept_sockets env s else connect_sockets env s)
             = (True, v, a, c, s1)"
    and "short_read env (if video (params s) then v else if audio (params s) then a else c)"
  shows "fst (sc_server_connect_to env s) = False"
    and "trace (snd (sc_server_connect_to env s))
           = trace s1 @ [EvAdbTunnelClose,
                         EvNetRecvAll (if video (params s) then v
                                       else if audio (params s) then a else c)
                           SC_DEVICE_NAME_FIELD_LENGTH]
               @ map EvNetClose (option_list v @ option_list a @ option_list c)"
  using assms(2)
  by (simp_all add: sc_server_connect_to_unfold [OF assms(1)] connect_to_fail_simps
        device_read_info_simps sc_adb_tunnel_close_simps)

lemma sc_server_connect_to_connected:
  assumes "(if \<not> forward (tunnel s) then accept_sockets env s else connect_sockets env s)
             = (True, v, a, c, s1)"
    and "\<not> short_read env (if video (params s) then v else if audio (params s) then a else c)"
  shows "fst (sc_server_connect_to env s) = True"
    and "trace (snd (sc_server_connect_to env s))
           = trace s1 @ [EvAdbTunnelClose,
                         EvNetRecvAll (if video (params s) then v
                                       else if audio (params s) then a else c)
                           SC_DEVICE_NAME_FIELD_LENGTH]"
    and "video_socket (snd (sc_server_connect_to env s)) = v"
    and "audio_socket (snd (sc_server_connect_to env s)) = a"
    and "control_socket (snd (sc_server_connect_to env s)) = c"
    and "device_name (snd (sc_server_connect_to env s))
           = device_name (snd (device_read_info env
               (if video (params s) then v else if audio (params s) then a else c)
               (sc_adb_tunnel_close env s1)))"
  using assms(2)
  by (simp_all add: sc_server_connect_to_unfold [OF assms(1)] device_read_info_simps
        sc_adb_tunnel_close_simps)

lemma sc_server_connect_to_keeps:
  "enabled (tunnel (snd (sc_server_connect_to env s))) = False"
  "params (snd (sc_server_connect_to env s)) = params s"
  "serial (snd (sc_server_connect_to env s)) = serial s"
  "device_socket_name (snd (sc_server_connect_to env s)) = device_socket_name s"
proof -
  obtain ok v a c s1 where est:
    "(if \<not> forward (tunnel s) then accept_sockets env s else connect_sockets env s)
       = (ok, v, a, c, s1)"
    by (metis prod_cases5)
  have keep: "params s1 = params s" "serial s1 = serial s"
    "device_socket_name s1 = device_socket_name s"
    using establish_struct [OF est] by (rule struct_of_eqD)+
  show "enabled (tunnel (snd (sc_server_connect_to env s))) = False"
    by (simp add: sc_server_connect_to_unfold [OF est] connect_to_fail_simps
          device_read_info_simps sc_adb_tunnel_close_simps)
  show "params (snd (sc_server_connect_to env s)) = params s"
    by (simp add: sc_server_connect_to_unfold [OF est] connect_to_fail_simps
          device_read_info_simps sc_adb_tunnel_close_simps keep)
  show "serial (snd (sc_server_connect_to env s)) = serial s"
    by (simp add: sc_server_connect_to_unfold [OF est] connect_to_fail_simps
          device_read_info_simps sc_adb_tunnel_close_simps keep)
  show "device_socket_name (snd (sc_server_connect_to env s)) = device_socket_name s"
    by (simp add: sc_server_connect_to_unfold [OF est] connect_to_fail_simps
          device_read_info_simps sc_adb_tunnel_close_simps keep)
qed

text \<open>The events of the establishment itself, in either mode.\<close>

lemma establish_events:
  assumes "(if \<not> forward (tunnel s) then accept_sockets env s else connect_sockets env s)
             = (ok, v, a, c, s1)"
  shows "\<exists>evs. trace s1 = trace s @ evs
           \<and> set (closed evs) \<union> set (option_list v @ option_list a @ option_list c)
                \<subseteq> set (opened evs)
           \<and> (video (params s) \<or> audio (params s) \<or> control (params s) \<longrightarrow>
                set (opened evs)
                  \<subseteq> set (closed evs) \<union> set (option_list v @ option_list a @ option_list c))
           \<and> filter is_tunnel_close evs = [] \<and> filter is_recv_all evs = []
           \<and> filter top_level evs = []"
proof (cases "forward (tunnel s)")
  case False
  with assms have "accept_sockets env s = (ok, v, a, c, s1)" by simp
  then have "trace s1 = trace s @ map EvNetAccept (option_list v @ option_list a @ option_list c)"
    by (rule accept_sockets_events(1))
  then show ?thesis
    by (intro exI [of _ "map EvNetAccept (option_list v @ option_list a @ option_list c)"])
       (auto simp: socket_lists opened_accepts closed_accepts filter_accepts
          filter_top_level_sockets)
next
  case True
  define host where
    "host = (if tunnel_host (params s) = 0 then IPV4_LOCALHOST else tunnel_host (params s))"
  define port where
    "port = (if tunnel_port (params s) = 0 then local_port (tunnel s)
             else tunnel_port (params s))"
  define r0 where "r0 = connect_to_server env 100 100 host port s"
  from True assms have cs: "connect_sockets env s = (ok, v, a, c, s1)" by simp
  from connect_sockets_events(1) [OF cs] obtain rest where rest:
    "trace s1 = trace (snd r0) @ rest" "closed rest = []"
    "filter is_tunnel_close rest = []" "filter is_recv_all rest = []"
    "filter top_level rest = []"
    "option_list v @ option_list a @ option_list c
       = (if video (params s) \<or> audio (params s) \<or> control (params s)
          then option_list (fst r0) else []) @ opened rest"
    unfolding r0_def host_def port_def by blast
  from connect_to_server_events [of env 100 100 host port s] obtain e0 where e0:
    "trace (snd r0) = trace s @ e0" "opened e0 = closed e0 @ option_list (fst r0)"
    "filter is_tunnel_close e0 = []" "filter is_recv_all e0 = []"
    unfolding r0_def by blast
  have "top_events (snd r0) = top_events s"
    unfolding r0_def by (rule top_events_connect_to_server)
  then have top0: "filter top_level e0 = []"
    by (simp add: top_events_def e0(1))
  show ?thesis
  proof (intro exI [of _ "e0 @ rest"] conjI)
    show "trace s1 = trace s @ e0 @ rest" using rest(1) e0(1) by simp
    show "filter is_tunnel_close (e0 @ rest) = []" using rest e0 by simp
    show "filter is_recv_all (e0 @ rest) = []" using rest e0 by simp
    show "filter top_level (e0 @ rest) = []" using rest top0 by simp
    show "set (closed (e0 @ rest)) \<union> set (option_list v @ option_list a @ option_list c)
            \<subseteq> set (opened (e0 @ rest))"
      unfolding rest(6) using rest(2) e0(2) by (auto simp: socket_lists)
    show "video (params s) \<or> audio (params s) \<or> control (params s) \<longrightarrow>
            set (opened (e0 @ rest))
              \<subseteq> set (closed (e0 @ rest))
                   \<union> set (option_list v @ option_list a @ option_list c)"
      unfolding rest(6) using rest(2) e0(2) by (auto simp: socket_lists)
  qed
qed

lemma top_events_sc_server_connect_to:
  "top_events (snd (sc_server_connect_to env s)) = top_events s"
proof -
  obtain ok v a c s1 where est:
    "(if \<not> forward (tunnel s) then accept_sockets env s else connect_sockets env s)
       = (ok, v, a, c, s1)"
    by (metis prod_cases5)
  from establish_events [OF est] obtain evs where evs:
    "trace s1 = trace s @ evs" "filter top_level evs = []"
    by blast
  show ?thesis
    by (simp add: sc_server_connect_to_unfold [OF est] connect_to_fail_simps
          device_read_info_simps sc_adb_tunnel_close_simps top_events_def evs
          filter_top_level_sockets)
qed

lemma establish_ok:
  assumes "(if \<not> forward (tunnel s) then accept_sockets env s else connect_sockets env s)
             = (True, v, a, c, s1)"
  shows "(video (params s) \<longrightarrow> v \<noteq> None) \<and> (audio (params s) \<longrightarrow> a \<noteq> None)
           \<and> (control (params s) \<longrightarrow> c \<noteq> None)"
proof (cases "forward (tunnel s)")
  case True
  with assms have "connect_sockets env s = (True, v, a, c, s1)" by simp
  from connect_sockets_events(4) [OF this] show ?thesis by simp
next
  case False
  with assms have "accept_sockets env s = (True, v, a, c, s1)" by simp
  then show ?thesis by (rule accept_sockets_ok)
qed

lemma establish_disabled:
  assumes "(if \<not> forward (tunnel s) then accept_sockets env s else connect_sockets env s)
             = (ok, v, a, c, s1)"
  shows "(\<not> video (params s) \<longrightarrow> v = None) \<and> (\<not> audio (params s) \<longrightarrow> a = None)
           \<and> (\<not> control (params s) \<longrightarrow> c = None)"
proof (cases "forward (tunnel s)")
  case True
  with assms have "connect_sockets env s = (ok, v, a, c, s1)" by simp
  then show ?thesis
    by (cases "audio (params s)"; cases "video (params s)"; cases "control (params s)")
       (auto simp: connect_sockets_def Let_def case_prod_beta split: if_splits)
next
  case False
  with assms have "accept_sockets env s = (ok, v, a, c, s1)" by simp
  then show ?thesis
    by (cases "audio (params s)"; cases "video (params s)"; cases "control (params s)")
       (auto simp: accept_sockets_def Let_def case_prod_beta split: if_splits)
qed

lemma establish_obtain:
  obtains ok v a c s1 where
    "(if \<not> forward (tunnel s) then accept_sockets env s else connect_sockets env s)
       = (ok, v, a, c, s1)"
  by (metis prod_cases5)






section \<open>The worker\<close>

lemma callbacks_append: "callbacks (xs @ ys) = callbacks xs @ callbacks ys"
  by (simp add: callbacks_def)

lemma callbacks_top_level: "callbacks (filter top_level tr) = callbacks tr"
proof (induction tr)
  case Nil
  show ?case by simp
next
  case (Cons e tr)
  then show ?case by (cases e) (simp_all add: callbacks_def)
qed

lemma observers_top_level:
  "filter is_observer_init (filter top_level tr) = filter is_observer_init tr"
proof (induction tr)
  case Nil
  show ?case by simp
next
  case (Cons e tr)
  then show ?case by (cases e) simp_all
qed

lemma device_socket_name_emit: "device_socket_name (emit e s) = device_socket_name s"
  by (simp add: emit_def)

lemma params_emit: "params (emit e s) = params s"
  by (simp add: emit_def)

lemma kill_adb_keeps:
  "device_socket_name (sc_server_kill_adb_if_requested env s) = device_socket_name s"
  "params (sc_server_kill_adb_if_requested env s) = params s"
  using struct_of_sc_server_kill_adb_if_requested [of env s]
  by (rule struct_of_eqD)+

lemma error_connection_failed_simps:
  "fst (error_connection_failed env s) = Returned (- 1)"
  "top_events (snd (error_connection_failed env s))
     = top_events s @ [EvCallback ON_CONNECTION_FAILED]"
  "device_socket_name (snd (error_connection_failed env s)) = device_socket_name s"
  by (simp_all add: error_connection_failed_def Let_def top_events_emit
        top_events_sc_server_kill_adb_if_requested device_socket_name_emit kill_adb_keeps)

text \<open>The listener and the turns of the observer's thread.\<close>

lemma sc_server_on_terminated_simps:
  "top_events (sc_server_on_terminated s) = top_events s @ [EvCallback ON_DISCONNECTED]"
  "struct_of (sc_server_on_terminated s) = struct_of s"
  by (simp_all add: sc_server_on_terminated_def sc_intr_interrupt_def emit_def top_events_def
        struct_of_def)

lemma sc_process_observer_thread_simps:
  assumes "obs_listener ob = sc_server_on_terminated"
  shows "top_events (sc_process_observer_thread env points ob s)
           = top_events s @ (if e_remote_exit env \<in> set points
                             then [EvCallback ON_DISCONNECTED] else [])"
    and "struct_of (sc_process_observer_thread env points ob s) = struct_of s"
  by (simp_all add: sc_process_observer_thread_def assms sc_server_on_terminated_simps)

lemma struct_of_wait_for_stop:
  assumes "obs_listener ob = sc_server_on_terminated"
  shows "struct_of (snd (wait_for_stop env pid ob s)) = struct_of s"
proof -
  have interrupts: "struct_of (case sock of None \<Rightarrow> st | Some sk \<Rightarrow> net_interrupt sk st)
                      = struct_of st" for sock st
    by (cases sock) (simp_all add: struct_of_prims)
  show ?thesis
    by (simp add: wait_for_stop_def Let_def case_prod_beta struct_of_prims struct_of_emit
          struct_of_sc_server_kill_adb_if_requested interrupts
          sc_process_observer_thread_simps(2) [OF assms])
qed

lemma top_events_wait_for_stop:
  assumes "obs_listener ob = sc_server_on_terminated"
  shows "top_events (snd (wait_for_stop env pid ob s))
           = top_events s
               @ (if e_remote_exit env = EXIT_CONNECTED then [EvCallback ON_DISCONNECTED] else [])
               @ (if e_stop_requested env \<and> e_remote_exit env = EXIT_ON_STOP
                  then [EvCallback ON_DISCONNECTED] else [])"
proof -
  have interrupts: "top_events (case sock of None \<Rightarrow> st | Some sk \<Rightarrow> net_interrupt sk st)
                      = top_events st" for sock st
    by (cases sock) (simp_all add: top_events_prims)
  show ?thesis
    by (simp add: wait_for_stop_def Let_def case_prod_beta top_events_prims top_events_emit
          top_events_sc_server_kill_adb_if_requested interrupts
          sc_process_observer_thread_simps(1) [OF assms])
qed

lemma wait_for_stop_fst:
  "fst (wait_for_stop env pid ob s) = (if e_stop_requested env then Returned 0 else Blocked)"
  by (simp add: wait_for_stop_def Let_def case_prod_beta)

lemma sc_adb_tunnel_open_simps:
  "top_events (snd (sc_adb_tunnel_open env ser name ports force s))
     = top_events s @ [EvAdbTunnelOpen ser name]"
  "device_socket_name (snd (sc_adb_tunnel_open env ser name ports force s))
     = device_socket_name s"
  "params (snd (sc_adb_tunnel_open env ser name ports force s)) = params s"
  by (simp_all add: sc_adb_tunnel_open_def Let_def top_events_def emit_def
        split: option.split prod.split)

lemma top_events_sc_adb_tunnel_close:
  "top_events (sc_adb_tunnel_close env s) = top_events s"
  by (simp add: sc_adb_tunnel_close_def top_events_def emit_def)

lemma sc_process_observer_init_simps:
  "fst (sc_process_observer_init env pid listener s)
     = (if e_observer_init env then Some \<lparr>obs_pid = pid, obs_listener = listener\<rparr> else None)"
  "top_events (snd (sc_process_observer_init env pid listener s))
     = top_events s @ (if e_observer_init env then [EvObserverInit pid] else [])"
  "struct_of (snd (sc_process_observer_init env pid listener s)) = struct_of s"
  by (simp_all add: sc_process_observer_init_def top_events_def emit_def struct_of_def)

lemma strdup_simps:
  "fst (strdup env v s) = (if e_alloc env (n_alloc s) then Some v else None)"
  "device_socket_name (snd (strdup env v s)) = device_socket_name s"
  "params (snd (strdup env v s)) = params s"
  by (simp_all add: strdup_def asprintf_def Let_def emit_def)

lemma process_keeps:
  "device_socket_name (sc_process_wait pid s) = device_socket_name s"
  "device_socket_name (sc_process_terminate pid s) = device_socket_name s"
  "device_socket_name (sc_process_close pid s) = device_socket_name s"
  "device_socket_name (sc_process_observer_join s) = device_socket_name s"
  "device_socket_name (sc_process_observer_destroy s) = device_socket_name s"
  by (simp_all add: sc_process_wait_def sc_process_terminate_def sc_process_close_def
        sc_process_observer_join_def sc_process_observer_destroy_def emit_def)

text \<open>The \<open>--list-*\<close> branch fires one callback and attaches no observer.\<close>

lemma run_server_list_events:
  "\<exists>c. top_events (snd (run_server_list env s)) = top_events s @ [EvCallback c]
       \<and> (c = ON_CONNECTION_FAILED \<and> fst (run_server_list env s) = Returned (- 1)
          \<or> c = ON_CONNECTED \<and> fst (run_server_list env s) = Returned 0)"
  "device_socket_name (snd (run_server_list env s)) = device_socket_name s"
proof -
  define x where "x = execute_server env (params s) s"
  have keep: "device_socket_name (snd x) = device_socket_name s"
    unfolding x_def by (rule device_socket_name_struct [OF struct_of_execute_server])
  have top: "top_events (snd x) = top_events s"
    unfolding x_def by (rule top_events_execute_server)
  show "\<exists>c. top_events (snd (run_server_list env s)) = top_events s @ [EvCallback c]
       \<and> (c = ON_CONNECTION_FAILED \<and> fst (run_server_list env s) = Returned (- 1)
          \<or> c = ON_CONNECTED \<and> fst (run_server_list env s) = Returned 0)"
  proof (cases "fst x")
    case None
    then have "run_server_list env s = error_connection_failed env (snd x)"
      by (simp add: run_server_list_def Let_def case_prod_beta x_def)
    then show ?thesis by (simp add: error_connection_failed_simps top)
  next
    case (Some pd)
    then have "run_server_list env s
                 = (Returned 0, emit (EvCallback ON_CONNECTED)
                                  (sc_process_close pd (sc_process_wait pd (snd x))))"
      by (simp add: run_server_list_def Let_def case_prod_beta x_def)
    then show ?thesis by (simp add: top_events_emit top_events_prims top)
  qed
  show "device_socket_name (snd (run_server_list env s)) = device_socket_name s"
  proof (cases "fst x")
    case None
    then have "run_server_list env s = error_connection_failed env (snd x)"
      by (simp add: run_server_list_def Let_def case_prod_beta x_def)
    then show ?thesis by (simp add: error_connection_failed_simps keep)
  next
    case (Some pd)
    then have "run_server_list env s
                 = (Returned 0, emit (EvCallback ON_CONNECTED)
                                  (sc_process_close pd (sc_process_wait pd (snd x))))"
      by (simp add: run_server_list_def Let_def case_prod_beta x_def)
    then show ?thesis by (simp add: device_socket_name_emit process_keeps keep)
  qed
qed

text \<open>
  The mirroring branch, by the place where it leaves: each failure fires
  \<open>on_connection_failed\<close>, after the listener has run if the observer was attached;
  only the complete connection fires \<open>on_connected\<close>.
\<close>

lemma run_server_mirror_unfold:
  fixes env ser s
  defines "name \<equiv> SC_SOCKET_NAME_PREFIX @ fmt_08x (scid (params s))"
  defines "n \<equiv> strdup env name s"
  defines "t \<equiv> sc_adb_tunnel_open env ser name (port_range (params s))
                  (force_adb_forward (params s)) ((snd n)\<lparr>device_socket_name := Some name\<rparr>)"
  defines "x \<equiv> execute_server env (params s) (snd t)"
  defines "pd \<equiv> the (fst x)"
  defines "ob \<equiv> \<lparr>obs_pid = pd, obs_listener = sc_server_on_terminated\<rparr>"
  defines "oi \<equiv> sc_process_observer_init env pd sc_server_on_terminated (snd x)"
  defines "cn \<equiv> sc_server_connect_to env
                   (sc_process_observer_thread env [EXIT_EARLY] ob (snd oi))"
  shows "run_server_mirror env ser s =
     (if fst n = None then error_connection_failed env (snd n)
      else if \<not> fst t then error_connection_failed env (snd t)
      else if fst x = None then error_connection_failed env (sc_adb_tunnel_close env (snd x))
      else if \<not> e_observer_init env
           then error_connection_failed env
                  (sc_adb_tunnel_close env
                    (sc_process_wait pd (sc_process_terminate pd (snd oi))))
      else if \<not> fst cn
           then error_connection_failed env
                  (sc_process_observer_destroy
                    (sc_process_observer_join
                      (sc_process_observer_thread env [EXIT_CONNECTED, EXIT_ON_STOP] ob
                        (sc_process_wait pd (sc_process_terminate pd (snd cn))))))
      else wait_for_stop env pd ob (emit (EvCallback ON_CONNECTED) (snd cn)))"
proof (cases "e_alloc env (n_alloc s)")
  case False
  then show ?thesis
    by (simp add: run_server_mirror_def Let_def case_prod_beta n_def name_def strdup_simps)
next
  case True
  show ?thesis
  proof (cases "fst x")
    case None
    with True show ?thesis
      by (simp add: run_server_mirror_def Let_def case_prod_beta n_def name_def t_def x_def
            strdup_simps)
  next
    case (Some p)
    with True show ?thesis
      by (simp add: run_server_mirror_def Let_def case_prod_beta n_def name_def t_def x_def
            pd_def ob_def oi_def cn_def strdup_simps sc_process_observer_init_simps)
  qed
qed

lemma run_server_mirror_events:
  "\<exists>pre cbs. top_events (snd (run_server_mirror env ser s))
                 = top_events s @ pre @ map EvCallback cbs
       \<and> callbacks pre = []
       \<and> (fst (run_server_mirror env ser s) = Returned (- 1)
            \<and> filter is_observer_init pre = [] \<and> cbs = [ON_CONNECTION_FAILED]
          \<or> fst (run_server_mirror env ser s) = Returned (- 1)
            \<and> (\<exists>pd. filter is_observer_init pre = [EvObserverInit pd])
            \<and> cbs = [ON_DISCONNECTED, ON_CONNECTION_FAILED]
          \<or> fst (run_server_mirror env ser s) = Returned 0
            \<and> (\<exists>pd. filter is_observer_init pre = [EvObserverInit pd])
            \<and> cbs = (if e_remote_exit env = EXIT_EARLY then [ON_DISCONNECTED, ON_CONNECTED]
                      else [ON_CONNECTED, ON_DISCONNECTED])
          \<or> fst (run_server_mirror env ser s) = Blocked
            \<and> (\<exists>pd. filter is_observer_init pre = [EvObserverInit pd])
            \<and> cbs = (case e_remote_exit env of
                        EXIT_EARLY \<Rightarrow> [ON_DISCONNECTED, ON_CONNECTED]
                      | EXIT_CONNECTED \<Rightarrow> [ON_CONNECTED, ON_DISCONNECTED]
                      | EXIT_ON_STOP \<Rightarrow> [ON_CONNECTED]))"
  "device_socket_name (snd (run_server_mirror env ser s))
     = (if e_alloc env (n_alloc s) then Some (SC_SOCKET_NAME_PREFIX @ fmt_08x (scid (params s)))
        else device_socket_name s)"
proof -
  define name where "name = SC_SOCKET_NAME_PREFIX @ fmt_08x (scid (params s))"
  define n where "n = strdup env name s"
  define t where "t = sc_adb_tunnel_open env ser name (port_range (params s))
                  (force_adb_forward (params s)) ((snd n)\<lparr>device_socket_name := Some name\<rparr>)"
  define x where "x = execute_server env (params s) (snd t)"
  define pd where "pd = the (fst x)"
  define ob where "ob = \<lparr>obs_pid = pd, obs_listener = sc_server_on_terminated\<rparr>"
  define oi where "oi = sc_process_observer_init env pd sc_server_on_terminated (snd x)"
  define th where "th = sc_process_observer_thread env [EXIT_EARLY] ob (snd oi)"
  define cn where "cn = sc_server_connect_to env th"
  define fin where "fin = sc_process_observer_thread env [EXIT_CONNECTED, EXIT_ON_STOP] ob
                            (sc_process_wait pd (sc_process_terminate pd (snd cn)))"
  let ?r = "run_server_mirror env ser s"
  have listener: "obs_listener ob = sc_server_on_terminated" by (simp add: ob_def)
  have unfold: "?r =
     (if fst n = None then error_connection_failed env (snd n)
      else if \<not> fst t then error_connection_failed env (snd t)
      else if fst x = None then error_connection_failed env (sc_adb_tunnel_close env (snd x))
      else if \<not> e_observer_init env
           then error_connection_failed env
                  (sc_adb_tunnel_close env
                    (sc_process_wait pd (sc_process_terminate pd (snd oi))))
      else if \<not> fst cn
           then error_connection_failed env
                  (sc_process_observer_destroy (sc_process_observer_join fin))
      else wait_for_stop env pd ob (emit (EvCallback ON_CONNECTED) (snd cn)))"
    unfolding n_def t_def x_def oi_def cn_def th_def fin_def name_def pd_def ob_def
    by (rule run_server_mirror_unfold)
  have top_n: "top_events (snd n) = top_events s"
    unfolding n_def by (rule top_events_strdup)
  have top_t: "top_events (snd t) = top_events s @ [EvAdbTunnelOpen ser name]"
    unfolding t_def by (simp add: sc_adb_tunnel_open_simps top_events_updates top_n)
  have top_x: "top_events (snd x) = top_events s @ [EvAdbTunnelOpen ser name]"
    unfolding x_def by (simp add: top_events_execute_server top_t)
  have top_oi: "top_events (snd oi)
                  = top_events s @ [EvAdbTunnelOpen ser name]
                      @ (if e_observer_init env then [EvObserverInit pd] else [])"
    unfolding oi_def by (simp add: sc_process_observer_init_simps top_x)
  have top_th: "top_events th
                  = top_events (snd oi)
                      @ (if e_remote_exit env = EXIT_EARLY then [EvCallback ON_DISCONNECTED]
                         else [])"
    unfolding th_def by (simp add: sc_process_observer_thread_simps(1) [OF listener])
  have top_cn: "top_events (snd cn) = top_events th"
    unfolding cn_def by (rule top_events_sc_server_connect_to)
  have top_fin: "top_events fin
                   = top_events (snd cn)
                       @ (if e_remote_exit env = EXIT_EARLY then []
                          else [EvCallback ON_DISCONNECTED])"
    unfolding fin_def
    by (cases "e_remote_exit env")
       (simp_all add: sc_process_observer_thread_simps(1) [OF listener] top_events_prims)
  have dn_n: "device_socket_name (snd n) = device_socket_name s"
    unfolding n_def by (simp add: strdup_simps)
  have dn_t: "device_socket_name (snd t) = Some name"
    unfolding t_def by (simp add: sc_adb_tunnel_open_simps)
  have dn_x: "device_socket_name (snd x) = Some name"
    unfolding x_def
    by (simp add: device_socket_name_struct [OF struct_of_execute_server] dn_t)
  have dn_oi: "device_socket_name (snd oi) = Some name"
    unfolding oi_def
    by (simp add: device_socket_name_struct [OF sc_process_observer_init_simps(3)] dn_x)
  have dn_th: "device_socket_name th = Some name"
    unfolding th_def
    by (simp add: device_socket_name_struct [OF sc_process_observer_thread_simps(2) [OF listener]]
          dn_oi)
  have dn_cn: "device_socket_name (snd cn) = Some name"
    unfolding cn_def by (simp add: sc_server_connect_to_keeps dn_th)
  have dn_fin: "device_socket_name fin = Some name"
    unfolding fin_def
    by (simp add: device_socket_name_struct [OF sc_process_observer_thread_simps(2) [OF listener]]
          process_keeps dn_cn)
  have alloc: "e_alloc env (n_alloc s) = (fst n \<noteq> None)"
    unfolding n_def by (simp add: strdup_simps)
  consider (no_name) "fst n = None"
    | (no_tunnel) "fst n \<noteq> None" "\<not> fst t"
    | (no_process) "fst n \<noteq> None" "fst t" "fst x = None"
    | (no_observer) "fst n \<noteq> None" "fst t" "fst x \<noteq> None" "\<not> e_observer_init env"
    | (no_connection) "fst n \<noteq> None" "fst t" "fst x \<noteq> None" "e_observer_init env"
        "\<not> fst cn"
    | (connected) "fst n \<noteq> None" "fst t" "fst x \<noteq> None" "e_observer_init env" "fst cn"
    by blast
  then have both:
    "(\<exists>pre cbs. top_events (snd ?r) = top_events s @ pre @ map EvCallback cbs
       \<and> callbacks pre = []
       \<and> (fst ?r = Returned (- 1)
            \<and> filter is_observer_init pre = [] \<and> cbs = [ON_CONNECTION_FAILED]
          \<or> fst ?r = Returned (- 1)
            \<and> (\<exists>pd. filter is_observer_init pre = [EvObserverInit pd])
            \<and> cbs = [ON_DISCONNECTED, ON_CONNECTION_FAILED]
          \<or> fst ?r = Returned 0
            \<and> (\<exists>pd. filter is_observer_init pre = [EvObserverInit pd])
            \<and> cbs = (if e_remote_exit env = EXIT_EARLY then [ON_DISCONNECTED, ON_CONNECTED]
                      else [ON_CONNECTED, ON_DISCONNECTED])
          \<or> fst ?r = Blocked
            \<and> (\<exists>pd. filter is_observer_init pre = [EvObserverInit pd])
            \<and> cbs = (case e_remote_exit env of
                        EXIT_EARLY \<Rightarrow> [ON_DISCONNECTED, ON_CONNECTED]
                      | EXIT_CONNECTED \<Rightarrow> [ON_CONNECTED, ON_DISCONNECTED]
                      | EXIT_ON_STOP \<Rightarrow> [ON_CONNECTED])))
     \<and> device_socket_name (snd ?r)
          = (if e_alloc env (n_alloc s) then Some name else device_socket_name s)"
  proof cases
    case no_name
    then have r: "?r = error_connection_failed env (snd n)"
      unfolding unfold by (simp del: not_None_eq)
    show ?thesis
      unfolding r alloc using no_name
      by (rule_tac conjI, rule_tac x = "[]" in exI, rule_tac x = "[ON_CONNECTION_FAILED]" in exI)
         (simp_all add: error_connection_failed_simps top_n dn_n callbacks_def)
  next
    case no_tunnel
    then have r: "?r = error_connection_failed env (snd t)"
      unfolding unfold by (simp del: not_None_eq)
    show ?thesis
      unfolding r alloc using no_tunnel(1)
      by (rule_tac conjI, rule_tac x = "[EvAdbTunnelOpen ser name]" in exI,
          rule_tac x = "[ON_CONNECTION_FAILED]" in exI)
         (simp_all add: error_connection_failed_simps top_t dn_t callbacks_def
            del: not_None_eq)
  next
    case no_process
    then have r: "?r = error_connection_failed env (sc_adb_tunnel_close env (snd x))"
      unfolding unfold by (simp del: not_None_eq)
    show ?thesis
      unfolding r alloc using no_process(1)
      by (rule_tac conjI, rule_tac x = "[EvAdbTunnelOpen ser name]" in exI,
          rule_tac x = "[ON_CONNECTION_FAILED]" in exI)
         (simp_all add: error_connection_failed_simps top_events_sc_adb_tunnel_close
            sc_adb_tunnel_close_simps top_x dn_x callbacks_def del: not_None_eq)
  next
    case no_observer
    then have r: "?r = error_connection_failed env
                  (sc_adb_tunnel_close env (sc_process_wait pd (sc_process_terminate pd (snd oi))))"
      unfolding unfold by (simp del: not_None_eq)
    show ?thesis
      unfolding r alloc using no_observer(1,4)
      by (rule_tac conjI, rule_tac x = "[EvAdbTunnelOpen ser name]" in exI,
          rule_tac x = "[ON_CONNECTION_FAILED]" in exI)
         (simp_all add: error_connection_failed_simps top_events_sc_adb_tunnel_close
            sc_adb_tunnel_close_simps top_events_prims process_keeps top_oi dn_oi
            callbacks_def del: not_None_eq)
  next
    case no_connection
    then have r: "?r = error_connection_failed env
                  (sc_process_observer_destroy (sc_process_observer_join fin))"
      unfolding unfold by (simp del: not_None_eq)
    show ?thesis
      unfolding r alloc using no_connection(1,4)
      by (rule_tac conjI,
          rule_tac x = "[EvAdbTunnelOpen ser name, EvObserverInit pd]" in exI,
          rule_tac x = "[ON_DISCONNECTED, ON_CONNECTION_FAILED]" in exI)
         (simp_all add: error_connection_failed_simps top_events_prims process_keeps
            top_fin top_cn top_th top_oi dn_fin callbacks_def del: not_None_eq)
  next
    case connected
    then have r: "?r = wait_for_stop env pd ob (emit (EvCallback ON_CONNECTED) (snd cn))"
      unfolding unfold by (simp del: not_None_eq)
    show ?thesis
      unfolding r alloc using connected(1,4)
      by (rule_tac conjI,
          rule_tac x = "[EvAdbTunnelOpen ser name, EvObserverInit pd]" in exI,
          rule_tac x = "if e_remote_exit env = EXIT_EARLY then [ON_DISCONNECTED, ON_CONNECTED]
                        else if e_remote_exit env = EXIT_ON_STOP \<and> \<not> e_stop_requested env
                             then [ON_CONNECTED]
                             else [ON_CONNECTED, ON_DISCONNECTED]" in exI;
          cases "e_remote_exit env"; cases "e_stop_requested env")
         (simp_all add: top_events_wait_for_stop [OF listener] wait_for_stop_fst
            top_events_emit
            device_socket_name_struct [OF struct_of_wait_for_stop [OF listener]]
            device_socket_name_emit top_cn top_th top_oi dn_cn callbacks_def
            del: not_None_eq)
  qed
  from both show "\<exists>pre cbs. top_events (snd ?r) = top_events s @ pre @ map EvCallback cbs
       \<and> callbacks pre = []
       \<and> (fst ?r = Returned (- 1)
            \<and> filter is_observer_init pre = [] \<and> cbs = [ON_CONNECTION_FAILED]
          \<or> fst ?r = Returned (- 1)
            \<and> (\<exists>pd. filter is_observer_init pre = [EvObserverInit pd])
            \<and> cbs = [ON_DISCONNECTED, ON_CONNECTION_FAILED]
          \<or> fst ?r = Returned 0
            \<and> (\<exists>pd. filter is_observer_init pre = [EvObserverInit pd])
            \<and> cbs = (if e_remote_exit env = EXIT_EARLY then [ON_DISCONNECTED, ON_CONNECTED]
                      else [ON_CONNECTED, ON_DISCONNECTED])
          \<or> fst ?r = Blocked
            \<and> (\<exists>pd. filter is_observer_init pre = [EvObserverInit pd])
            \<and> cbs = (case e_remote_exit env of
                        EXIT_EARLY \<Rightarrow> [ON_DISCONNECTED, ON_CONNECTED]
                      | EXIT_CONNECTED \<Rightarrow> [ON_CONNECTED, ON_DISCONNECTED]
                      | EXIT_ON_STOP \<Rightarrow> [ON_CONNECTED]))"
    by blast
  from both show "device_socket_name (snd ?r)
     = (if e_alloc env (n_alloc s) then Some (SC_SOCKET_NAME_PREFIX @ fmt_08x (scid (params s)))
        else device_socket_name s)"
    unfolding name_def by blast
qed

text \<open>
  The whole worker. It never stops at \<open>assert(serial)\<close>, and it fires exactly one of
  \<open>on_connection_failed\<close> and \<open>on_connected\<close>; the listener fires \<open>on_disconnected\<close> once
  if the observer was attached and the run has returned.
\<close>

lemma run_server_unfold:
  fixes env s
  defines "a \<equiv> sc_adb_start_server env s"
  defines "b \<equiv> (case tcpip_dst (params s) of
                    None \<Rightarrow> select_initial_serial env (snd a)
                  | Some dst \<Rightarrow> sc_server_configure_tcpip_known_address env dst (snd a))"
  defines "ser \<equiv> the (serial (snd b))"
  defines "c \<equiv> push_server env ser (snd b)"
  defines "listing \<equiv> (list_encoders (params s) \<or> list_displays (params s)
                          \<or> list_cameras (params s))"
  shows "run_server env s =
     (if \<not> fst a then error_connection_failed env (snd a)
      else if \<not> fst b then error_connection_failed env (snd b)
      else if \<not> fst c then error_connection_failed env (snd c)
      else if listing then run_server_list env (snd c)
      else run_server_mirror env ser (snd c))"
proof -
  let ?r = "run_server env s"
  have serial_b: "fst b \<Longrightarrow> serial (snd b) \<noteq> None"
    unfolding b_def
    by (cases "tcpip_dst (params s)")
       (simp_all add: select_initial_serial_serial known_address_serial del: not_None_eq)
  show ?thesis
  proof (cases "fst a \<and> fst b")
    case False
    then show ?thesis
      unfolding b_def a_def by (auto simp: run_server_def Let_def case_prod_beta)
  next
    case True
    with serial_b obtain v where v: "serial (snd b) = Some v" by blast
    then have "ser = v" by (simp add: ser_def)
    with True v show ?thesis
      unfolding c_def listing_def b_def a_def
      by (simp add: run_server_def Let_def case_prod_beta)
  qed
qed

lemma run_server_events:
  "\<exists>pre cbs. top_events (snd (run_server env s)) = top_events s @ pre @ map EvCallback cbs
       \<and> callbacks pre = []
       \<and> (fst (run_server env s) = Returned (- 1)
            \<and> filter is_observer_init pre = [] \<and> cbs = [ON_CONNECTION_FAILED]
          \<or> fst (run_server env s) = Returned (- 1)
            \<and> \<not> (list_encoders (params s) \<or> list_displays (params s)
                    \<or> list_cameras (params s))
            \<and> (\<exists>pd. filter is_observer_init pre = [EvObserverInit pd])
            \<and> cbs = [ON_DISCONNECTED, ON_CONNECTION_FAILED]
          \<or> fst (run_server env s) = Returned 0
            \<and> (list_encoders (params s) \<or> list_displays (params s) \<or> list_cameras (params s))
            \<and> pre = [] \<and> cbs = [ON_CONNECTED]
          \<or> fst (run_server env s) = Returned 0
            \<and> \<not> (list_encoders (params s) \<or> list_displays (params s)
                    \<or> list_cameras (params s))
            \<and> (\<exists>pd. filter is_observer_init pre = [EvObserverInit pd])
            \<and> cbs = (if e_remote_exit env = EXIT_EARLY then [ON_DISCONNECTED, ON_CONNECTED]
                      else [ON_CONNECTED, ON_DISCONNECTED])
          \<or> fst (run_server env s) = Blocked
            \<and> \<not> (list_encoders (params s) \<or> list_displays (params s)
                    \<or> list_cameras (params s))
            \<and> (\<exists>pd. filter is_observer_init pre = [EvObserverInit pd])
            \<and> cbs = (case e_remote_exit env of
                        EXIT_EARLY \<Rightarrow> [ON_DISCONNECTED, ON_CONNECTED]
                      | EXIT_CONNECTED \<Rightarrow> [ON_CONNECTED, ON_DISCONNECTED]
                      | EXIT_ON_STOP \<Rightarrow> [ON_CONNECTED]))"
  "device_socket_name (snd (run_server env s)) = device_socket_name s
   \<or> device_socket_name (snd (run_server env s))
       = Some (SC_SOCKET_NAME_PREFIX @ fmt_08x (scid (params s)))"
proof -
  define a where "a = sc_adb_start_server env s"
  define b where "b = (case tcpip_dst (params s) of
                         None \<Rightarrow> select_initial_serial env (snd a)
                       | Some dst \<Rightarrow> sc_server_configure_tcpip_known_address env dst (snd a))"
  define ser where "ser = the (serial (snd b))"
  define c where "c = push_server env ser (snd b)"
  define listing where "listing = (list_encoders (params s) \<or> list_displays (params s)
                                     \<or> list_cameras (params s))"
  let ?r = "run_server env s"
  have unfold: "?r =
     (if \<not> fst a then error_connection_failed env (snd a)
      else if \<not> fst b then error_connection_failed env (snd b)
      else if \<not> fst c then error_connection_failed env (snd c)
      else if listing then run_server_list env (snd c)
      else run_server_mirror env ser (snd c))"
    unfolding a_def b_def ser_def c_def listing_def by (rule run_server_unfold)
  have top_a: "top_events (snd a) = top_events s"
    and dn_a: "device_socket_name (snd a) = device_socket_name s"
    and ps_a: "params (snd a) = params s"
    unfolding a_def
    by (simp_all add: top_events_prims device_socket_name_struct [OF struct_of_sc_adb_start_server]
          params_struct [OF struct_of_sc_adb_start_server])
  have top_b: "top_events (snd b) = top_events s"
    and dn_b: "device_socket_name (snd b) = device_socket_name s"
    and ps_b: "params (snd b) = params s"
    unfolding b_def
    by (cases "tcpip_dst (params s)";
        simp add: top_events_select_initial_serial top_events_known_address
          select_initial_serial_keeps known_address_keeps top_a dn_a ps_a)+
  have top_c: "top_events (snd c) = top_events s"
    and dn_c: "device_socket_name (snd c) = device_socket_name s"
    and ps_c: "params (snd c) = params s"
    unfolding c_def
    by (simp_all add: top_events_push_server device_socket_name_struct [OF struct_of_push_server]
          params_struct [OF struct_of_push_server] top_b dn_b ps_b)
  have "(\<exists>st. ?r = error_connection_failed env st \<and> top_events st = top_events s
              \<and> device_socket_name st = device_socket_name s)
        \<or> ?r = run_server_list env (snd c) \<and> listing
        \<or> ?r = run_server_mirror env ser (snd c) \<and> \<not> listing"
  proof (cases "fst a")
    case False
    then have "?r = error_connection_failed env (snd a)" unfolding unfold by simp
    with top_a dn_a show ?thesis by blast
  next
    case ok_a: True
    show ?thesis
    proof (cases "fst b")
      case False
      with ok_a have "?r = error_connection_failed env (snd b)" unfolding unfold by simp
      with top_b dn_b show ?thesis by blast
    next
      case ok_b: True
      show ?thesis
      proof (cases "fst c")
        case False
        with ok_a ok_b have "?r = error_connection_failed env (snd c)"
          unfolding unfold by simp
        with top_c dn_c show ?thesis by blast
      next
        case True
        with ok_a ok_b show ?thesis unfolding unfold by simp
      qed
    qed
  qed
  then consider (failed) st where "?r = error_connection_failed env st"
      "top_events st = top_events s" "device_socket_name st = device_socket_name s"
    | (list) "?r = run_server_list env (snd c)" listing
    | (mirror) "?r = run_server_mirror env ser (snd c)" "\<not> listing"
    by blast
  then have both:
    "(\<exists>pre cbs. top_events (snd ?r) = top_events s @ pre @ map EvCallback cbs
       \<and> callbacks pre = []
       \<and> (fst ?r = Returned (- 1)
            \<and> filter is_observer_init pre = [] \<and> cbs = [ON_CONNECTION_FAILED]
          \<or> fst ?r = Returned (- 1) \<and> \<not> listing
            \<and> (\<exists>pd. filter is_observer_init pre = [EvObserverInit pd])
            \<and> cbs = [ON_DISCONNECTED, ON_CONNECTION_FAILED]
          \<or> fst ?r = Returned 0 \<and> listing \<and> pre = [] \<and> cbs = [ON_CONNECTED]
          \<or> fst ?r = Returned 0 \<and> \<not> listing
            \<and> (\<exists>pd. filter is_observer_init pre = [EvObserverInit pd])
            \<and> cbs = (if e_remote_exit env = EXIT_EARLY then [ON_DISCONNECTED, ON_CONNECTED]
                      else [ON_CONNECTED, ON_DISCONNECTED])
          \<or> fst ?r = Blocked \<and> \<not> listing
            \<and> (\<exists>pd. filter is_observer_init pre = [EvObserverInit pd])
            \<and> cbs = (case e_remote_exit env of
                        EXIT_EARLY \<Rightarrow> [ON_DISCONNECTED, ON_CONNECTED]
                      | EXIT_CONNECTED \<Rightarrow> [ON_CONNECTED, ON_DISCONNECTED]
                      | EXIT_ON_STOP \<Rightarrow> [ON_CONNECTED])))
     \<and> (device_socket_name (snd ?r) = device_socket_name s
        \<or> device_socket_name (snd ?r)
            = Some (SC_SOCKET_NAME_PREFIX @ fmt_08x (scid (params s))))"
  proof cases
    case failed
    show ?thesis
      unfolding failed(1)
      by (rule conjI, rule exI [of _ "[]"], rule exI [of _ "[ON_CONNECTION_FAILED]"])
         (simp_all add: error_connection_failed_simps failed(2,3) callbacks_def)
  next
    case list
    from run_server_list_events(1) [of env "snd c"] obtain cb where cb:
      "top_events (snd (run_server_list env (snd c))) = top_events (snd c) @ [EvCallback cb]"
      "cb = ON_CONNECTION_FAILED \<and> fst (run_server_list env (snd c)) = Returned (- 1)
       \<or> cb = ON_CONNECTED \<and> fst (run_server_list env (snd c)) = Returned 0"
      by blast
    show ?thesis
      unfolding list(1)
      by (rule conjI, rule exI [of _ "[]"], rule exI [of _ "[cb]"])
         (use cb list(2) in \<open>auto simp: top_c dn_c run_server_list_events(2) callbacks_def\<close>)
  next
    case mirror
    from run_server_mirror_events(1) [of env ser "snd c"] obtain pre cbs where cb:
      "top_events (snd (run_server_mirror env ser (snd c)))
         = top_events (snd c) @ pre @ map EvCallback cbs"
      "callbacks pre = []"
      "fst (run_server_mirror env ser (snd c)) = Returned (- 1)
            \<and> filter is_observer_init pre = [] \<and> cbs = [ON_CONNECTION_FAILED]
          \<or> fst (run_server_mirror env ser (snd c)) = Returned (- 1)
            \<and> (\<exists>pd. filter is_observer_init pre = [EvObserverInit pd])
            \<and> cbs = [ON_DISCONNECTED, ON_CONNECTION_FAILED]
          \<or> fst (run_server_mirror env ser (snd c)) = Returned 0
            \<and> (\<exists>pd. filter is_observer_init pre = [EvObserverInit pd])
            \<and> cbs = (if e_remote_exit env = EXIT_EARLY then [ON_DISCONNECTED, ON_CONNECTED]
                      else [ON_CONNECTED, ON_DISCONNECTED])
          \<or> fst (run_server_mirror env ser (snd c)) = Blocked
            \<and> (\<exists>pd. filter is_observer_init pre = [EvObserverInit pd])
            \<and> cbs = (case e_remote_exit env of
                        EXIT_EARLY \<Rightarrow> [ON_DISCONNECTED, ON_CONNECTED]
                      | EXIT_CONNECTED \<Rightarrow> [ON_CONNECTED, ON_DISCONNECTED]
                      | EXIT_ON_STOP \<Rightarrow> [ON_CONNECTED])"
      by blast
    have "\<exists>pre cbs. top_events (snd ?r) = top_events s @ pre @ map EvCallback cbs
       \<and> callbacks pre = []
       \<and> (fst ?r = Returned (- 1)
            \<and> filter is_observer_init pre = [] \<and> cbs = [ON_CONNECTION_FAILED]
          \<or> fst ?r = Returned (- 1) \<and> \<not> listing
            \<and> (\<exists>pd. filter is_observer_init pre = [EvObserverInit pd])
            \<and> cbs = [ON_DISCONNECTED, ON_CONNECTION_FAILED]
          \<or> fst ?r = Returned 0 \<and> listing \<and> pre = [] \<and> cbs = [ON_CONNECTED]
          \<or> fst ?r = Returned 0 \<and> \<not> listing
            \<and> (\<exists>pd. filter is_observer_init pre = [EvObserverInit pd])
            \<and> cbs = (if e_remote_exit env = EXIT_EARLY then [ON_DISCONNECTED, ON_CONNECTED]
                      else [ON_CONNECTED, ON_DISCONNECTED])
          \<or> fst ?r = Blocked \<and> \<not> listing
            \<and> (\<exists>pd. filter is_observer_init pre = [EvObserverInit pd])
            \<and> cbs = (case e_remote_exit env of
                        EXIT_EARLY \<Rightarrow> [ON_DISCONNECTED, ON_CONNECTED]
                      | EXIT_CONNECTED \<Rightarrow> [ON_CONNECTED, ON_DISCONNECTED]
                      | EXIT_ON_STOP \<Rightarrow> [ON_CONNECTED]))"
      unfolding mirror(1)
      by (rule exI [of _ pre], rule exI [of _ cbs]) (use cb mirror(2) in \<open>simp add: top_c\<close>)
    moreover have "device_socket_name (snd ?r) = device_socket_name s
        \<or> device_socket_name (snd ?r)
            = Some (SC_SOCKET_NAME_PREFIX @ fmt_08x (scid (params s)))"
      unfolding mirror(1) run_server_mirror_events(2) by (simp add: dn_c ps_c)
    ultimately show ?thesis by blast
  qed
  from both show "\<exists>pre cbs. top_events (snd ?r) = top_events s @ pre @ map EvCallback cbs
       \<and> callbacks pre = []
       \<and> (fst ?r = Returned (- 1)
            \<and> filter is_observer_init pre = [] \<and> cbs = [ON_CONNECTION_FAILED]
          \<or> fst ?r = Returned (- 1)
            \<and> \<not> (list_encoders (params s) \<or> list_displays (params s)
                    \<or> list_cameras (params s))
            \<and> (\<exists>pd. filter is_observer_init pre = [EvObserverInit pd])
            \<and> cbs = [ON_DISCONNECTED, ON_CONNECTION_FAILED]
          \<or> fst ?r = Returned 0
            \<and> (list_encoders (params s) \<or> list_displays (params s) \<or> list_cameras (params s))
            \<and> pre = [] \<and> cbs = [ON_CONNECTED]
          \<or> fst ?r = Returned 0
            \<and> \<not> (list_encoders (params s) \<or> list_displays (params s)
                    \<or> list_cameras (params s))
            \<and> (\<exists>pd. filter is_observer_init pre = [EvObserverInit pd])
            \<and> cbs = (if e_remote_exit env = EXIT_EARLY then [ON_DISCONNECTED, ON_CONNECTED]
                      else [ON_CONNECTED, ON_DISCONNECTED])
          \<or> fst ?r = Blocked
            \<and> \<not> (list_encoders (params s) \<or> list_displays (params s)
                    \<or> list_cameras (params s))
            \<and> (\<exists>pd. filter is_observer_init pre = [EvObserverInit pd])
            \<and> cbs = (case e_remote_exit env of
                        EXIT_EARLY \<Rightarrow> [ON_DISCONNECTED, ON_CONNECTED]
                      | EXIT_CONNECTED \<Rightarrow> [ON_CONNECTED, ON_DISCONNECTED]
                      | EXIT_ON_STOP \<Rightarrow> [ON_CONNECTED]))"
    unfolding listing_def by blast
  from both show "device_socket_name (snd ?r) = device_socket_name s
   \<or> device_socket_name (snd ?r) = Some (SC_SOCKET_NAME_PREFIX @ fmt_08x (scid (params s)))"
    by blast
qed

text \<open>
  The mirroring branch when the launch works up to the attaching of the observer: what
  follows depends on the connection phase, on the point where the remote process ends
  and on \<open>stop()\<close> only.
\<close>

lemma execute_server_spawns:
  assumes "\<forall>k. e_alloc env k"
  shows "fst (execute_server env p s) = e_execute env"
proof -
  obtain pid s' where ex: "execute_server env p s = (pid, s')"
    by (cases "execute_server env p s") auto
  from ex have "pid = e_execute env"
  proof (cases rule: execute_server_cases)
    case (spawned n)
    then show ?thesis by simp
  next
    case (oom n)
    with assms show ?thesis by simp
  qed
  with ex show ?thesis by simp
qed

lemma sc_adb_tunnel_open_result:
  assumes "e_tunnel_open env = Some (fwd, listener, lport)"
  shows "fst (sc_adb_tunnel_open env ser name ports force s)"
    and "tunnel (snd (sc_adb_tunnel_open env ser name ports force s))
           = \<lparr>enabled = True, forward = (fwd \<or> force),
              server_socket = (if fwd \<or> force then None else listener), local_port = lport\<rparr>"
  by (simp_all add: sc_adb_tunnel_open_def Let_def assms)

lemma run_server_mirror_attached:
  assumes "\<forall>k. e_alloc env k" and "e_tunnel_open env = Some (fwd, listener, lport)"
    and "e_execute env = Some pd" and "e_observer_init env"
  shows "\<exists>st. params st = params s
           \<and> forward (tunnel st) = (fwd \<or> force_adb_forward (params s))
           \<and> top_events (snd (run_server_mirror env ser s))
               = top_events s
                   @ [EvAdbTunnelOpen ser (SC_SOCKET_NAME_PREFIX @ fmt_08x (scid (params s))),
                      EvObserverInit pd]
                   @ map EvCallback
                       (if \<not> fst (sc_server_connect_to env st)
                        then [ON_DISCONNECTED, ON_CONNECTION_FAILED]
                        else if e_remote_exit env = EXIT_EARLY
                             then [ON_DISCONNECTED, ON_CONNECTED]
                             else if e_remote_exit env = EXIT_ON_STOP \<and> \<not> e_stop_requested env
                                  then [ON_CONNECTED]
                                  else [ON_CONNECTED, ON_DISCONNECTED])
           \<and> fst (run_server_mirror env ser s)
               = (if \<not> fst (sc_server_connect_to env st) then Returned (- 1)
                  else if e_stop_requested env then Returned 0 else Blocked)"
proof -
  define name where "name = SC_SOCKET_NAME_PREFIX @ fmt_08x (scid (params s))"
  define n where "n = strdup env name s"
  define t where "t = sc_adb_tunnel_open env ser name (port_range (params s))
                  (force_adb_forward (params s)) ((snd n)\<lparr>device_socket_name := Some name\<rparr>)"
  define x where "x = execute_server env (params s) (snd t)"
  define pd' where "pd' = the (fst x)"
  define ob where "ob = \<lparr>obs_pid = pd', obs_listener = sc_server_on_terminated\<rparr>"
  define oi where "oi = sc_process_observer_init env pd' sc_server_on_terminated (snd x)"
  define th where "th = sc_process_observer_thread env [EXIT_EARLY] ob (snd oi)"
  define cn where "cn = sc_server_connect_to env th"
  define fin where "fin = sc_process_observer_thread env [EXIT_CONNECTED, EXIT_ON_STOP] ob
                            (sc_process_wait pd' (sc_process_terminate pd' (snd cn)))"
  let ?r = "run_server_mirror env ser s"
  have listener: "obs_listener ob = sc_server_on_terminated" by (simp add: ob_def)
  have ok_n: "fst n \<noteq> None" using assms(1) by (simp add: n_def strdup_simps)
  have ok_t: "fst t" unfolding t_def by (rule sc_adb_tunnel_open_result(1) [OF assms(2)])
  have ok_x: "fst x = Some pd"
    unfolding x_def using execute_server_spawns [OF assms(1)] assms(3) by simp
  then have pd: "pd' = pd" by (simp add: pd'_def)
  have "?r =
     (if fst n = None then error_connection_failed env (snd n)
      else if \<not> fst t then error_connection_failed env (snd t)
      else if fst x = None then error_connection_failed env (sc_adb_tunnel_close env (snd x))
      else if \<not> e_observer_init env
           then error_connection_failed env
                  (sc_adb_tunnel_close env
                    (sc_process_wait pd' (sc_process_terminate pd' (snd oi))))
      else if \<not> fst cn
           then error_connection_failed env
                  (sc_process_observer_destroy (sc_process_observer_join fin))
      else wait_for_stop env pd' ob (emit (EvCallback ON_CONNECTED) (snd cn)))"
    unfolding n_def t_def x_def oi_def cn_def th_def fin_def name_def pd'_def ob_def
    by (rule run_server_mirror_unfold)
  with ok_n ok_t ok_x assms(4) have r: "?r =
     (if \<not> fst cn
      then error_connection_failed env (sc_process_observer_destroy (sc_process_observer_join fin))
      else wait_for_stop env pd' ob (emit (EvCallback ON_CONNECTED) (snd cn)))"
    by (simp del: not_None_eq)
  have ps_n: "params (snd n) = params s" by (simp add: n_def strdup_simps)
  have ps_t: "params (snd t) = params s"
    unfolding t_def by (simp add: sc_adb_tunnel_open_simps ps_n)
  have tn_t: "forward (tunnel (snd t)) = (fwd \<or> force_adb_forward (params s))"
    unfolding t_def by (simp add: sc_adb_tunnel_open_result(2) [OF assms(2)])
  have st_th: "struct_of th = struct_of (snd t)"
    unfolding th_def oi_def x_def
    by (simp add: sc_process_observer_thread_simps(2) [OF listener]
          sc_process_observer_init_simps struct_of_execute_server)
  have ps_th: "params th = params s" and tn_th: "forward (tunnel th) = (fwd \<or> force_adb_forward (params s))"
    using params_struct [OF st_th] tunnel_struct [OF st_th] ps_t tn_t by simp_all
  have top_n: "top_events (snd n) = top_events s"
    unfolding n_def by (rule top_events_strdup)
  have top_t: "top_events (snd t) = top_events s @ [EvAdbTunnelOpen ser name]"
    unfolding t_def by (simp add: sc_adb_tunnel_open_simps top_events_updates top_n)
  have top_oi: "top_events (snd oi)
                  = top_events s @ [EvAdbTunnelOpen ser name, EvObserverInit pd]"
    unfolding oi_def x_def
    by (simp add: sc_process_observer_init_simps top_events_execute_server top_t assms(4) pd)
  have top_th: "top_events th
                  = top_events (snd oi)
                      @ (if e_remote_exit env = EXIT_EARLY then [EvCallback ON_DISCONNECTED]
                         else [])"
    unfolding th_def by (simp add: sc_process_observer_thread_simps(1) [OF listener])
  have top_cn: "top_events (snd cn) = top_events th"
    unfolding cn_def by (rule top_events_sc_server_connect_to)
  have top_fin: "top_events fin
                   = top_events (snd cn)
                       @ (if e_remote_exit env = EXIT_EARLY then []
                          else [EvCallback ON_DISCONNECTED])"
    unfolding fin_def
    by (cases "e_remote_exit env")
       (simp_all add: sc_process_observer_thread_simps(1) [OF listener] top_events_prims)
  have "top_events (snd ?r)
               = top_events s @ [EvAdbTunnelOpen ser name, EvObserverInit pd]
                   @ map EvCallback
                       (if \<not> fst cn
                        then [ON_DISCONNECTED, ON_CONNECTION_FAILED]
                        else if e_remote_exit env = EXIT_EARLY
                             then [ON_DISCONNECTED, ON_CONNECTED]
                             else if e_remote_exit env = EXIT_ON_STOP \<and> \<not> e_stop_requested env
                                  then [ON_CONNECTED]
                                  else [ON_CONNECTED, ON_DISCONNECTED])"
    unfolding r
    by (cases "e_remote_exit env"; cases "e_stop_requested env"; cases "fst cn")
       (simp_all add: error_connection_failed_simps top_events_prims
          top_events_wait_for_stop [OF listener] top_events_emit top_fin top_cn top_th top_oi)
  moreover have "fst ?r = (if \<not> fst cn then Returned (- 1)
                            else if e_stop_requested env then Returned 0 else Blocked)"
    unfolding r by (simp add: error_connection_failed_simps wait_for_stop_fst)
  ultimately show ?thesis
    using ps_th tn_th unfolding cn_def name_def by blast
qed

text \<open>The connection phase over a reverse tunnel, when every accept works or none does.\<close>

lemma connect_reverse_ok:
  assumes "\<not> forward (tunnel st)" and "\<forall>k. e_net_accept env k"
    and "video (params st) \<or> audio (params st) \<or> control (params st)"
    and "\<forall>k. \<not> short_read env (Some k)"
  shows "fst (sc_server_connect_to env st)"
proof -
  obtain ok v a c s1 where est:
    "(if \<not> forward (tunnel st) then accept_sockets env st else connect_sockets env st)
       = (ok, v, a, c, s1)"
    by (rule establish_obtain)
  have "fst (accept_sockets env st)"
    using assms(2)
    by (simp add: accept_sockets_def Let_def case_prod_beta net_accept_intr_def)
  with est assms(1) have est': "(if \<not> forward (tunnel st) then accept_sockets env st
                                  else connect_sockets env st) = (True, v, a, c, s1)"
    by simp
  let ?fs = "if video (params st) then v else if audio (params st) then a else c"
  from establish_ok [OF est'] assms(3) have "?fs \<noteq> None"
    by (cases "video (params st)"; cases "audio (params st)"; cases "control (params st)")
       (simp_all del: not_None_eq)
  then obtain k where "?fs = Some k" by blast
  with assms(4) have "\<not> short_read env ?fs" by simp
  from sc_server_connect_to_connected(1) [OF est' this] show ?thesis by simp
qed

lemma connect_reverse_fails:
  assumes "\<not> forward (tunnel st)" and "video (params st)" and "\<forall>k. \<not> e_net_accept env k"
  shows "\<not> fst (sc_server_connect_to env st)"
proof -
  obtain ok v a c s1 where est:
    "(if \<not> forward (tunnel st) then accept_sockets env st else connect_sockets env st)
       = (ok, v, a, c, s1)"
    by (rule establish_obtain)
  have "\<not> fst (accept_sockets env st)"
    using assms(2,3)
    by (simp add: accept_sockets_def Let_def case_prod_beta net_accept_intr_def)
  with est assms(1) have "(if \<not> forward (tunnel st) then accept_sockets env st
                           else connect_sockets env st) = (False, v, a, c, s1)"
    by simp
  from sc_server_connect_to_setup_failed(1) [OF this] show ?thesis by simp
qed

text \<open>
  In the default environment, whatever the accepts give and wherever the remote process
  ends, the worker reaches the launch of the remote process.
\<close>

lemma select_default:
  assumes "\<not> tcpip (params s)"
  shows "fst (select_initial_serial
                (env_default\<lparr>e_remote_exit := x, e_net_accept := acc\<rparr>) s)"
proof -
  let ?env = "env_default\<lparr>e_remote_exit := x, e_net_accept := acc\<rparr>"
  from select_initial_serial_unfold [of ?env s] obtain selector where
    "select_initial_serial ?env s =
     (let d = sc_adb_select_device ?env selector s
      in case fst d of
           None \<Rightarrow> (False, snd d)
         | Some device_serial \<Rightarrow>
             if tcpip (params s)
             then sc_server_configure_tcpip_unknown_address ?env device_serial (snd d)
             else (True, (snd d)\<lparr>serial := Some device_serial\<rparr>))" ..
  with assms show ?thesis
    by (simp add: Let_def sc_adb_select_device_def env_default_def)
qed

lemma push_default:
  "fst (push_server (env_default\<lparr>e_remote_exit := x, e_net_accept := acc\<rparr>) ser s)"
  by (simp add: push_server_def get_server_path_def strdup_ptr_def asprintf_def Let_def
        sc_adb_push_def env_default_def)

lemma run_server_default:
  assumes "tcpip_dst (params s) = None" and "\<not> tcpip (params s)"
  shows "\<exists>ser s3. run_server (env_default\<lparr>e_remote_exit := x, e_net_accept := acc\<rparr>) s =
            (if list_encoders (params s) \<or> list_displays (params s) \<or> list_cameras (params s)
             then run_server_list (env_default\<lparr>e_remote_exit := x, e_net_accept := acc\<rparr>) s3
             else run_server_mirror (env_default\<lparr>e_remote_exit := x, e_net_accept := acc\<rparr>)
                    ser s3)
          \<and> params s3 = params s \<and> device_socket_name s3 = device_socket_name s
          \<and> top_events s3 = top_events s"
proof -
  define env where "env = env_default\<lparr>e_remote_exit := x, e_net_accept := acc\<rparr>"
  define a where "a = sc_adb_start_server env s"
  define b where "b = select_initial_serial env (snd a)"
  define ser where "ser = the (serial (snd b))"
  define c where "c = push_server env ser (snd b)"
  have ps_a: "params (snd a) = params s"
    and dn_a: "device_socket_name (snd a) = device_socket_name s"
    and top_a: "top_events (snd a) = top_events s"
    unfolding a_def
    by (simp_all add: device_socket_name_struct [OF struct_of_sc_adb_start_server]
          params_struct [OF struct_of_sc_adb_start_server] top_events_prims)
  have ps_b: "params (snd b) = params s"
    and dn_b: "device_socket_name (snd b) = device_socket_name s"
    and top_b: "top_events (snd b) = top_events s"
    unfolding b_def
    by (simp_all add: select_initial_serial_keeps top_events_select_initial_serial
          ps_a dn_a top_a)
  have ps_c: "params (snd c) = params s"
    and dn_c: "device_socket_name (snd c) = device_socket_name s"
    and top_c: "top_events (snd c) = top_events s"
    unfolding c_def
    by (simp_all add: device_socket_name_struct [OF struct_of_push_server]
          params_struct [OF struct_of_push_server] top_events_push_server ps_b dn_b top_b)
  have ok_a: "fst a" by (simp add: a_def sc_adb_start_server_def env_def env_default_def)
  have ok_b: "fst b" unfolding b_def env_def using assms(2) by (simp add: select_default ps_a)
  have ok_c: "fst c" unfolding c_def env_def by (rule push_default)
  have "run_server env s =
            (if list_encoders (params s) \<or> list_displays (params s) \<or> list_cameras (params s)
             then run_server_list env (snd c)
             else run_server_mirror env ser (snd c))"
    using ok_a ok_b ok_c unfolding a_def b_def ser_def c_def
    by (simp add: run_server_unfold [of env s] assms(1))
  with ps_c dn_c top_c show ?thesis unfolding env_def by blast
qed

lemma env_default_family:
  "env_default\<lparr>e_remote_exit := EXIT_ON_STOP, e_net_accept := (\<lambda>k. True)\<rparr> = env_default"
  "env_default\<lparr>e_remote_exit := EXIT_EARLY, e_net_accept := (\<lambda>k. False)\<rparr> = env_remote_exits"
  "env_default\<lparr>e_remote_exit := EXIT_EARLY, e_net_accept := (\<lambda>k. True)\<rparr> = env_early_exit"
  by (simp_all add: env_default_def env_remote_exits_def env_early_exit_def)

lemma run_server_list_default:
  "fst (run_server_list env_default s) = Returned 0"
proof -
  have "fst (execute_server env_default (params s) s) = Some 4242"
    using execute_server_spawns [of env_default "params s" s] by (simp add: env_default_def)
  then show ?thesis
    by (cases "execute_server env_default (params s) s")
       (simp add: run_server_list_def Let_def)
qed

text \<open>
  The mirroring branch in the default environment, with the remote process ending at
  \<open>x\<close> and the accepts all working or all failing.
\<close>

lemma run_server_mirror_default:
  fixes x acc
  assumes "video (params s)" and "\<not> force_adb_forward (params s)"
    and "(\<forall>k. acc k) \<or> (\<forall>k. \<not> acc k)"
  defines "env \<equiv> env_default\<lparr>e_remote_exit := x, e_net_accept := acc\<rparr>"
  shows "top_events (snd (run_server_mirror env ser s))
           = top_events s
               @ [EvAdbTunnelOpen ser (SC_SOCKET_NAME_PREFIX @ fmt_08x (scid (params s))),
                  EvObserverInit 4242]
               @ map EvCallback
                   (if \<not> acc 0 then [ON_DISCONNECTED, ON_CONNECTION_FAILED]
                    else if x = EXIT_EARLY then [ON_DISCONNECTED, ON_CONNECTED]
                    else [ON_CONNECTED, ON_DISCONNECTED])"
    and "fst (run_server_mirror env ser s) = (if \<not> acc 0 then Returned (- 1) else Returned 0)"
proof -
  have env: "\<forall>k. e_alloc env k" "e_tunnel_open env = Some (False, Some 1000, 27183)"
    "e_execute env = Some 4242" "e_observer_init env" "e_stop_requested env"
    "e_remote_exit env = x" "e_net_accept env = acc"
    "\<forall>k. \<not> short_read env (Some k)"
    by (simp_all add: env_def env_default_def short_read_def device_name_pixel_def
          SC_DEVICE_NAME_FIELD_LENGTH_def)
  from run_server_mirror_attached [OF env(1-4), of s ser] obtain st where st:
    "params st = params s" "forward (tunnel st) = (False \<or> force_adb_forward (params s))"
    "top_events (snd (run_server_mirror env ser s))
       = top_events s
           @ [EvAdbTunnelOpen ser (SC_SOCKET_NAME_PREFIX @ fmt_08x (scid (params s))),
              EvObserverInit 4242]
           @ map EvCallback
               (if \<not> fst (sc_server_connect_to env st)
                then [ON_DISCONNECTED, ON_CONNECTION_FAILED]
                else if e_remote_exit env = EXIT_EARLY
                     then [ON_DISCONNECTED, ON_CONNECTED]
                     else if e_remote_exit env = EXIT_ON_STOP \<and> \<not> e_stop_requested env
                          then [ON_CONNECTED]
                          else [ON_CONNECTED, ON_DISCONNECTED])"
    "fst (run_server_mirror env ser s)
       = (if \<not> fst (sc_server_connect_to env st) then Returned (- 1)
          else if e_stop_requested env then Returned 0 else Blocked)"
    by blast
  have rev: "\<not> forward (tunnel st)" and vid: "video (params st)"
    using st(1,2) assms(1,2) by simp_all
  have conn: "fst (sc_server_connect_to env st) = acc 0"
  proof (cases "acc 0")
    case True
    with assms(3) have "\<forall>k. e_net_accept env k" by (auto simp: env(7))
    from connect_reverse_ok [OF rev this _ env(8)] vid True show ?thesis by simp
  next
    case False
    with assms(3) have "\<forall>k. \<not> e_net_accept env k" by (auto simp: env(7))
    from connect_reverse_fails [OF rev vid this] False show ?thesis by simp
  qed
  show "top_events (snd (run_server_mirror env ser s))
           = top_events s
               @ [EvAdbTunnelOpen ser (SC_SOCKET_NAME_PREFIX @ fmt_08x (scid (params s))),
                  EvObserverInit 4242]
               @ map EvCallback
                   (if \<not> acc 0 then [ON_DISCONNECTED, ON_CONNECTION_FAILED]
                    else if x = EXIT_EARLY then [ON_DISCONNECTED, ON_CONNECTED]
                    else [ON_CONNECTED, ON_DISCONNECTED])"
    unfolding st(3) conn env(6) by (simp add: env(5))
  show "fst (run_server_mirror env ser s) = (if \<not> acc 0 then Returned (- 1) else Returned 0)"
    unfolding st(4) conn by (simp add: env(5))
qed
section \<open>Claims about \<open>execute_server\<close>\<close>

lemma execute_server_argv:
  assumes "\<forall>k. e_alloc env k"
  shows "filter is_execute (new_events s (snd (execute_server env p s))) =
           [EvAdbExecute (map cmd_arg_text (execute_server_cmd env s)
                            @ map Some (execute_server_params p (forward (tunnel s)))
                            @ [None])]"
proof -
  obtain pid s' where ex: "execute_server env p s = (pid, s')"
    by (cases "execute_server env p s") auto
  from ex show ?thesis
  proof (cases rule: execute_server_cases)
    case (spawned n)
    from spawned(5) show ?thesis
      unfolding ex snd_conv
      by (simp add: new_events_def filter_execute_allocs filter_execute_frees)
  next
    case (oom n)
    with assms show ?thesis by simp
  qed
qed

lemma projections_execute:
  "freed (EvAdbExecute argv # evs) = freed evs"
  "allocated (EvAdbExecute argv # evs) = allocated evs"
  "bad_frees (EvAdbExecute argv # evs) = bad_frees evs"
  by (simp_all add: freed_def allocated_def bad_frees_def)

text \<open>
  Claim C10. If the allocation of a formatted argument fails inside \<open>execute_server\<close>, the
  function returns \<open>SC_PROCESS_NONE\<close> and spawns no process; on every exit, with or
  without a failure, each argument string allocated so far is freed exactly once, and
  nothing else is freed.
\<close>

theorem execute_server_frees_its_allocations:
  "freed (new_events s (snd (execute_server env p s)))
     = allocated (new_events s (snd (execute_server env p s)))
   \<and> distinct (allocated (new_events s (snd (execute_server env p s))))
   \<and> bad_frees (new_events s (snd (execute_server env p s))) = []
   \<and> ((\<exists>k. n_alloc s \<le> k \<and> k < n_alloc (snd (execute_server env p s)) \<and> \<not> e_alloc env k)
        \<longrightarrow> fst (execute_server env p s) = None
          \<and> filter is_execute (new_events s (snd (execute_server env p s))) = [])"
proof -
  obtain pid s' where ex: "execute_server env p s = (pid, s')"
    by (cases "execute_server env p s") auto
  from ex show ?thesis
  proof (cases rule: execute_server_cases)
    case (spawned n)
    have ne: "new_events s s' = map EvAlloc [n_alloc s ..< n_alloc s + n]
         @ [EvAdbExecute (map cmd_arg_text (execute_server_cmd env s)
              @ map Some (execute_server_params p (forward (tunnel s))) @ [None])]
         @ map EvFree [n_alloc s ..< n_alloc s + n]"
      using spawned(5) by (simp add: new_events_def)
    have "\<not> (\<exists>k. n_alloc s \<le> k \<and> k < n_alloc s' \<and> \<not> e_alloc env k)"
      using spawned(2,3) by auto
    then show ?thesis
      unfolding ex fst_conv snd_conv ne
      by (simp add: freed_append freed_allocs freed_frees allocated_append allocated_allocs
            allocated_frees bad_frees_append bad_frees_allocs bad_frees_frees
            projections_execute)
  next
    case (oom n)
    have ne: "new_events s s' = map EvAlloc [n_alloc s ..< n_alloc s + n]
         @ map EvFree [n_alloc s ..< n_alloc s + n]"
      using oom(6) by (simp add: new_events_def)
    show ?thesis
      unfolding ex fst_conv snd_conv ne
      using oom(5)
      by (simp add: freed_append freed_allocs freed_frees allocated_append allocated_allocs
            allocated_frees bad_frees_append bad_frees_allocs bad_frees_frees
            filter_execute_allocs filter_execute_frees)
  qed
qed

lemma asprintf_oom_evaluated:
  "execute_server env_oom params_default s_init =
     (None, s_init\<lparr>trace := [EvAlloc 0, EvFree 0], n_alloc := 2\<rparr>)"
  by (simp add: execute_server_def execute_server_params_def execute_server_cmd_def
        params_default_def env_oom_def env_default_def s_init_def sc_server_init_def
        sc_adb_tunnel_init_def asprintf_def emit_def free_args_def Let_def
        add_param_if_def add_param_str_def)

theorem execute_server_frees_its_allocations_witness:
  "(\<exists>k. n_alloc s_init \<le> k
        \<and> k < n_alloc (snd (execute_server env_oom params_default s_init))
        \<and> \<not> e_alloc env_oom k)
   \<and> fst (execute_server env_oom params_default s_init) = None
   \<and> filter is_execute
        (new_events s_init (snd (execute_server env_oom params_default s_init))) = []
   \<and> freed (new_events s_init (snd (execute_server env_oom params_default s_init))) = [0]
   \<and> allocated (new_events s_init (snd (execute_server env_oom params_default s_init))) = [0]"
proof -
  have h: "\<exists>k. n_alloc s_init \<le> k
        \<and> k < n_alloc (snd (execute_server env_oom params_default s_init))
        \<and> \<not> e_alloc env_oom k"
    by (rule exI [of _ 1])
       (simp add: asprintf_oom_evaluated, simp add: s_init_def sc_server_init_def env_oom_def)
  have a: "allocated (new_events s_init (snd (execute_server env_oom params_default s_init)))
             = [0]"
    by (simp add: asprintf_oom_evaluated new_events_def allocated_def)
       (simp add: s_init_def sc_server_init_def)
  from execute_server_frees_its_allocations [of s_init env_oom params_default] h a
  show ?thesis by simp
qed

text \<open>
  Claim C3. The key=value arguments that \<open>execute_server\<close> builds always hold \<open>scid=\<close>
  and \<open>log_level=\<close>; \<open>video\<close>, \<open>audio\<close>, \<open>control\<close>, \<open>clipboard_autosync\<close>,
  \<open>downsize_on_error\<close>, \<open>cleanup\<close> and \<open>power_on\<close> appear only as \<open>key=false\<close> and only
  when the flag is disabled; \<open>video_codec=\<close> appears only for a codec other than h264 and
  \<open>audio_codec=\<close> only for one other than opus; the bit rates, \<open>max_size=\<close> and \<open>max_fps=\<close>
  appear only when non-zero; no argument is a key with its documented server-side
  default. When no allocation fails, these arguments, after the fixed head of the command
  and before the terminating \<open>NULL\<close>, are what is passed to \<open>sc_adb_execute\<close>.
\<close>

theorem execute_server_emits_only_non_defaults:
  "args_of_key ''scid'' (execute_server_params p fwd) = [''scid='' @ fmt_08x (scid p)]
   \<and> args_of_key ''log_level'' (execute_server_params p fwd)
       = [''log_level='' @ log_level_to_server_string (log_level p)]
   \<and> args_of_key ''video'' (execute_server_params p fwd)
       = (if video p then [] else [''video=false''])
   \<and> args_of_key ''audio'' (execute_server_params p fwd)
       = (if audio p then [] else [''audio=false''])
   \<and> args_of_key ''control'' (execute_server_params p fwd)
       = (if control p then [] else [''control=false''])
   \<and> args_of_key ''clipboard_autosync'' (execute_server_params p fwd)
       = (if clipboard_autosync p then [] else [''clipboard_autosync=false''])
   \<and> args_of_key ''downsize_on_error'' (execute_server_params p fwd)
       = (if downsize_on_error p then [] else [''downsize_on_error=false''])
   \<and> args_of_key ''cleanup'' (execute_server_params p fwd)
       = (if cleanup p then [] else [''cleanup=false''])
   \<and> args_of_key ''power_on'' (execute_server_params p fwd)
       = (if power_on p then [] else [''power_on=false''])
   \<and> args_of_key ''video_codec'' (execute_server_params p fwd)
       = (if video_codec p = SC_CODEC_H264 then []
          else [''video_codec='' @ sc_server_get_codec_name (video_codec p)])
   \<and> args_of_key ''audio_codec'' (execute_server_params p fwd)
       = (if audio_codec p = SC_CODEC_OPUS then []
          else [''audio_codec='' @ sc_server_get_codec_name (audio_codec p)])
   \<and> args_of_key ''video_bit_rate'' (execute_server_params p fwd)
       = (if video_bit_rate p = 0 then []
          else [''video_bit_rate='' @ fmt_u32 (video_bit_rate p)])
   \<and> args_of_key ''audio_bit_rate'' (execute_server_params p fwd)
       = (if audio_bit_rate p = 0 then []
          else [''audio_bit_rate='' @ fmt_u32 (audio_bit_rate p)])
   \<and> args_of_key ''max_size'' (execute_server_params p fwd)
       = (if max_size p = 0 then [] else [''max_size='' @ fmt_u16 (max_size p)])
   \<and> args_of_key ''max_fps'' (execute_server_params p fwd)
       = (if max_fps p = 0 then [] else [''max_fps='' @ fmt_u16 (max_fps p)])
   \<and> (\<forall>a\<in>set documented_defaults. a \<notin> set (execute_server_params p fwd))
   \<and> ((\<forall>k. e_alloc env k) \<and> fwd = forward (tunnel s) \<longrightarrow>
        filter is_execute (new_events s (snd (execute_server env p s))) =
          [EvAdbExecute (map cmd_arg_text (execute_server_cmd env s)
                           @ map Some (execute_server_params p fwd) @ [None])])"
  by (simp add: key_scid key_log_level key_video key_audio key_control key_clipboard_autosync
        key_downsize_on_error key_cleanup key_power_on key_video_codec key_audio_codec
        key_video_bit_rate key_audio_bit_rate key_max_size key_max_fps add_param_if_def
        no_documented_default execute_server_argv)

lemma execute_server_params_custom:
  "execute_server_params params_custom False =
     [''scid=0a1b2c3d'', ''log_level=info'', ''audio=false'', ''video_codec=h265'',
      ''max_size=1024'']"
  by (simp add: execute_server_params_def params_custom_def params_default_def
        add_param_if_def add_param_str_def fmt_08x_scenario fmt_u16_def fmt_radix.simps
        digit_char_def SC_LOCK_VIDEO_ORIENTATION_UNLOCKED_def)

theorem execute_server_emits_only_non_defaults_witness:
  "(\<forall>k. e_alloc env_default k) \<and> False = forward (tunnel s_init)
   \<and> set documented_defaults \<inter> set (execute_server_params params_custom False) = {}
   \<and> args_of_key ''audio'' (execute_server_params params_custom False) = [''audio=false'']
   \<and> args_of_key ''video'' (execute_server_params params_custom False) = []
   \<and> filter is_execute (new_events s_init (snd (execute_server env_default params_custom s_init)))
       = [EvAdbExecute
           [Some ''adb'', Some ''-s'', None, Some ''shell'',
            Some ''CLASSPATH=/data/local/tmp/scrcpy-server.jar'', Some ''app_process'',
            Some ''/'', Some ''com.genymobile.scrcpy.Server'', Some ''2.1'',
            Some ''scid=0a1b2c3d'', Some ''log_level=info'', Some ''audio=false'',
            Some ''video_codec=h265'', Some ''max_size=1024'', None]]"
proof -
  have h: "(\<forall>k. e_alloc env_default k) \<and> False = forward (tunnel s_init)"
    by (simp add: env_default_def s_init_def sc_server_init_def sc_adb_tunnel_init_def)
  have c: "map cmd_arg_text (execute_server_cmd env_default s_init) =
             [Some ''adb'', Some ''-s'', None, Some ''shell'',
              Some ''CLASSPATH=/data/local/tmp/scrcpy-server.jar'', Some ''app_process'',
              Some ''/'', Some ''com.genymobile.scrcpy.Server'', Some ''2.1'']"
    by (simp add: execute_server_cmd_def env_default_def s_init_def sc_server_init_def
          SC_DEVICE_SERVER_PATH_def)
  have f: "\<not> audio params_custom" "video params_custom"
    by (simp_all add: params_custom_def params_default_def)
  note t = execute_server_emits_only_non_defaults [of params_custom False env_default s_init]
  from t have "\<forall>a\<in>set documented_defaults. a \<notin> set (execute_server_params params_custom False)"
    by (elim conjE) assumption
  then have t1: "set documented_defaults \<inter> set (execute_server_params params_custom False) = {}"
    by blast
  from t have "args_of_key ''audio'' (execute_server_params params_custom False)
       = (if audio params_custom then [] else [''audio=false''])"
    by (elim conjE) assumption
  with f have t2: "args_of_key ''audio'' (execute_server_params params_custom False)
       = [''audio=false'']" by simp
  from t have "args_of_key ''video'' (execute_server_params params_custom False)
       = (if video params_custom then [] else [''video=false''])"
    by (elim conjE) assumption
  with f have t3: "args_of_key ''video'' (execute_server_params params_custom False) = []"
    by simp
  from t have "(\<forall>k. e_alloc env_default k) \<and> False = forward (tunnel s_init) \<longrightarrow>
        filter is_execute (new_events s_init (snd (execute_server env_default params_custom s_init))) =
          [EvAdbExecute (map cmd_arg_text (execute_server_cmd env_default s_init)
                           @ map Some (execute_server_params params_custom False) @ [None])]"
    by (elim conjE) assumption
  with h have t4: "filter is_execute
        (new_events s_init (snd (execute_server env_default params_custom s_init))) =
          [EvAdbExecute (map cmd_arg_text (execute_server_cmd env_default s_init)
                           @ map Some (execute_server_params params_custom False) @ [None])]"
    by blast
  have t5: "map cmd_arg_text (execute_server_cmd env_default s_init)
              @ map Some (execute_server_params params_custom False) @ [None] =
           [Some ''adb'', Some ''-s'', None, Some ''shell'',
            Some ''CLASSPATH=/data/local/tmp/scrcpy-server.jar'', Some ''app_process'',
            Some ''/'', Some ''com.genymobile.scrcpy.Server'', Some ''2.1'',
            Some ''scid=0a1b2c3d'', Some ''log_level=info'', Some ''audio=false'',
            Some ''video_codec=h265'', Some ''max_size=1024'', None]"
    unfolding c execute_server_params_custom by simp
  from h t1 t2 t3 t4 [unfolded t5] show ?thesis by (intro conjI) blast+
qed

section \<open>Claims about the TCP/IP switch\<close>


lemma parse_decimal_5556: "parse_decimal ''5556'' = Some 5556"
  by (simp add: parse_decimal_def)


lemma port_5556_read: "fst (get_adb_tcp_port env_5556 ser s) = 5556"
  by (simp add: get_adb_tcp_port_fst env_5556_def env_default_def parse_decimal_5556)

text \<open>
  Claim C2, as amended. In \<open>sc_server_switch_to_tcpip\<close>, once the device IP is known,
  the request to enable TCP/IP mode is skipped exactly when \<open>get_adb_tcp_port\<close> reads a
  non-zero port from \<open>service.adb.tcp.port\<close>, whichever port that is; every successful
  result is the IP joined with that port, or with 5555 when the request was made.
\<close>

theorem switch_to_tcpip_skips_on_any_port:
  "e_get_device_ip env = Some ip \<Longrightarrow>
     filter is_tcpip_request (trace (snd (sc_server_switch_to_tcpip env ser s)))
       = filter is_tcpip_request (trace s)
         @ (if fst (get_adb_tcp_port env ser s) = 0
            then [EvAdbTcpip ser SC_ADB_PORT_DEFAULT [SC_ADB_NO_STDOUT]] else [])
   \<and> (\<forall>x. fst (sc_server_switch_to_tcpip env ser s) = Some x \<longrightarrow>
         x = ip @ '':'' @ fmt_u16 (if fst (get_adb_tcp_port env ser s) = 0
                                   then SC_ADB_PORT_DEFAULT
                                   else fst (get_adb_tcp_port env ser s)))"
proof -
  assume ip: "e_get_device_ip env = Some ip"
  show ?thesis
  proof (intro conjI allI impI)
    show "filter is_tcpip_request (trace (snd (sc_server_switch_to_tcpip env ser s)))
       = filter is_tcpip_request (trace s)
         @ (if fst (get_adb_tcp_port env ser s) = 0
            then [EvAdbTcpip ser SC_ADB_PORT_DEFAULT [SC_ADB_NO_STDOUT]] else [])"
      by (rule switch_to_tcpip_requests [OF ip])
  next
    fix x assume "fst (sc_server_switch_to_tcpip env ser s) = Some x"
    then show "x = ip @ '':'' @ fmt_u16 (if fst (get_adb_tcp_port env ser s) = 0
                                   then SC_ADB_PORT_DEFAULT
                                   else fst (get_adb_tcp_port env ser s))"
      by (rule switch_to_tcpip_result [OF ip])
  qed
qed

lemma switch_5556_result:
  "fst (sc_server_switch_to_tcpip env_5556 ''A1B2C3'' s_init) = Some ''192.168.1.7:5556''"
proof -
  define s1 where "s1 = emit (EvAdbGetDeviceIp ''A1B2C3'') s_init"
  have ip: "e_get_device_ip env_5556 = Some ''192.168.1.7''"
    by (simp add: env_5556_def env_default_def)
  have al: "\<forall>k. e_alloc env_5556 k" by (simp add: env_5556_def env_default_def)
  show ?thesis
    using ip
    by (simp add: sc_server_switch_to_tcpip_def sc_adb_get_device_ip_def Let_def
          case_prod_beta port_5556_read append_port_all_ok [OF al] fmt_u16_5556)
qed

theorem switch_to_tcpip_skips_on_any_port_witness:
  "e_get_device_ip env_5556 = Some ''192.168.1.7''
   \<and> filter is_tcpip_request
        (trace (snd (sc_server_switch_to_tcpip env_5556 ''A1B2C3'' s_init))) = []
   \<and> fst (sc_server_switch_to_tcpip env_5556 ''A1B2C3'' s_init) = Some ''192.168.1.7:5556''"
proof -
  have ip: "e_get_device_ip env_5556 = Some ''192.168.1.7''"
    by (simp add: env_5556_def env_default_def)
  have tr: "trace s_init = []" by (simp add: s_init_def sc_server_init_def)
  from switch_to_tcpip_skips_on_any_port [OF ip, of "''A1B2C3''" s_init]
  show ?thesis
    by (simp add: ip port_5556_read tr switch_5556_result)
qed

text \<open>
  Claim C2 as stated fails: with the property at 5556 the request is skipped although
  the property is not 5555, and the switch succeeds with a serial that is not IP:5555.
\<close>

theorem switch_to_tcpip_port_5556_counterexample:
  "e_getprop env_5556 (n_getprop s_init) = Some ''5556''
   \<and> e_get_device_ip env_5556 = Some ''192.168.1.7''
   \<and> filter is_tcpip_request
        (trace (snd (sc_server_switch_to_tcpip env_5556 ''A1B2C3'' s_init))) = []
   \<and> fst (sc_server_switch_to_tcpip env_5556 ''A1B2C3'' s_init) = Some ''192.168.1.7:5556''
   \<and> ''192.168.1.7:5556'' \<noteq> ''192.168.1.7'' @ '':5555''"
proof -
  have ip: "e_get_device_ip env_5556 = Some ''192.168.1.7''"
    by (simp add: env_5556_def env_default_def)
  have tr: "trace s_init = []" by (simp add: s_init_def sc_server_init_def)
  have "filter is_tcpip_request
        (trace (snd (sc_server_switch_to_tcpip env_5556 ''A1B2C3'' s_init))) = []"
    by (simp add: switch_to_tcpip_requests [OF ip] port_5556_read tr)
  then show ?thesis
    by (simp add: ip switch_5556_result) (simp add: env_5556_def env_default_def)
qed



lemma known_address_behaviour:
  assumes "fst (sc_server_configure_tcpip_known_address env addr s)"
  shows "serial (snd (sc_server_configure_tcpip_known_address env addr s))
           = Some (if CHR '':'' \<in> set addr then addr else addr @ '':5555'')"
    and "trace (snd (sc_server_configure_tcpip_known_address env addr s))
           = trace s
             @ [EvAlloc (n_alloc s),
                EvAdbDisconnect (if CHR '':'' \<in> set addr then addr else addr @ '':5555'')
                  [SC_ADB_SILENT],
                EvAdbConnect (if CHR '':'' \<in> set addr then addr else addr @ '':5555'') []]"
  using assms
  by (simp_all add: sc_server_configure_tcpip_known_address_def Let_def case_prod_beta
        append_port_def strdup_def asprintf_def sc_server_connect_to_tcpip_def
        sc_adb_disconnect_def sc_adb_connect_def emit_def SC_ADB_PORT_DEFAULT_def fmt_u16_5555
        split: if_splits option.splits)

text \<open>
  Claim C8. With \<open>tcpip_dst\<close> given, the address is kept as it is when it holds a
  \<open>:\<close> and gets \<open>:5555\<close> appended otherwise; for that normalised address the bridge is
  asked to disconnect, silently, and then to connect; when the function succeeds the
  controller's serial is the normalised address.
\<close>

theorem known_address_is_normalised:
  "fst (sc_server_configure_tcpip_known_address env addr s) \<Longrightarrow>
     serial (snd (sc_server_configure_tcpip_known_address env addr s))
       = Some (if CHR '':'' \<in> set addr then addr else addr @ '':5555'')
   \<and> new_events s (snd (sc_server_configure_tcpip_known_address env addr s))
       = [EvAlloc (n_alloc s),
          EvAdbDisconnect (if CHR '':'' \<in> set addr then addr else addr @ '':5555'')
            [SC_ADB_SILENT],
          EvAdbConnect (if CHR '':'' \<in> set addr then addr else addr @ '':5555'') []]"
  by (simp add: known_address_behaviour new_events_def)

lemma known_address_default_ok:
  "fst (sc_server_configure_tcpip_known_address env_default ''10.0.0.5'' s_init)"
  by (simp add: sc_server_configure_tcpip_known_address_def Let_def case_prod_beta
        append_port_def strdup_def asprintf_def sc_server_connect_to_tcpip_def
        sc_adb_disconnect_def sc_adb_connect_def env_default_def)

theorem known_address_is_normalised_witness:
  "fst (sc_server_configure_tcpip_known_address env_default ''10.0.0.5'' s_init)
   \<and> serial (snd (sc_server_configure_tcpip_known_address env_default ''10.0.0.5'' s_init))
       = Some ''10.0.0.5:5555''
   \<and> new_events s_init
        (snd (sc_server_configure_tcpip_known_address env_default ''10.0.0.5'' s_init))
       = [EvAlloc 0, EvAdbDisconnect ''10.0.0.5:5555'' [SC_ADB_SILENT],
          EvAdbConnect ''10.0.0.5:5555'' []]"
proof -
  have n: "n_alloc s_init = 0" by (simp add: s_init_def sc_server_init_def)
  from known_address_is_normalised [OF known_address_default_ok] known_address_default_ok
  show ?thesis by (simp add: n)
qed
section \<open>The connection phase\<close>



text \<open>
  C5: once every enabled stream has its socket, the device name is read, as
  \<open>SC_DEVICE_NAME_FIELD_LENGTH\<close> bytes, from the video socket if video is enabled, else
  from the audio socket if audio is enabled, else from the control socket; that socket
  exists and is the first of the stored ones, and it is the only such read. If fewer
  bytes arrive, the function fails, every socket it opened is closed (the stream
  sockets after the read), and the tunnel is closed and left disabled. If they all
  arrive, the function succeeds and stores the bytes it got with the last one replaced
  by NUL.
\<close>

theorem device_name_read_after_establishment:
  assumes "(if \<not> forward (tunnel s) then accept_sockets env s else connect_sockets env s)
             = (True, v, a, c, s1)"
    and "video (params s) \<or> audio (params s) \<or> control (params s)"
  shows "\<exists>sock k.
           sock = (if video (params s) then v else if audio (params s) then a else c)
         \<and> sock = Some k
         \<and> hd (option_list v @ option_list a @ option_list c) = k
         \<and> filter is_recv_all (new_events s (snd (sc_server_connect_to env s)))
             = [EvNetRecvAll sock SC_DEVICE_NAME_FIELD_LENGTH]
         \<and> (short_read env sock \<longrightarrow>
               \<not> fst (sc_server_connect_to env s)
             \<and> set (opened (new_events s (snd (sc_server_connect_to env s))))
                 \<subseteq> set (closed (new_events s (snd (sc_server_connect_to env s))))
             \<and> new_events s1 (snd (sc_server_connect_to env s))
                 = [EvAdbTunnelClose, EvNetRecvAll sock SC_DEVICE_NAME_FIELD_LENGTH]
                     @ map EvNetClose (option_list v @ option_list a @ option_list c)
             \<and> \<not> enabled (tunnel (snd (sc_server_connect_to env s))))
         \<and> (\<not> short_read env sock \<longrightarrow>
               fst (sc_server_connect_to env s)
             \<and> (\<exists>bytes. e_net_recv_all env k = Some bytes
                   \<and> device_name (snd (sc_server_connect_to env s))
                       = (take SC_DEVICE_NAME_FIELD_LENGTH bytes)
                           [SC_DEVICE_NAME_FIELD_LENGTH - 1 := 0])
             \<and> length (device_name (snd (sc_server_connect_to env s)))
                 = SC_DEVICE_NAME_FIELD_LENGTH
             \<and> last (device_name (snd (sc_server_connect_to env s))) = 0)"
proof -
  let ?r = "sc_server_connect_to env s"
  let ?fs = "if video (params s) then v else if audio (params s) then a else c"
  let ?closes = "map EvNetClose (option_list v @ option_list a @ option_list c)"
  note est = assms(1)
  from establish_ok [OF est] assms(2) have "?fs \<noteq> None"
    by (cases "video (params s)"; cases "audio (params s)"; cases "control (params s)")
       (simp_all del: not_None_eq)
  then obtain k where k: "?fs = Some k" by blast
  from establish_ok [OF est] establish_disabled [OF est] assms(2) k
  have first: "hd (option_list v @ option_list a @ option_list c) = k"
    by (cases "video (params s)"; cases "audio (params s)"; cases "control (params s)")
       auto
  from establish_events [OF est] assms(2) obtain evs where evs:
    "trace s1 = trace s @ evs"
    "set (opened evs)
       \<subseteq> set (closed evs) \<union> set (option_list v @ option_list a @ option_list c)"
    "filter is_recv_all evs = []"
    by blast
  have reads: "filter is_recv_all (new_events s (snd ?r))
                 = [EvNetRecvAll ?fs SC_DEVICE_NAME_FIELD_LENGTH]"
  proof (cases "short_read env ?fs")
    case True
    have "trace (snd ?r)
            = trace s @ (evs @ [EvAdbTunnelClose, EvNetRecvAll ?fs SC_DEVICE_NAME_FIELD_LENGTH]
                @ ?closes)"
      using sc_server_connect_to_read_failed(2) [OF est True] evs(1) by simp
    then have "new_events s (snd ?r)
                 = evs @ [EvAdbTunnelClose, EvNetRecvAll ?fs SC_DEVICE_NAME_FIELD_LENGTH]
                     @ ?closes"
      by (rule new_events_append)
    then show ?thesis using evs(3) by (simp add: filter_closes del: map_append)
  next
    case False
    have "trace (snd ?r)
            = trace s @ (evs @ [EvAdbTunnelClose, EvNetRecvAll ?fs SC_DEVICE_NAME_FIELD_LENGTH])"
      using sc_server_connect_to_connected(2) [OF est False] evs(1) by simp
    then have "new_events s (snd ?r)
                 = evs @ [EvAdbTunnelClose, EvNetRecvAll ?fs SC_DEVICE_NAME_FIELD_LENGTH]"
      by (rule new_events_append)
    then show ?thesis using evs(3) by simp
  qed
  have short: "\<not> fst ?r
             \<and> set (opened (new_events s (snd ?r))) \<subseteq> set (closed (new_events s (snd ?r)))
             \<and> new_events s1 (snd ?r)
                 = [EvAdbTunnelClose, EvNetRecvAll ?fs SC_DEVICE_NAME_FIELD_LENGTH] @ ?closes
             \<and> \<not> enabled (tunnel (snd ?r))"
    if sr: "short_read env ?fs"
  proof (intro conjI)
    note rf = sc_server_connect_to_read_failed [OF est sr]
    show "\<not> fst ?r" using rf(1) by simp
    show "new_events s1 (snd ?r)
            = [EvAdbTunnelClose, EvNetRecvAll ?fs SC_DEVICE_NAME_FIELD_LENGTH] @ ?closes"
      using rf(2) by (rule new_events_append)
    show "\<not> enabled (tunnel (snd ?r))" by (simp add: sc_server_connect_to_keeps)
    have "trace (snd ?r)
            = trace s @ (evs @ [EvAdbTunnelClose, EvNetRecvAll ?fs SC_DEVICE_NAME_FIELD_LENGTH]
                @ ?closes)"
      using rf(2) evs(1) by simp
    then have new: "new_events s (snd ?r)
                 = evs @ [EvAdbTunnelClose, EvNetRecvAll ?fs SC_DEVICE_NAME_FIELD_LENGTH]
                     @ ?closes"
      by (rule new_events_append)
    have "opened (new_events s (snd ?r)) = opened evs"
      and "closed (new_events s (snd ?r))
             = closed evs @ option_list v @ option_list a @ option_list c"
      unfolding new by (simp_all add: socket_lists opened_closes closed_closes del: map_append)
    with evs(2) show "set (opened (new_events s (snd ?r)))
                        \<subseteq> set (closed (new_events s (snd ?r)))"
      by simp
  qed
  have full: "fst ?r
             \<and> (\<exists>bytes. e_net_recv_all env k = Some bytes
                   \<and> device_name (snd ?r)
                       = (take SC_DEVICE_NAME_FIELD_LENGTH bytes)
                           [SC_DEVICE_NAME_FIELD_LENGTH - 1 := 0])
             \<and> length (device_name (snd ?r)) = SC_DEVICE_NAME_FIELD_LENGTH
             \<and> last (device_name (snd ?r)) = 0"
    if nsr: "\<not> short_read env ?fs"
  proof -
    note conn = sc_server_connect_to_connected [OF est nsr]
    have "fst (device_read_info env ?fs (sc_adb_tunnel_close env s1))"
      using nsr by (simp add: device_read_info_simps)
    from device_read_info_name [OF this] k obtain bytes where bytes:
      "e_net_recv_all env k = Some bytes"
      "device_name (snd ?r)
         = (take SC_DEVICE_NAME_FIELD_LENGTH bytes)[SC_DEVICE_NAME_FIELD_LENGTH - 1 := 0]"
      "SC_DEVICE_NAME_FIELD_LENGTH \<le> length bytes"
      unfolding conn(6) by auto
    have len: "length (device_name (snd ?r)) = SC_DEVICE_NAME_FIELD_LENGTH"
      using bytes(2,3) by simp
    have "device_name (snd ?r) \<noteq> []"
      using len by (auto simp: SC_DEVICE_NAME_FIELD_LENGTH_def)
    then have "last (device_name (snd ?r))
                 = device_name (snd ?r) ! (length (device_name (snd ?r)) - 1)"
      by (rule last_conv_nth)
    also have "\<dots> = 0"
      unfolding len using bytes(2,3) by (simp add: SC_DEVICE_NAME_FIELD_LENGTH_def)
    finally have "last (device_name (snd ?r)) = 0" .
    with conn(1) bytes(1,2) len show ?thesis by blast
  qed
  show ?thesis
    by (rule exI [of _ ?fs], rule exI [of _ k]) (use k first reads short full in blast)
qed

lemma accept_truncated:
  "(if \<not> forward (tunnel s_reverse) then accept_sockets env_truncated s_reverse
    else connect_sockets env_truncated s_reverse)
     = (True, Some 0, Some 1, Some 2,
        snd (snd (snd (snd (accept_sockets env_truncated s_reverse)))))"
  by (simp add: prod_eq_iff s_reverse_def s_init_def sc_server_init_def params_default_def
        accept_sockets_def net_accept_intr_def Let_def emit_def env_truncated_def
        env_default_def)

lemma short_read_truncated: "short_read env_truncated (Some 0)"
  by (simp add: short_read_def env_truncated_def device_name_pixel_def
        SC_DEVICE_NAME_FIELD_LENGTH_def)

theorem device_name_read_after_establishment_witness:
  "(video (params s_reverse) \<or> audio (params s_reverse) \<or> control (params s_reverse))
   \<and> short_read env_truncated (Some 0)
   \<and> filter is_recv_all (new_events s_reverse (snd (sc_server_connect_to env_truncated s_reverse)))
       = [EvNetRecvAll (Some 0) SC_DEVICE_NAME_FIELD_LENGTH]
   \<and> \<not> fst (sc_server_connect_to env_truncated s_reverse)
   \<and> set (opened (new_events s_reverse (snd (sc_server_connect_to env_truncated s_reverse))))
       \<subseteq> set (closed (new_events s_reverse (snd (sc_server_connect_to env_truncated s_reverse))))
   \<and> \<not> enabled (tunnel (snd (sc_server_connect_to env_truncated s_reverse)))"
proof -
  have streams: "video (params s_reverse)"
    by (simp add: s_reverse_def s_init_def sc_server_init_def params_default_def)
  then have some: "video (params s_reverse) \<or> audio (params s_reverse)
                     \<or> control (params s_reverse)"
    by simp
  from device_name_read_after_establishment [OF accept_truncated some] streams
    short_read_truncated some
  show ?thesis by auto
qed

text \<open>
  C7: \<open>sc_server_connect_to\<close> always returns with the tunnel disabled. Entered with the
  tunnel enabled, as the source asserts, it closes the tunnel exactly once, and never
  after a read of the device name; when it succeeds, the close comes right after the
  events that opened every stored socket, each enabled stream has its socket, and the
  only event after the close is the read of the device name.
\<close>

theorem connect_to_leaves_tunnel_closed:
  "\<not> enabled (tunnel (snd (sc_server_connect_to env s)))
   \<and> (enabled (tunnel s) \<longrightarrow>
        (\<exists>before after.
            new_events s (snd (sc_server_connect_to env s)) = before @ EvAdbTunnelClose # after
          \<and> filter is_tunnel_close before = [] \<and> filter is_tunnel_close after = []
          \<and> filter is_recv_all before = []
          \<and> (fst (sc_server_connect_to env s) \<longrightarrow>
                (\<exists>sock. after = [EvNetRecvAll sock SC_DEVICE_NAME_FIELD_LENGTH])
              \<and> set (option_list (video_socket (snd (sc_server_connect_to env s)))
                       @ option_list (audio_socket (snd (sc_server_connect_to env s)))
                       @ option_list (control_socket (snd (sc_server_connect_to env s))))
                    \<subseteq> set (opened before)
              \<and> (video (params s) \<longrightarrow> video_socket (snd (sc_server_connect_to env s)) \<noteq> None)
              \<and> (audio (params s) \<longrightarrow> audio_socket (snd (sc_server_connect_to env s)) \<noteq> None)
              \<and> (control (params s) \<longrightarrow>
                    control_socket (snd (sc_server_connect_to env s)) \<noteq> None))))"
proof (intro conjI impI)
  show "\<not> enabled (tunnel (snd (sc_server_connect_to env s)))"
    by (simp add: sc_server_connect_to_keeps)
next
  assume en: "enabled (tunnel s)"
  let ?r = "sc_server_connect_to env s"
  obtain ok v a c s1 where est:
    "(if \<not> forward (tunnel s) then accept_sockets env s else connect_sockets env s)
       = (ok, v, a, c, s1)"
    by (rule establish_obtain)
  from establish_events [OF est] obtain evs where evs:
    "trace s1 = trace s @ evs"
    "set (closed evs) \<union> set (option_list v @ option_list a @ option_list c)
       \<subseteq> set (opened evs)"
    "filter is_tunnel_close evs = []" "filter is_recv_all evs = []"
    by blast
  let ?fs = "if video (params s) then v else if audio (params s) then a else c"
  let ?closes = "map EvNetClose (option_list v @ option_list a @ option_list c)"
  consider (setup_failed) "\<not> ok"
    | (read_failed) ok "short_read env ?fs"
    | (connected) ok "\<not> short_read env ?fs"
    by blast
  then show "\<exists>before after.
            new_events s (snd ?r) = before @ EvAdbTunnelClose # after
          \<and> filter is_tunnel_close before = [] \<and> filter is_tunnel_close after = []
          \<and> filter is_recv_all before = []
          \<and> (fst ?r \<longrightarrow>
                (\<exists>sock. after = [EvNetRecvAll sock SC_DEVICE_NAME_FIELD_LENGTH])
              \<and> set (option_list (video_socket (snd ?r)) @ option_list (audio_socket (snd ?r))
                       @ option_list (control_socket (snd ?r)))
                    \<subseteq> set (opened before)
              \<and> (video (params s) \<longrightarrow> video_socket (snd ?r) \<noteq> None)
              \<and> (audio (params s) \<longrightarrow> audio_socket (snd ?r) \<noteq> None)
              \<and> (control (params s) \<longrightarrow> control_socket (snd ?r) \<noteq> None))"
  proof cases
    case setup_failed
    with est have est': "(if \<not> forward (tunnel s) then accept_sockets env s
                          else connect_sockets env s) = (False, v, a, c, s1)"
      by simp
    have "trace (snd ?r) = trace s @ (evs @ ?closes) @ EvAdbTunnelClose # []"
      using sc_server_connect_to_setup_failed(2) [OF est'] en evs(1) by simp
    then have "new_events s (snd ?r) = (evs @ ?closes) @ EvAdbTunnelClose # []"
      by (rule new_events_append)
    moreover have "\<not> fst ?r"
      using sc_server_connect_to_setup_failed(1) [OF est'] by simp
    moreover have "filter is_tunnel_close (evs @ ?closes) = []"
      "filter is_recv_all (evs @ ?closes) = []"
      using evs(3,4) by (simp_all add: filter_closes del: map_append)
    ultimately show ?thesis
      by (rule_tac x = "evs @ ?closes" in exI, rule_tac x = "[]" in exI) simp
  next
    case read_failed
    with est have est': "(if \<not> forward (tunnel s) then accept_sockets env s
                          else connect_sockets env s) = (True, v, a, c, s1)"
      by simp
    have "trace (snd ?r)
            = trace s @ evs @ EvAdbTunnelClose
                # (EvNetRecvAll ?fs SC_DEVICE_NAME_FIELD_LENGTH # ?closes)"
      using sc_server_connect_to_read_failed(2) [OF est' read_failed(2)] evs(1) by simp
    then have "new_events s (snd ?r)
                 = evs @ EvAdbTunnelClose
                     # (EvNetRecvAll ?fs SC_DEVICE_NAME_FIELD_LENGTH # ?closes)"
      by (rule new_events_append)
    moreover have "\<not> fst ?r"
      using sc_server_connect_to_read_failed(1) [OF est' read_failed(2)] by simp
    moreover have
      "filter is_tunnel_close (EvNetRecvAll ?fs SC_DEVICE_NAME_FIELD_LENGTH # ?closes) = []"
      by (simp add: filter_closes del: map_append)
    ultimately show ?thesis using evs(3,4)
      by (rule_tac x = evs in exI,
          rule_tac x = "EvNetRecvAll ?fs SC_DEVICE_NAME_FIELD_LENGTH # ?closes" in exI) simp
  next
    case connected
    with est have est': "(if \<not> forward (tunnel s) then accept_sockets env s
                          else connect_sockets env s) = (True, v, a, c, s1)"
      by simp
    note conn = sc_server_connect_to_connected [OF est' connected(2)]
    have "trace (snd ?r)
            = trace s @ evs @ EvAdbTunnelClose # [EvNetRecvAll ?fs SC_DEVICE_NAME_FIELD_LENGTH]"
      using conn(2) evs(1) by simp
    then have new: "new_events s (snd ?r)
                 = evs @ EvAdbTunnelClose # [EvNetRecvAll ?fs SC_DEVICE_NAME_FIELD_LENGTH]"
      by (rule new_events_append)
    have kept: "set (option_list (video_socket (snd ?r)) @ option_list (audio_socket (snd ?r))
                       @ option_list (control_socket (snd ?r))) \<subseteq> set (opened evs)"
      using evs(2) by (simp add: conn(3-5))
    have each: "(video (params s) \<longrightarrow> video_socket (snd ?r) \<noteq> None)
              \<and> (audio (params s) \<longrightarrow> audio_socket (snd ?r) \<noteq> None)
              \<and> (control (params s) \<longrightarrow> control_socket (snd ?r) \<noteq> None)"
      using establish_ok [OF est'] by (simp add: conn(3-5))
    show ?thesis
    proof (rule exI [of _ evs],
        rule exI [of _ "[EvNetRecvAll ?fs SC_DEVICE_NAME_FIELD_LENGTH]"], intro conjI impI)
      show "new_events s (snd ?r)
              = evs @ EvAdbTunnelClose # [EvNetRecvAll ?fs SC_DEVICE_NAME_FIELD_LENGTH]"
        by (rule new)
      show "filter is_tunnel_close evs = []" by (rule evs(3))
      show "filter is_recv_all evs = []" by (rule evs(4))
      show "filter is_tunnel_close [EvNetRecvAll ?fs SC_DEVICE_NAME_FIELD_LENGTH] = []"
        by simp
      show "\<exists>sock. [EvNetRecvAll ?fs SC_DEVICE_NAME_FIELD_LENGTH]
                     = [EvNetRecvAll sock SC_DEVICE_NAME_FIELD_LENGTH]"
        by blast
      show "set (option_list (video_socket (snd ?r)) @ option_list (audio_socket (snd ?r))
                       @ option_list (control_socket (snd ?r))) \<subseteq> set (opened evs)"
        by (rule kept)
      show "video (params s) \<Longrightarrow> video_socket (snd ?r) \<noteq> None" using each by blast
      show "audio (params s) \<Longrightarrow> audio_socket (snd ?r) \<noteq> None" using each by blast
      show "control (params s) \<Longrightarrow> control_socket (snd ?r) \<noteq> None" using each by blast
    qed
  qed
qed

theorem connect_to_leaves_tunnel_closed_witness:
  "enabled (tunnel s_reverse)
   \<and> \<not> enabled (tunnel (snd (sc_server_connect_to env_default s_reverse)))
   \<and> (\<exists>before after.
          new_events s_reverse (snd (sc_server_connect_to env_default s_reverse))
            = before @ EvAdbTunnelClose # after
        \<and> filter is_tunnel_close before = [] \<and> filter is_tunnel_close after = []
        \<and> filter is_recv_all before = [])"
proof -
  have en: "enabled (tunnel s_reverse)" by (simp add: s_reverse_def)
  from connect_to_leaves_tunnel_closed [of env_default s_reverse] en
  show ?thesis by blast
qed
section \<open>The callbacks of a run and the name of the device socket\<close>

lemma callbacks_map: "callbacks (map EvCallback cbs) = cbs"
  by (induction cbs) (simp_all add: callbacks_def)

lemma observers_map: "filter is_observer_init (map EvCallback cbs) = []"
  by (induction cbs) simp_all

lemma params_list_fields:
  "tcpip_dst (params (sc_server_init params_list)) = None"
  "\<not> tcpip (params (sc_server_init params_list))"
  "list_encoders (params (sc_server_init params_list))"
  "trace (sc_server_init params_list) = []"
  by (simp_all add: sc_server_init_def params_list_def params_default_def)

lemma s_init_fields:
  "tcpip_dst (params s_init) = None" "\<not> tcpip (params s_init)"
  "\<not> (list_encoders (params s_init) \<or> list_displays (params s_init)
       \<or> list_cameras (params s_init))"
  "device_socket_name s_init = None" "scid (params s_init) = 0x0A1B2C3D"
  "video (params s_init)" "\<not> force_adb_forward (params s_init)" "trace s_init = []"
  by (simp_all add: s_init_def sc_server_init_def params_default_def)

lemma mirror_run_default:
  assumes "(\<forall>k. acc k) \<or> (\<forall>k. \<not> acc k)"
  shows "fst (run_server (env_default\<lparr>e_remote_exit := x, e_net_accept := acc\<rparr>) s_init)
           = (if \<not> acc 0 then Returned (- 1) else Returned 0)"
    and "callbacks (trace (snd (run_server
                      (env_default\<lparr>e_remote_exit := x, e_net_accept := acc\<rparr>) s_init)))
           = (if \<not> acc 0 then [ON_DISCONNECTED, ON_CONNECTION_FAILED]
              else if x = EXIT_EARLY then [ON_DISCONNECTED, ON_CONNECTED]
              else [ON_CONNECTED, ON_DISCONNECTED])"
proof -
  let ?env = "env_default\<lparr>e_remote_exit := x, e_net_accept := acc\<rparr>"
  from run_server_default [OF s_init_fields(1,2), where x = x and acc = acc] s_init_fields(3)
  obtain ser s3 where s3: "run_server ?env s_init = run_server_mirror ?env ser s3"
    "params s3 = params s_init" "top_events s3 = top_events s_init"
    by auto
  have vid: "video (params s3)" and fwd: "\<not> force_adb_forward (params s3)"
    using s_init_fields(6,7) by (simp_all add: s3(2))
  note m = run_server_mirror_default [OF vid fwd assms, where x = x and ser = ser]
  show "fst (run_server ?env s_init) = (if \<not> acc 0 then Returned (- 1) else Returned 0)"
    unfolding s3(1) by (rule m(2))
  have "top_events s3 = []" unfolding s3(3) by (simp add: top_events_def s_init_fields(8))
  then have "callbacks (top_events (snd (run_server ?env s_init)))
               = (if \<not> acc 0 then [ON_DISCONNECTED, ON_CONNECTION_FAILED]
                  else if x = EXIT_EARLY then [ON_DISCONNECTED, ON_CONNECTED]
                  else [ON_CONNECTED, ON_DISCONNECTED])"
    unfolding s3(1) m(1) by (simp add: callbacks_def)
  then show "callbacks (trace (snd (run_server ?env s_init)))
           = (if \<not> acc 0 then [ON_DISCONNECTED, ON_CONNECTION_FAILED]
              else if x = EXIT_EARLY then [ON_DISCONNECTED, ON_CONNECTED]
              else [ON_CONNECTED, ON_DISCONNECTED])"
    by (simp only: top_events_def callbacks_top_level)
qed

theorem callback_patterns_counterexample:
  "fst (run_server env_default (sc_server_init params_list)) = Returned 0
   \<and> callbacks (trace (snd (run_server env_default (sc_server_init params_list))))
       = [ON_CONNECTED]
   \<and> filter is_observer_init (trace (snd (run_server env_default (sc_server_init params_list))))
       = []
   \<and> fst (run_server env_remote_exits s_init) = Returned (- 1)
   \<and> callbacks (trace (snd (run_server env_remote_exits s_init)))
       = [ON_DISCONNECTED, ON_CONNECTION_FAILED]
   \<and> fst (run_server env_early_exit s_init) = Returned 0
   \<and> callbacks (trace (snd (run_server env_early_exit s_init)))
       = [ON_DISCONNECTED, ON_CONNECTED]"
proof -
  let ?s = "sc_server_init params_list"
  let ?r = "run_server env_default ?s"
  from run_server_default [OF params_list_fields(1,2),
      where x = EXIT_ON_STOP and acc = "\<lambda>k. True", unfolded env_default_family] params_list_fields(3)
  obtain s3 where "?r = run_server_list env_default s3" by auto
  then have ret: "fst ?r = Returned 0" by (simp add: run_server_list_default)
  from run_server_events(1) [of env_default ?s] obtain pre cbs where pc:
    "top_events (snd ?r) = top_events ?s @ pre @ map EvCallback cbs"
    "fst ?r = Returned (- 1) \<or> fst ?r = Blocked
     \<or> \<not> (list_encoders (params ?s) \<or> list_displays (params ?s) \<or> list_cameras (params ?s))
     \<or> pre = [] \<and> cbs = [ON_CONNECTED]"
    by blast
  from pc(2) ret params_list_fields(3) have "pre = []" "cbs = [ON_CONNECTED]" by auto
  with pc(1) have top: "filter top_level (trace (snd ?r)) = [EvCallback ON_CONNECTED]"
    by (simp add: top_events_def params_list_fields(4))
  have "callbacks (trace (snd ?r)) = callbacks (filter top_level (trace (snd ?r)))"
    by (simp only: callbacks_top_level)
  then have cb: "callbacks (trace (snd ?r)) = [ON_CONNECTED]"
    unfolding top by (simp add: callbacks_def)
  have "filter is_observer_init (trace (snd ?r))
          = filter is_observer_init (filter top_level (trace (snd ?r)))"
    by (simp only: observers_top_level)
  then have ob: "filter is_observer_init (trace (snd ?r)) = []"
    unfolding top by simp
  have none: "(\<forall>k. (\<lambda>k. False) k) \<or> (\<forall>k. \<not> (\<lambda>k. False) k)" by simp
  note m = mirror_run_default [OF none, where x = EXIT_EARLY, unfolded env_default_family]
  have every: "(\<forall>k. (\<lambda>k. True) k) \<or> (\<forall>k. \<not> (\<lambda>k. True) k)" by simp
  note e = mirror_run_default [OF every, where x = EXIT_EARLY, unfolded env_default_family]
  from ret cb ob m e show ?thesis by simp
qed

text \<open>
  C1, as the code has it. Every run of the worker fires exactly one of
  \<open>on_connection_failed\<close> and \<open>on_connected\<close>, once: the first when it returns -1, the
  second otherwise. \<open>on_disconnected\<close> is fired by the listener of the process
  observer, not by the worker. A run that fails before the observer is attached fires
  \<open>on_connection_failed\<close> alone; one that fails after it fires \<open>on_disconnected\<close> and
  then \<open>on_connection_failed\<close>. A \<open>list_*\<close> query that succeeds attaches no observer
  and fires \<open>on_connected\<close> alone. A mirroring run that returns 0 has attached one
  observer and fired \<open>on_connected\<close> and \<open>on_disconnected\<close> once each, \<open>on_connected\<close>
  first unless the remote process ended before the connection phase was over. A run
  that waits for a \<open>stop()\<close> that never comes has fired \<open>on_connected\<close>, and
  \<open>on_disconnected\<close> too if the remote process has ended by itself.
\<close>

theorem worker_callback_patterns:
  "\<exists>cbs obs.
       callbacks (trace (snd (run_server env s))) = callbacks (trace s) @ cbs
     \<and> filter is_observer_init (trace (snd (run_server env s)))
         = filter is_observer_init (trace s) @ obs
     \<and> (fst (run_server env s) = Returned (- 1)
          \<and> obs = [] \<and> cbs = [ON_CONNECTION_FAILED]
        \<or> fst (run_server env s) = Returned (- 1)
          \<and> \<not> (list_encoders (params s) \<or> list_displays (params s) \<or> list_cameras (params s))
          \<and> (\<exists>pd. obs = [EvObserverInit pd])
          \<and> cbs = [ON_DISCONNECTED, ON_CONNECTION_FAILED]
        \<or> fst (run_server env s) = Returned 0
          \<and> (list_encoders (params s) \<or> list_displays (params s) \<or> list_cameras (params s))
          \<and> obs = [] \<and> cbs = [ON_CONNECTED]
        \<or> fst (run_server env s) = Returned 0
          \<and> \<not> (list_encoders (params s) \<or> list_displays (params s) \<or> list_cameras (params s))
          \<and> (\<exists>pd. obs = [EvObserverInit pd])
          \<and> cbs = (if e_remote_exit env = EXIT_EARLY then [ON_DISCONNECTED, ON_CONNECTED]
                    else [ON_CONNECTED, ON_DISCONNECTED])
        \<or> fst (run_server env s) = Blocked
          \<and> \<not> (list_encoders (params s) \<or> list_displays (params s) \<or> list_cameras (params s))
          \<and> (\<exists>pd. obs = [EvObserverInit pd])
          \<and> cbs = (case e_remote_exit env of
                      EXIT_EARLY \<Rightarrow> [ON_DISCONNECTED, ON_CONNECTED]
                    | EXIT_CONNECTED \<Rightarrow> [ON_CONNECTED, ON_DISCONNECTED]
                    | EXIT_ON_STOP \<Rightarrow> [ON_CONNECTED]))"
proof -
  let ?r = "run_server env s"
  let ?listing = "list_encoders (params s) \<or> list_displays (params s) \<or> list_cameras (params s)"
  from run_server_events(1) [of env s] obtain pre cbs where pc:
    "top_events (snd ?r) = top_events s @ pre @ map EvCallback cbs"
    "callbacks pre = []"
    "fst ?r = Returned (- 1)
          \<and> filter is_observer_init pre = [] \<and> cbs = [ON_CONNECTION_FAILED]
        \<or> fst ?r = Returned (- 1) \<and> \<not> ?listing
          \<and> (\<exists>pd. filter is_observer_init pre = [EvObserverInit pd])
          \<and> cbs = [ON_DISCONNECTED, ON_CONNECTION_FAILED]
        \<or> fst ?r = Returned 0 \<and> ?listing \<and> pre = [] \<and> cbs = [ON_CONNECTED]
        \<or> fst ?r = Returned 0 \<and> \<not> ?listing
          \<and> (\<exists>pd. filter is_observer_init pre = [EvObserverInit pd])
          \<and> cbs = (if e_remote_exit env = EXIT_EARLY then [ON_DISCONNECTED, ON_CONNECTED]
                    else [ON_CONNECTED, ON_DISCONNECTED])
        \<or> fst ?r = Blocked \<and> \<not> ?listing
          \<and> (\<exists>pd. filter is_observer_init pre = [EvObserverInit pd])
          \<and> cbs = (case e_remote_exit env of
                      EXIT_EARLY \<Rightarrow> [ON_DISCONNECTED, ON_CONNECTED]
                    | EXIT_CONNECTED \<Rightarrow> [ON_CONNECTED, ON_DISCONNECTED]
                    | EXIT_ON_STOP \<Rightarrow> [ON_CONNECTED])"
    by blast
  have "callbacks (trace (snd ?r)) = callbacks (top_events (snd ?r))"
    by (simp only: top_events_def callbacks_top_level)
  also have "\<dots> = callbacks (top_events s) @ callbacks pre @ cbs"
    unfolding pc(1) by (simp only: callbacks_append callbacks_map)
  also have "\<dots> = callbacks (trace s) @ cbs"
    by (simp only: pc(2) top_events_def callbacks_top_level append_Nil)
  finally have cb: "callbacks (trace (snd ?r)) = callbacks (trace s) @ cbs" .
  have "filter is_observer_init (trace (snd ?r))
          = filter is_observer_init (top_events (snd ?r))"
    by (simp only: top_events_def observers_top_level)
  also have "\<dots> = filter is_observer_init (top_events s) @ filter is_observer_init pre"
    unfolding pc(1) by (simp only: filter_append observers_map append_Nil2)
  also have "\<dots> = filter is_observer_init (trace s) @ filter is_observer_init pre"
    by (simp only: top_events_def observers_top_level)
  finally have ob: "filter is_observer_init (trace (snd ?r))
                      = filter is_observer_init (trace s) @ filter is_observer_init pre" .
  from pc(3) have cases': "fst ?r = Returned (- 1)
          \<and> filter is_observer_init pre = [] \<and> cbs = [ON_CONNECTION_FAILED]
        \<or> fst ?r = Returned (- 1) \<and> \<not> ?listing
          \<and> (\<exists>pd. filter is_observer_init pre = [EvObserverInit pd])
          \<and> cbs = [ON_DISCONNECTED, ON_CONNECTION_FAILED]
        \<or> fst ?r = Returned 0 \<and> ?listing \<and> filter is_observer_init pre = []
          \<and> cbs = [ON_CONNECTED]
        \<or> fst ?r = Returned 0 \<and> \<not> ?listing
          \<and> (\<exists>pd. filter is_observer_init pre = [EvObserverInit pd])
          \<and> cbs = (if e_remote_exit env = EXIT_EARLY then [ON_DISCONNECTED, ON_CONNECTED]
                    else [ON_CONNECTED, ON_DISCONNECTED])
        \<or> fst ?r = Blocked \<and> \<not> ?listing
          \<and> (\<exists>pd. filter is_observer_init pre = [EvObserverInit pd])
          \<and> cbs = (case e_remote_exit env of
                      EXIT_EARLY \<Rightarrow> [ON_DISCONNECTED, ON_CONNECTED]
                    | EXIT_CONNECTED \<Rightarrow> [ON_CONNECTED, ON_DISCONNECTED]
                    | EXIT_ON_STOP \<Rightarrow> [ON_CONNECTED])"
    by (elim disjE) simp_all
  show ?thesis
    by (rule exI [of _ cbs], rule exI [of _ "filter is_observer_init pre"], intro conjI)
       (rule cb, rule ob, rule cases')
qed

theorem worker_callback_patterns_witness:
  "\<not> list_encoders (params s_init) \<and> \<not> list_displays (params s_init)
   \<and> \<not> list_cameras (params s_init)
   \<and> fst (run_server env_default s_init) = Returned 0
   \<and> callbacks (trace (snd (run_server env_default s_init)))
       = [ON_CONNECTED, ON_DISCONNECTED]
   \<and> (\<exists>pd. filter is_observer_init (trace (snd (run_server env_default s_init)))
              = [EvObserverInit pd])"
proof -
  have all: "(\<forall>k. (\<lambda>k. True) k) \<or> (\<forall>k. \<not> (\<lambda>k. True) k)" by simp
  have ret: "fst (run_server env_default s_init) = Returned 0"
    using mirror_run_default(1) [OF all, where x = EXIT_ON_STOP, unfolded env_default_family]
    by simp
  have exit: "e_remote_exit env_default = EXIT_ON_STOP" by (simp add: env_default_def)
  from worker_callback_patterns [of env_default s_init]
  obtain cbs obs where co:
    "callbacks (trace (snd (run_server env_default s_init))) = callbacks (trace s_init) @ cbs"
    "filter is_observer_init (trace (snd (run_server env_default s_init)))
       = filter is_observer_init (trace s_init) @ obs"
    "fst (run_server env_default s_init) = Returned (- 1)
     \<or> list_encoders (params s_init) \<or> list_displays (params s_init)
     \<or> list_cameras (params s_init)
     \<or> fst (run_server env_default s_init) = Blocked
     \<or> (\<exists>pd. obs = [EvObserverInit pd])
        \<and> cbs = (if e_remote_exit env_default = EXIT_EARLY
                  then [ON_DISCONNECTED, ON_CONNECTED] else [ON_CONNECTED, ON_DISCONNECTED])"
    by (elim exE conjE disjE) (rule that, assumption, assumption, simp)+
  from co(3) ret s_init_fields(3) exit have "\<exists>pd. obs = [EvObserverInit pd]"
    and "cbs = [ON_CONNECTED, ON_DISCONNECTED]"
    by simp_all
  with co(1,2) ret s_init_fields(3) show ?thesis
    by (simp add: s_init_fields(8) callbacks_def)
qed

text \<open>
  C6: whenever a run of the worker has set the name of the device socket, that name
  is \<open>scrcpy_\<close> followed by eight lowercase hexadecimal digits whose value is the
  \<open>scid\<close>; the \<open>scid=\<close> argument of \<open>execute_server\<close> carries the same eight digits, and
  they are in the command that \<open>execute_server\<close> passes to the bridge.
\<close>

theorem remote_socket_name_format:
  assumes "device_socket_name s = None"
    and "device_socket_name (snd (run_server env s)) = Some name"
  shows "\<exists>suffix. name = ''scrcpy_'' @ suffix
           \<and> suffix = fmt_08x (scid (params s))
           \<and> length suffix = 8
           \<and> (\<forall>c\<in>set suffix. is_lower_hex c)
           \<and> hex_value suffix = unat (scid (params s))
           \<and> (\<forall>fwd. args_of_key ''scid'' (execute_server_params (params s) fwd)
                       = [''scid='' @ suffix])
           \<and> (\<forall>env' st. (\<forall>k. e_alloc env' k) \<longrightarrow>
                 (\<exists>argv. filter is_execute
                            (new_events st (snd (execute_server env' (params s) st)))
                          = [EvAdbExecute argv]
                        \<and> Some (''scid='' @ suffix) \<in> set argv))"
proof -
  let ?suffix = "fmt_08x (scid (params s))"
  from run_server_events(2) [of env s] assms
  have name: "name = ''scrcpy_'' @ ?suffix"
    by (simp add: SC_SOCKET_NAME_PREFIX_def)
  have key: "args_of_key ''scid'' (execute_server_params (params s) fwd)
               = [''scid='' @ ?suffix]" for fwd
    by (rule key_scid)
  have passed: "\<exists>argv. filter is_execute
                            (new_events st (snd (execute_server env' (params s) st)))
                          = [EvAdbExecute argv]
                        \<and> Some (''scid='' @ ?suffix) \<in> set argv"
    if "\<forall>k. e_alloc env' k" for env' st
  proof -
    have "''scid='' @ ?suffix
            \<in> set (args_of_key ''scid'' (execute_server_params (params s) (forward (tunnel st))))"
      by (simp add: key)
    then have "''scid='' @ ?suffix
                 \<in> set (execute_server_params (params s) (forward (tunnel st)))"
      by (simp add: args_of_key_def)
    then have "Some (''scid='' @ ?suffix)
                 \<in> set (map cmd_arg_text (execute_server_cmd env' st)
                        @ map Some (execute_server_params (params s) (forward (tunnel st)))
                        @ [None])"
      by simp
    with execute_server_argv [OF that, of st "params s"] show ?thesis by blast
  qed
  show ?thesis
  proof (rule exI [of _ ?suffix], intro conjI allI impI)
    show "name = ''scrcpy_'' @ ?suffix" by (rule name)
    show "?suffix = fmt_08x (scid (params s))" by (rule refl)
    show "length ?suffix = 8" by (rule length_fmt_08x)
    show "\<forall>c\<in>set ?suffix. is_lower_hex c" by (rule fmt_08x_chars)
    show "hex_value ?suffix = unat (scid (params s))" by (rule hex_value_fmt_08x)
    show "args_of_key ''scid'' (execute_server_params (params s) fwd)
            = [''scid='' @ ?suffix]" for fwd
      by (rule key)
    show "\<exists>argv. filter is_execute
                            (new_events st (snd (execute_server env' (params s) st)))
                          = [EvAdbExecute argv]
                        \<and> Some (''scid='' @ ?suffix) \<in> set argv"
      if "\<forall>k. e_alloc env' k" for env' st
      using that by (rule passed)
  qed
qed

lemma socket_name_default:
  "device_socket_name (snd (run_server env_default s_init)) = Some ''scrcpy_0a1b2c3d''"
proof -
  from run_server_default [OF s_init_fields(1,2),
      where x = EXIT_ON_STOP and acc = "\<lambda>k. True", unfolded env_default_family] s_init_fields(3)
  obtain ser s3 where s3: "run_server env_default s_init = run_server_mirror env_default ser s3"
    "params s3 = params s_init"
    by auto
  have "e_alloc env_default (n_alloc s3)" by (simp add: env_default_def)
  then show ?thesis
    unfolding s3(1) run_server_mirror_events(2)
    by (simp add: s3(2) s_init_fields(5) fmt_08x_scenario SC_SOCKET_NAME_PREFIX_def)
qed

theorem remote_socket_name_format_witness:
  "device_socket_name s_init = None
   \<and> device_socket_name (snd (run_server env_default s_init)) = Some ''scrcpy_0a1b2c3d''
   \<and> hex_value ''0a1b2c3d'' = unat (scid (params s_init))
   \<and> args_of_key ''scid'' (execute_server_params (params s_init) False) = [''scid=0a1b2c3d'']"
proof -
  from remote_socket_name_format [OF s_init_fields(4) socket_name_default]
  obtain suffix where suffix: "''scrcpy_0a1b2c3d'' = ''scrcpy_'' @ suffix"
    "hex_value suffix = unat (scid (params s_init))"
    "\<forall>fwd. args_of_key ''scid'' (execute_server_params (params s_init) fwd)
             = [''scid='' @ suffix]"
    by blast
  from suffix(1) have "suffix = ''0a1b2c3d''" by simp
  with suffix(2,3) s_init_fields(4) socket_name_default show ?thesis by simp
qed

end
